theory Spec2Isabelle
  imports Main "HOL-Library.Word"
begin

section \<open>The SMTP checker of keepalived (check\_smtp.c)\<close>

text \<open>
  A shallow embedding of the asynchronous SMTP health check in
  \<^verbatim>\<open>keepalived/check/check_smtp.c\<close>. Every callback of the C file is a function from the
  checker's state to the new state and the list of actions the callback performs on the outside
  world (system calls, scheduler registrations, log lines, health transitions, alerts), in the
  order the C code performs them. What the outside world answers during one callback (the result
  of \<^verbatim>\<open>read\<close>, \<^verbatim>\<open>write\<close>, \<^verbatim>\<open>socket\<close>, of the TCP helpers, the alive flag of the real server
  after a transition) is the \<open>env\<close> argument of the callback.
\<close>

subsection \<open>Bytes and C strings\<close>

definition NUL :: char where
  "NUL = CHR 0x00"

definition LF :: char where
  "LF = CHR 0x0A"

definition SP :: char where
  "SP = CHR 0x20"

text \<open>\<^verbatim>\<open>isspace\<close> and \<^verbatim>\<open>isdigit\<close> of the C locale.\<close>

definition isspace :: "char \<Rightarrow> bool" where
  "isspace c = (c = CHR 0x20 \<or> c = CHR 0x09 \<or> c = CHR 0x0A \<or> c = CHR 0x0B \<or> c = CHR 0x0C \<or> c = CHR 0x0D)"

definition isdigit :: "char \<Rightarrow> bool" where
  "isdigit c = (48 \<le> (of_char c :: nat) \<and> (of_char c :: nat) \<le> 57)"

definition digit_val :: "char \<Rightarrow> int" where
  "digit_val c = of_char c - 48"

text \<open>
  A character array is a list of bytes. Reading the array as a C string stops at the first
  \<open>NUL\<close>; the end of the list counts as a terminator too.
\<close>

definition c_str :: "string \<Rightarrow> string" where
  "c_str s = takeWhile (\<lambda>c. c \<noteq> NUL) s"

definition strlen :: "string \<Rightarrow> nat" where
  "strlen s = length (c_str s)"

definition byte_at :: "string \<Rightarrow> nat \<Rightarrow> char" where
  "byte_at s i = (if i < length s then s ! i else NUL)"

text \<open>
  \<^verbatim>\<open>strtoul(nptr, &endptr, 10)\<close> of the C library: skip white space, take an optional sign, then
  the longest run of decimal digits. Without a digit nothing is consumed and the value is 0. The
  value saturates at \<^verbatim>\<open>ULONG_MAX\<close>, and a minus sign negates it in \<^verbatim>\<open>unsigned long\<close>
  (64 bits here). The result is the value and \<^verbatim>\<open>endptr - nptr\<close>.
\<close>

definition decimal :: "string \<Rightarrow> int" where
  "decimal ds = foldl (\<lambda>a d. 10 * a + digit_val d) 0 ds"

definition strtoul :: "string \<Rightarrow> 64 word \<times> nat" where
  "strtoul s =
     (let ws = takeWhile isspace s;
          s1 = dropWhile isspace s;
          signed = (s1 \<noteq> [] \<and> (hd s1 = CHR ''+'' \<or> hd s1 = CHR ''-''));
          neg = (s1 \<noteq> [] \<and> hd s1 = CHR ''-'');
          s2 = (if signed then tl s1 else s1);
          ds = takeWhile isdigit s2;
          n = decimal ds
      in if ds = [] then (0, 0)
         else ((if 2 ^ 64 \<le> n then - 1 else if neg then - (word_of_int n) else word_of_int n),
               length ws + (if signed then 1 else 0) + length ds))"

text \<open>
  \<^verbatim>\<open>smtp_get_status\<close>: the status is the \<^verbatim>\<open>unsigned long\<close> stored into an \<^verbatim>\<open>int\<close>
  (the low 32 bits, read as two's complement). The answer is \<open>-1\<close> unless \<^verbatim>\<open>endptr\<close> is three
  bytes into the buffer and points at a \<open>NUL\<close> or a space.
\<close>

definition smtp_get_status :: "string \<Rightarrow> int" where
  "smtp_get_status buff =
     (let (v, endptr) = strtoul buff;
          status = sint (ucast v :: 32 word)
      in if endptr \<noteq> 3 \<or> (byte_at buff endptr \<noteq> NUL \<and> byte_at buff endptr \<noteq> SP)
         then - 1 else status)"


text \<open>
  The status parser as the specification words it: the answer is the number if exactly three
  digits stand at offset 0 and the byte after them is a space or the end of the content, and
  \<open>-1\<close> otherwise.
\<close>

definition status_spec :: "string \<Rightarrow> int" where
  "status_spec b =
     (let ds = takeWhile isdigit b
      in if length ds = 3 \<and> (byte_at b 3 = NUL \<or> byte_at b 3 = SP) then decimal ds else - 1)"

subsection \<open>Data\<close>

text \<open>
  \<^verbatim>\<open>conn_opts_t\<close>: one target of the check. Only the address family of the destination and the
  connection timeout are read by the check itself.
\<close>

record conn_opts =
  dst_ss_family :: nat
  connection_to :: nat

text \<open>\<^verbatim>\<open>enum connect_result\<close> of the layer-4 helpers.\<close>

datatype connect_result = connect_error | connect_in_progress | connect_timeout | connect_success

text \<open>
  The values of \<^verbatim>\<open>smtp_checker->state\<close>. The field is an integer in C;
  \<open>SMTP_UNKNOWN n\<close> stands for every value that is none of the six named ones.
\<close>

datatype smtp_state =
    SMTP_START
  | SMTP_HAVE_BANNER
  | SMTP_SENT_HELO
  | SMTP_RECV_HELO
  | SMTP_SENT_QUIT
  | SMTP_RECV_QUIT
  | SMTP_UNKNOWN int

text \<open>
  Function pointers. \<open>func\<close> are the functions of this file that are handed to the scheduler;
  \<open>callback\<close> is what \<^verbatim>\<open>smtp_get_line\<close> and \<^verbatim>\<open>smtp_put_line\<close> are given to call once the line
  is there or gone: every call site passes \<^verbatim>\<open>smtp_engine_thread\<close>.
\<close>

datatype func =
    F_smtp_connect_thread
  | F_smtp_check_thread
  | F_smtp_get_line_cb
  | F_smtp_put_line_cb

datatype callback = CB_smtp_engine_thread

text \<open>
  \<^verbatim>\<open>smtp_checker_t\<close>. \<open>buff\<close> is the array \<^verbatim>\<open>char buff[SMTP_BUFF_MAX]\<close>; \<open>host_ptr\<close> and
  \<open>buff_cb\<close> are pointers, \<open>None\<close> is \<^verbatim>\<open>NULL\<close>.
\<close>

record smtp_checker =
  helo_name :: string
  host :: "conn_opts list"
  host_ctr :: nat
  host_ptr :: "conn_opts option"
  state :: smtp_state
  buff :: string
  buff_ctr :: nat
  buff_cb :: "callback option"

text \<open>\<^verbatim>\<open>real_server_t\<close>, the fields the check reads.\<close>

record real_server =
  alive :: bool
  smtp_alert_flag :: bool

text \<open>
  \<^verbatim>\<open>checker_t\<close>. The counters \<open>retry_it\<close> and \<open>host_ctr\<close> are unsigned machine integers
  in C; they are natural numbers here, and every value they take in a run is bounded by
  \<open>retry\<close> plus one and by the length of the host list plus one.
\<close>

record checker =
  enabled :: bool
  is_up :: bool
  has_run :: bool
  retry :: nat
  retry_it :: nat
  delay_loop :: nat
  delay_before_retry :: nat
  rs :: real_server
  data :: smtp_checker

text \<open>\<^verbatim>\<open>thread_t\<close>: why the scheduler runs the callback, and \<^verbatim>\<open>thread->u.fd\<close>.\<close>

datatype thread_type =
    THREAD_READ
  | THREAD_WRITE
  | THREAD_TIMER
  | THREAD_READ_TIMEOUT
  | THREAD_WRITE_TIMEOUT

record thread =
  thread_type :: thread_type
  fd :: int

text \<open>
  What a callback does to the outside world. A registration carries the function registered,
  the descriptor and the timeout or delay.
\<close>

datatype action =
    Close int
  | Log_message string
  | Thread_add_timer func nat
  | Thread_add_read func int nat
  | Thread_add_write func int nat
  | Thread_del_read
  | Thread_del_write
  | Read int nat
  | Write int string
  | Socket nat
  | Tcp_bind_connect int
  | Tcp_connection_state int connect_result func nat
  | Tcp_socket_state func
  | Update_svr_checker_state bool
  | Smtp_alert string

text \<open>The macros \<^verbatim>\<open>UP\<close> and \<^verbatim>\<open>DOWN\<close>.\<close>

definition UP :: bool where
  "UP = True"

definition DOWN :: bool where
  "DOWN = False"

text \<open>
  The answers of the outside world during one callback. \<open>read_ret\<close>: \<open>Inl again\<close> is a
  return of \<open>-1\<close>, \<open>again\<close> telling whether \<^verbatim>\<open>errno\<close> is \<^verbatim>\<open>EAGAIN\<close> or \<^verbatim>\<open>EINTR\<close>;
  \<open>Inr bytes\<close> are the bytes the peer has sent, of which \<^verbatim>\<open>read\<close> delivers as many as the
  caller asks for (none: the peer has closed). \<open>write_ret\<close> likewise, \<open>Inr n\<close> being the number
  of bytes the kernel is ready to take. \<open>socket_ret\<close> is the descriptor or \<open>-1\<close>.
\<close>

record env =
  read_ret :: "bool + string"
  write_ret :: "bool + nat"
  socket_ret :: int
  tcp_bind_connect_ret :: connect_result
  tcp_connection_state_ret :: bool
  tcp_socket_state_ret :: connect_result
  rs_alive_ret :: bool
  no_checker_emails :: bool

text \<open>A callback either faults on a null pointer or returns the new state and its actions.\<close>

datatype fault = NULL_host_ptr | NULL_buff_cb

type_synonym outcome = "fault + checker \<times> action list"

subsection \<open>Helpers that are not part of check\_smtp.c\<close>

text \<open>
  Modelled from the spec: \<^verbatim>\<open>update_svr_checker_state\<close> (check\_api.c is not among the
  sources). The spec calls it the health-state transition call taking the backend and the new
  state; the checker becomes up or down as asked and has completed a check. Whether the alive
  flag of the real server flips with it is decided outside the check (other checkers of the same
  server), so the new flag is an answer of the outside world.
\<close>

definition update_svr_checker_state :: "env \<Rightarrow> bool \<Rightarrow> checker \<Rightarrow> checker" where
  "update_svr_checker_state e up checker =
     checker\<lparr>is_up := up, has_run := True, rs := (rs checker)\<lparr>alive := rs_alive_ret e\<rparr>\<rparr>"

text \<open>
  Modelled from the spec: \<^verbatim>\<open>list_element\<close> (list.c is not among the sources): the element
  at the index, \<^verbatim>\<open>NULL\<close> when the index is past the end.
\<close>

definition list_element :: "'a list \<Rightarrow> nat \<Rightarrow> 'a option" where
  "list_element l n = (if n < length l then Some (l ! n) else None)"

text \<open>
  \<^verbatim>\<open>snprintf(buff, n, ...)\<close> of the C library, given the formatted text: at most
  \<open>n - 1\<close> bytes of it are stored, then a \<open>NUL\<close>; the rest of the array stays.
\<close>

definition snprintf :: "string \<Rightarrow> nat \<Rightarrow> string \<Rightarrow> string" where
  "snprintf b n line =
     (if n = 0 then b
      else (let s = take (n - 1) line in s @ [NUL] @ drop (Suc (length s)) b))"


definition CRLF :: string where
  "CRLF = [CHR 0x0D, CHR 0x0A]"

text \<open>The actions of a callee come after the actions done so far.\<close>

definition after :: "action list \<Rightarrow> outcome \<Rightarrow> outcome" where
  "after acts out = (case out of Inl f \<Rightarrow> Inl f | Inr (c, acts') \<Rightarrow> Inr (c, acts @ acts'))"

subsection \<open>Finalization: smtp\_final\<close>

text \<open>
  \<^verbatim>\<open>smtp_final(thread, error, format, ...)\<close>. The format string is kept as it is written in
  the source; its arguments (the address of the server) are not part of the model. The texts
  are cut as \<^verbatim>\<open>strncat\<close> and \<^verbatim>\<open>snprintf\<close> cut them.
\<close>

definition smtp_final :: "env \<Rightarrow> thread \<Rightarrow> bool \<Rightarrow> string option \<Rightarrow> checker \<Rightarrow> checker \<times> action list" where
  "smtp_final e thread error format checker0 =
     (let acts = [Close (fd thread)];
          checker = checker0\<lparr>retry_it := retry_it checker0 + 1\<rparr>
      in if error then
           (let acts = acts @
                  (if is_up checker
                   then [Log_message (case format of
                           Some f \<Rightarrow> ''SMTP_CHECK '' @ take 500 f
                         | None \<Rightarrow> ''SMTP_CHECK Unknown error'')]
                   else [])
            in if retry_it checker < retry checker then
                 (checker, acts @ [Thread_add_timer F_smtp_connect_thread (delay_before_retry checker)])
               else
                 (let (checker, acts) =
                        (if is_up checker \<or> \<not> has_run checker then
                           (let checker_was_up = is_up checker;
                                rs_was_alive = alive (rs checker);
                                checker = update_svr_checker_state e DOWN checker;
                                acts = acts @ [Update_svr_checker_state DOWN]
                            in if smtp_alert_flag (rs checker) \<and> checker_was_up \<and>
                                  (rs_was_alive \<noteq> alive (rs checker) \<or> \<not> no_checker_emails e)
                               then (checker, acts @
                                      [Smtp_alert (case format of
                                         Some f \<Rightarrow> take 541 (take 511 (''=> CHECK failed on service : '' @ f @ '' <=''))
                                       | None \<Rightarrow> ''=> CHECK failed on service <='')])
                               else (checker, acts))
                         else (checker, acts));
                      checker = checker\<lparr>retry_it := 0\<rparr>;
                      checker = checker\<lparr>data := (data checker)\<lparr>host_ctr := 0\<rparr>\<rparr>
                  in (checker, acts @ [Thread_add_timer F_smtp_connect_thread (delay_loop checker)])))
         else
           (let checker = checker\<lparr>retry_it := 0\<rparr>;
                checker = checker\<lparr>data := (data checker)\<lparr>host_ctr := host_ctr (data checker) + 1\<rparr>\<rparr>
            in (checker, acts @ [Thread_add_timer F_smtp_connect_thread 1])))"

subsection \<open>The line buffer and the socket I/O driver\<close>

text \<open>
  \<open>bmax\<close> is the constant \<^verbatim>\<open>SMTP_BUFF_MAX\<close>, the size of the array \<open>buff\<close>; its header is
  not among the sources, so the functions take it as a parameter.
\<close>

definition smtp_clear_buff :: "nat \<Rightarrow> checker \<Rightarrow> checker" where
  "smtp_clear_buff bmax checker =
     checker\<lparr>data := (data checker)\<lparr>buff := replicate bmax NUL, buff_ctr := 0\<rparr>\<rparr>"

definition smtp_get_line :: "nat \<Rightarrow> thread \<Rightarrow> callback \<Rightarrow> checker \<Rightarrow> outcome" where
  "smtp_get_line bmax thread cb checker0 =
     (let checker = smtp_clear_buff bmax checker0;
          checker = checker\<lparr>data := (data checker)\<lparr>buff_cb := Some cb\<rparr>\<rparr>
      in case host_ptr (data checker) of
           None \<Rightarrow> Inl NULL_host_ptr
         | Some smtp_host \<Rightarrow>
             Inr (checker, [Thread_add_read F_smtp_get_line_cb (fd thread) (connection_to smtp_host),
                            Thread_del_write]))"

definition smtp_put_line :: "nat \<Rightarrow> thread \<Rightarrow> callback \<Rightarrow> checker \<Rightarrow> outcome" where
  "smtp_put_line bmax thread cb checker0 =
     (let b = (buff (data checker0))[bmax - 1 := NUL];
          checker = checker0\<lparr>data := (data checker0)\<lparr>buff := b, buff_ctr := strlen b, buff_cb := Some cb\<rparr>\<rparr>
      in case host_ptr (data checker) of
           None \<Rightarrow> Inl NULL_host_ptr
         | Some smtp_host \<Rightarrow>
             Inr (checker, [Thread_add_write F_smtp_put_line_cb (fd thread) (connection_to smtp_host),
                            Thread_del_read]))"

subsection \<open>The protocol engine: smtp\_engine\_thread\<close>

definition smtp_engine_thread :: "nat \<Rightarrow> env \<Rightarrow> thread \<Rightarrow> checker \<Rightarrow> outcome" where
  "smtp_engine_thread bmax e thread checker =
     (case state (data checker) of
        SMTP_START \<Rightarrow>
          smtp_get_line bmax thread CB_smtp_engine_thread
            (checker\<lparr>data := (data checker)\<lparr>state := SMTP_HAVE_BANNER\<rparr>\<rparr>)
      | SMTP_HAVE_BANNER \<Rightarrow>
          if smtp_get_status (buff (data checker)) \<noteq> 220 then
            Inr (smtp_final e thread True (Some ''Bad greeting banner from server %s'') checker)
          else
            (let checker = checker\<lparr>data := (data checker)\<lparr>state := SMTP_SENT_HELO\<rparr>\<rparr>;
                 checker = checker\<lparr>data := (data checker)
                             \<lparr>buff := snprintf (buff (data checker)) bmax
                                        (''HELO '' @ c_str (helo_name (data checker)) @ CRLF)\<rparr>\<rparr>
             in smtp_put_line bmax thread CB_smtp_engine_thread checker)
      | SMTP_SENT_HELO \<Rightarrow>
          smtp_get_line bmax thread CB_smtp_engine_thread
            (checker\<lparr>data := (data checker)\<lparr>state := SMTP_RECV_HELO\<rparr>\<rparr>)
      | SMTP_RECV_HELO \<Rightarrow>
          if smtp_get_status (buff (data checker)) \<noteq> 250 then
            Inr (smtp_final e thread True (Some ''Bad HELO response from server %s'') checker)
          else
            (let checker = checker\<lparr>data := (data checker)\<lparr>state := SMTP_SENT_QUIT\<rparr>\<rparr>;
                 checker = checker\<lparr>data := (data checker)
                             \<lparr>buff := snprintf (buff (data checker)) bmax (''QUIT'' @ CRLF)\<rparr>\<rparr>
             in smtp_put_line bmax thread CB_smtp_engine_thread checker)
      | SMTP_SENT_QUIT \<Rightarrow>
          smtp_get_line bmax thread CB_smtp_engine_thread
            (checker\<lparr>data := (data checker)\<lparr>state := SMTP_RECV_QUIT\<rparr>\<rparr>)
      | SMTP_RECV_QUIT \<Rightarrow>
          Inr (smtp_final e thread False None checker)
      | SMTP_UNKNOWN n \<Rightarrow>
          Inr (smtp_final e thread True (Some ''Unknown smtp engine state encountered'') checker))"

text \<open>\<^verbatim>\<open>(smtp_checker->buff_cb)(thread)\<close>.\<close>

definition call_buff_cb :: "nat \<Rightarrow> env \<Rightarrow> thread \<Rightarrow> checker \<Rightarrow> outcome" where
  "call_buff_cb bmax e thread checker =
     (case buff_cb (data checker) of
        None \<Rightarrow> Inl NULL_buff_cb
      | Some CB_smtp_engine_thread \<Rightarrow> smtp_engine_thread bmax e thread checker)"

subsection \<open>The scheduler callbacks of the I/O driver\<close>

text \<open>
  \<^verbatim>\<open>smtp_get_line_cb\<close>. \<open>r_le_0\<close> in the second half is the test \<^verbatim>\<open>r <= 0\<close> on what
  \<^verbatim>\<open>read\<close> returned.
\<close>

definition smtp_get_line_cb_scan :: "nat \<Rightarrow> env \<Rightarrow> thread \<Rightarrow> bool \<Rightarrow> checker \<Rightarrow> outcome" where
  "smtp_get_line_cb_scan bmax e thread r_le_0 checker =
     (if LF \<in> set (take bmax (buff (data checker))) then
        call_buff_cb bmax e thread
          (checker\<lparr>data := (data checker)\<lparr>buff := (buff (data checker))[bmax - 1 := NUL]\<rparr>\<rparr>)
      else if r_le_0 then
        Inr (smtp_final e thread True (Some ''Read failure from server %s'') checker)
      else
        (case host_ptr (data checker) of
           None \<Rightarrow> Inl NULL_host_ptr
         | Some smtp_host \<Rightarrow>
             Inr (checker, [Thread_add_read F_smtp_get_line_cb (fd thread) (connection_to smtp_host)])))"

definition smtp_get_line_cb :: "nat \<Rightarrow> env \<Rightarrow> thread \<Rightarrow> checker \<Rightarrow> outcome" where
  "smtp_get_line_cb bmax e thread checker0 =
     (if thread_type thread = THREAD_READ_TIMEOUT then
        Inr (smtp_final e thread True (Some ''Read timeout from server %s'') checker0)
      else
        (let (checker, acts) =
               (if buff_ctr (data checker0) > bmax
                then (smtp_clear_buff bmax checker0,
                      [Log_message (''SMTP_CHECK Buffer overflow reading from server %s. '' @
                                    ''Increase SMTP_BUFF_MAX in smtp_check.h'')])
                else (checker0, []));
             count = bmax - buff_ctr (data checker);
             acts = acts @ [Read (fd thread) count]
         in case read_ret e of
              Inl again \<Rightarrow>
                if again then
                  (case host_ptr (data checker) of
                     None \<Rightarrow> Inl NULL_host_ptr
                   | Some smtp_host \<Rightarrow>
                       Inr (checker, acts @
                             [Thread_add_read F_smtp_get_line_cb (fd thread) (connection_to smtp_host)]))
                else after acts (smtp_get_line_cb_scan bmax e thread True checker)
            | Inr bytes \<Rightarrow>
                (let got = take count bytes;
                     r = length got;
                     ctr = buff_ctr (data checker);
                     b = buff (data checker);
                     checker = checker\<lparr>data := (data checker)
                                 \<lparr>buff := take ctr b @ got @ drop (ctr + r) b, buff_ctr := ctr + r\<rparr>\<rparr>
                 in after acts (smtp_get_line_cb_scan bmax e thread (r = 0) checker))))"

definition smtp_put_line_cb :: "nat \<Rightarrow> env \<Rightarrow> thread \<Rightarrow> checker \<Rightarrow> outcome" where
  "smtp_put_line_cb bmax e thread checker =
     (if thread_type thread = THREAD_WRITE_TIMEOUT then
        Inr (smtp_final e thread True (Some ''Write timeout to server %s'') checker)
      else
        (let acts = [Write (fd thread) (take (buff_ctr (data checker)) (buff (data checker)))]
         in case write_ret e of
              Inl again \<Rightarrow>
                if again then
                  (case host_ptr (data checker) of
                     None \<Rightarrow> Inl NULL_host_ptr
                   | Some smtp_host \<Rightarrow>
                       Inr (checker, acts @
                             [Thread_add_write F_smtp_put_line_cb (fd thread) (connection_to smtp_host)]))
                else after acts (Inr (smtp_final e thread True (Some ''Write failure to server %s'') checker))
            | Inr n \<Rightarrow>
                if min n (buff_ctr (data checker)) = 0 then
                  after acts (Inr (smtp_final e thread True (Some ''Write failure to server %s'') checker))
                else after acts (call_buff_cb bmax e thread checker)))"

subsection \<open>Connection result handler and connect orchestrator\<close>

definition smtp_check_thread :: "nat \<Rightarrow> env \<Rightarrow> thread \<Rightarrow> checker \<Rightarrow> outcome" where
  "smtp_check_thread bmax e thread checker =
     after [Tcp_socket_state F_smtp_check_thread]
       (case tcp_socket_state_ret e of
          connect_error \<Rightarrow>
            Inr (smtp_final e thread True (Some ''Error connecting to server %s'') checker)
        | connect_timeout \<Rightarrow>
            Inr (smtp_final e thread True (Some ''Connection timeout to server %s'') checker)
        | connect_success \<Rightarrow>
            smtp_engine_thread bmax e thread (checker\<lparr>data := (data checker)\<lparr>state := SMTP_START\<rparr>\<rparr>)
        | connect_in_progress \<Rightarrow>
            Inr (smtp_final e thread True (Some ''Unknown connection error to server %s'') checker))"

definition smtp_connect_thread :: "env \<Rightarrow> thread \<Rightarrow> checker \<Rightarrow> checker \<times> action list" where
  "smtp_connect_thread e thread checker0 =
     (if \<not> enabled checker0 then
        (checker0, [Thread_add_timer F_smtp_connect_thread (delay_loop checker0)])
      else
        (let hp = list_element (host (data checker0)) (host_ctr (data checker0));
             checker = checker0\<lparr>data := (data checker0)\<lparr>host_ptr := hp\<rparr>\<rparr>
         in case hp of
              None \<Rightarrow>
                (let (checker, acts) =
                       (if \<not> is_up checker \<or> \<not> has_run checker then
                          (let acts = [Log_message ''Remote SMTP server %s succeed on service.''];
                               checker_was_up = is_up checker;
                               rs_was_alive = alive (rs checker);
                               checker = update_svr_checker_state e UP checker;
                               acts = acts @ [Update_svr_checker_state UP]
                           in if smtp_alert_flag (rs checker) \<and> \<not> checker_was_up \<and>
                                 (rs_was_alive \<noteq> alive (rs checker) \<or> \<not> no_checker_emails e)
                              then (checker, acts @ [Smtp_alert ''=> CHECK succeed on service <=''])
                              else (checker, acts))
                        else (checker, []));
                     checker = checker\<lparr>retry_it := 0\<rparr>;
                     checker = checker\<lparr>data := (data checker)\<lparr>host_ctr := 0\<rparr>\<rparr>;
                     checker = checker\<lparr>data := (data checker)
                                 \<lparr>host_ptr := list_element (host (data checker)) 0\<rparr>\<rparr>
                 in (checker, acts @ [Thread_add_timer F_smtp_connect_thread (delay_loop checker)]))
            | Some smtp_host \<Rightarrow>
                (let acts = [Socket (dst_ss_family smtp_host)];
                     sd = socket_ret e
                 in if sd = - 1 then
                      (checker, acts @
                         [Log_message ''SMTP_CHECK connection failed to create socket. Rescheduling.'',
                          Thread_add_timer F_smtp_connect_thread (delay_loop checker)])
                    else
                      (let status = tcp_bind_connect_ret e;
                           acts = acts @ [Tcp_bind_connect sd,
                                          Tcp_connection_state sd status F_smtp_check_thread
                                            (connection_to smtp_host)]
                       in if tcp_connection_state_ret e then
                            (checker, acts @
                               [Close sd,
                                Log_message ''SMTP_CHECK socket bind failed. Rescheduling.'',
                                Thread_add_timer F_smtp_connect_thread (delay_loop checker)])
                          else (checker, acts)))))"


subsection \<open>The scheduler\<close>

text \<open>
  The scheduler runs one callback at a time: a function of this file, with the thread that
  woke it and the answers of the outside world. \<open>run\<close> runs a sequence of such calls, whatever
  their order; the runs of the real scheduler, which only calls what has been registered, are
  among them.
\<close>

datatype call = Call func thread env

definition dispatch :: "nat \<Rightarrow> call \<Rightarrow> checker \<Rightarrow> outcome" where
  "dispatch bmax cl checker =
     (case cl of Call f thread e \<Rightarrow>
        (case f of
           F_smtp_connect_thread \<Rightarrow> Inr (smtp_connect_thread e thread checker)
         | F_smtp_check_thread \<Rightarrow> smtp_check_thread bmax e thread checker
         | F_smtp_get_line_cb \<Rightarrow> smtp_get_line_cb bmax e thread checker
         | F_smtp_put_line_cb \<Rightarrow> smtp_put_line_cb bmax e thread checker))"

fun run :: "nat \<Rightarrow> call list \<Rightarrow> checker \<Rightarrow> outcome" where
  "run bmax [] checker = Inr (checker, [])"
| "run bmax (cl # cls) checker =
     (case dispatch bmax cl checker of
        Inl f \<Rightarrow> Inl f
      | Inr (checker', acts) \<Rightarrow> after acts (run bmax cls checker'))"

subsection \<open>Reading a list of actions\<close>

fun is_transition :: "action \<Rightarrow> bool" where
  "is_transition (Update_svr_checker_state up) = True"
| "is_transition a = False"

fun is_alert :: "action \<Rightarrow> bool" where
  "is_alert (Smtp_alert m) = True"
| "is_alert a = False"

fun is_close :: "action \<Rightarrow> bool" where
  "is_close (Close d) = True"
| "is_close a = False"

text \<open>The timeouts of the I/O waits a list of actions registers.\<close>

fun io_wait_timeouts :: "action list \<Rightarrow> nat list" where
  "io_wait_timeouts [] = []"
| "io_wait_timeouts (Thread_add_read f d t # acts) = t # io_wait_timeouts acts"
| "io_wait_timeouts (Thread_add_write f d t # acts) = t # io_wait_timeouts acts"
| "io_wait_timeouts (a # acts) = io_wait_timeouts acts"

text \<open>The log line of the overflow guard of \<^verbatim>\<open>smtp_get_line_cb\<close>.\<close>

definition overflow_log :: action where
  "overflow_log =
     Log_message (''SMTP_CHECK Buffer overflow reading from server %s. '' @
                  ''Increase SMTP_BUFF_MAX in smtp_check.h'')"

text \<open>The array has its declared size and the fill cursor is inside it.\<close>

definition buff_ok :: "nat \<Rightarrow> checker \<Rightarrow> bool" where
  "buff_ok bmax checker =
     (length (buff (data checker)) = bmax \<and> buff_ctr (data checker) \<le> bmax)"

text \<open>The retry counter is 0 or below the retry limit.\<close>

definition retry_ok :: "checker \<Rightarrow> bool" where
  "retry_ok checker = (retry_it checker = 0 \<or> retry_it checker < retry checker)"

text \<open>
  The fields the retry and failover policy reads and writes: everything of the checker but the
  protocol state, the buffer and the pointers of the session.
\<close>

definition policy ::
  "checker \<Rightarrow> bool \<times> bool \<times> bool \<times> nat \<times> nat \<times> nat \<times> nat \<times> real_server \<times> nat \<times> conn_opts list" where
  "policy checker =
     (enabled checker, is_up checker, has_run checker, retry checker, retry_it checker,
      delay_loop checker, delay_before_retry checker, rs checker,
      host_ctr (data checker), host (data checker))"

text \<open>
  What a callback is to the policy. \<open>quiet\<close>: it leaves the policy fields alone and makes no
  health transition and no alert. \<open>finalizes\<close>: it does to the policy fields, and makes
  the transitions and alerts, of one call of \<^verbatim>\<open>smtp_final\<close>.
\<close>

definition quiet :: "checker \<Rightarrow> checker \<Rightarrow> action list \<Rightarrow> bool" where
  "quiet checker checker' acts =
     (policy checker' = policy checker \<and> filter is_transition acts = [] \<and>
      filter is_alert acts = [])"

definition finalizes ::
  "env \<Rightarrow> thread \<Rightarrow> bool \<Rightarrow> string option \<Rightarrow> checker \<Rightarrow> checker \<Rightarrow> action list \<Rightarrow> bool" where
  "finalizes e thread error format checker checker' acts =
     (policy checker' = policy (fst (smtp_final e thread error format checker)) \<and>
      filter is_transition acts = filter is_transition (snd (smtp_final e thread error format checker)) \<and>
      filter is_alert acts = filter is_alert (snd (smtp_final e thread error format checker)))"

text \<open>A callback that is quiet or ends in one call of \<^verbatim>\<open>smtp_final\<close>.\<close>

definition funnel :: "env \<Rightarrow> thread \<Rightarrow> checker \<Rightarrow> checker \<Rightarrow> action list \<Rightarrow> bool" where
  "funnel e thread checker checker' acts =
     (quiet checker checker' acts \<or> (\<exists>error format. finalizes e thread error format checker checker' acts))"

text \<open>
  A callback of the session (the connection handler, the two I/O callbacks and the engine they
  enter): when it closes a descriptor it has finalized, and otherwise it is quiet. Among these
  callbacks only \<^verbatim>\<open>smtp_final\<close> calls \<^verbatim>\<open>close\<close>.
\<close>

definition session :: "env \<Rightarrow> thread \<Rightarrow> checker \<Rightarrow> checker \<Rightarrow> action list \<Rightarrow> bool" where
  "session e thread checker checker' acts =
     (if list_ex is_close acts
      then (\<exists>error format. finalizes e thread error format checker checker' acts)
      else quiet checker checker' acts)"

text \<open>
  The steps of a run: every call with the checker before it, the checker after it and the
  actions of the call. The steps stop where a callback faults.
\<close>

type_synonym step = "call \<times> checker \<times> checker \<times> action list"

fun steps :: "nat \<Rightarrow> call list \<Rightarrow> checker \<Rightarrow> step list" where
  "steps bmax [] checker = []"
| "steps bmax (cl # cls) checker =
     (case dispatch bmax cl checker of
        Inl f \<Rightarrow> []
      | Inr (checker', acts) \<Rightarrow> (cl, checker, checker', acts) # steps bmax cls checker')"

text \<open>
  What a step shows of the attempt on the current target. \<open>ends_attempt\<close>: a callback of the
  session closes the connection, so the attempt is over. \<open>succeeds\<close>: the attempt is over and
  the target index has advanced by one, which only the success branch of \<^verbatim>\<open>smtp_final\<close>
  does. \<open>exhausts\<close>: the attempt is over without success and no retry was left (the retry
  counter, once incremented, is not below the limit). \<open>past_the_end\<close>: the step is a call of
  the enabled orchestrator that finds no target at the index.
\<close>

fun ends_attempt :: "step \<Rightarrow> bool" where
  "ends_attempt (Call f thread e, checker, checker', acts) =
     (f \<noteq> F_smtp_connect_thread \<and> list_ex is_close acts)"

fun succeeds :: "step \<Rightarrow> bool" where
  "succeeds (cl, checker, checker', acts) =
     (ends_attempt (cl, checker, checker', acts) \<and>
      host_ctr (data checker') = host_ctr (data checker) + 1)"

fun exhausts :: "step \<Rightarrow> bool" where
  "exhausts (cl, checker, checker', acts) =
     (ends_attempt (cl, checker, checker', acts) \<and>
      host_ctr (data checker') \<noteq> host_ctr (data checker) + 1 \<and>
      \<not> retry_it checker + 1 < retry checker)"

fun past_the_end :: "step \<Rightarrow> bool" where
  "past_the_end (Call f thread e, checker, checker', acts) =
     (f = F_smtp_connect_thread \<and> enabled checker \<and>
      list_element (host (data checker)) (host_ctr (data checker)) = None)"

subsection \<open>Concrete inputs\<close>

definition host_a :: conn_opts where
  "host_a = \<lparr>dst_ss_family = 2, connection_to = 5000000\<rparr>"

definition host_b :: conn_opts where
  "host_b = \<lparr>dst_ss_family = 10, connection_to = 3000000\<rparr>"

text \<open>A checker as the configuration leaves it: never run, first target, empty buffer of 32 bytes.\<close>

definition checker_new :: checker where
  "checker_new =
     \<lparr>enabled = True, is_up = True, has_run = False, retry = 3, retry_it = 0,
      delay_loop = 10000000, delay_before_retry = 2000000,
      rs = \<lparr>alive = True, smtp_alert_flag = True\<rparr>,
      data = \<lparr>helo_name = ''probe'', host = [host_a, host_b], host_ctr = 0, host_ptr = None,
              state = SMTP_START, buff = replicate 32 NUL, buff_ctr = 0, buff_cb = None\<rparr>\<rparr>"

definition env_ok :: env where
  "env_ok =
     \<lparr>read_ret = Inr [], write_ret = Inr 512, socket_ret = 7,
      tcp_bind_connect_ret = connect_in_progress, tcp_connection_state_ret = False,
      tcp_socket_state_ret = connect_success, rs_alive_ret = False, no_checker_emails = False\<rparr>"

definition thread_io :: thread where
  "thread_io = \<lparr>thread_type = THREAD_READ, fd = 7\<rparr>"

text \<open>The connection is refused; no socket can be made; the bind fails.\<close>

definition env_refused :: env where
  "env_refused = env_ok\<lparr>tcp_socket_state_ret := connect_error\<rparr>"

definition env_no_socket :: env where
  "env_no_socket = env_ok\<lparr>socket_ret := - 1\<rparr>"

definition env_bind_failed :: env where
  "env_bind_failed = env_ok\<lparr>tcp_connection_state_ret := True\<rparr>"

definition thread_timer :: thread where
  "thread_timer = \<lparr>thread_type = THREAD_TIMER, fd = 0\<rparr>"

text \<open>A checker whose first target is connected and waits for the greeting.\<close>

definition checker_connected :: checker where
  "checker_connected =
     checker_new\<lparr>data := (data checker_new)
       \<lparr>host_ptr := Some host_a, state := SMTP_HAVE_BANNER, buff_cb := Some CB_smtp_engine_thread\<rparr>\<rparr>"

text \<open>The peer has sent the beginning of a line.\<close>

definition env_partial :: env where
  "env_partial = env_ok\<lparr>read_ret := Inr ''220 mail''\<rparr>"

text \<open>The replies of a well-behaved server, and the calls of one whole dialogue.\<close>

definition env_greeting :: env where
  "env_greeting = env_ok\<lparr>read_ret := Inr (''220 mail.example.com'' @ CRLF)\<rparr>"

definition env_helo_reply :: env where
  "env_helo_reply = env_ok\<lparr>read_ret := Inr (''250 Hello'' @ CRLF)\<rparr>"

definition env_quit_reply :: env where
  "env_quit_reply = env_ok\<lparr>read_ret := Inr (''221 Bye'' @ CRLF)\<rparr>"

definition thread_write :: thread where
  "thread_write = \<lparr>thread_type = THREAD_WRITE, fd = 7\<rparr>"

definition dialogue :: "call list" where
  "dialogue =
     [Call F_smtp_connect_thread thread_timer env_ok,
      Call F_smtp_check_thread thread_write env_ok,
      Call F_smtp_get_line_cb thread_io env_greeting,
      Call F_smtp_put_line_cb thread_write env_ok,
      Call F_smtp_get_line_cb thread_io env_helo_reply,
      Call F_smtp_put_line_cb thread_write env_ok,
      Call F_smtp_get_line_cb thread_io env_quit_reply]"

text \<open>A checker of a 512-byte buffer that holds a good greeting, with a HELO name of 506 bytes.\<close>

definition checker_long_helo :: checker where
  "checker_long_helo =
     checker_new\<lparr>data := (data checker_new)
       \<lparr>helo_name := replicate 506 (CHR ''a''), host_ptr := Some host_a, state := SMTP_HAVE_BANNER,
        buff := ''220 ok'' @ CRLF @ replicate 504 NUL, buff_ctr := 8,
        buff_cb := Some CB_smtp_engine_thread\<rparr>\<rparr>"

text \<open>The calls of an attempt that ends in a refused connection.\<close>

definition refused_calls :: "call list" where
  "refused_calls =
     [Call F_smtp_connect_thread thread_timer env_ok,
      Call F_smtp_check_thread thread_write env_refused]"

text \<open>The new checker after three refused connections to its first target.\<close>

definition checker_down :: checker where
  "checker_down =
     checker_new\<lparr>is_up := False, has_run := True, rs := \<lparr>alive = False, smtp_alert_flag = True\<rparr>,
       data := (data checker_new)\<lparr>host_ptr := Some host_a\<rparr>\<rparr>"

text \<open>A checker that is up and has completed a check.\<close>

definition checker_up :: checker where
  "checker_up = checker_new\<lparr>has_run := True\<rparr>"

text \<open>
  The calls of a cycle over the two targets: the first target refuses the connection, is
  retried and answers the whole dialogue, then the second target answers it.
\<close>

definition cycle_calls :: "call list" where
  "cycle_calls = refused_calls @ dialogue @ dialogue"

text \<open>The connected checker once the greeting is in its buffer.\<close>

definition checker_greeted :: checker where
  "checker_greeted =
     checker_connected\<lparr>data := (data checker_connected)
       \<lparr>buff := ''220 mail.example.com'' @ CRLF @ replicate 10 NUL, buff_ctr := 22\<rparr>\<rparr>"

text \<open>The peer sends bytes without end and never a line end.\<close>

definition env_flood :: env where
  "env_flood = env_ok\<lparr>read_ret := Inr (replicate 40 (CHR ''x''))\<rparr>"

section \<open>Properties\<close>

subsection \<open>Branches of smtp\_final\<close>

lemma smtp_final_success_eq:
  "smtp_final e thread False format checker =
     (checker\<lparr>retry_it := 0, data := (data checker)\<lparr>host_ctr := host_ctr (data checker) + 1\<rparr>\<rparr>,
      [Close (fd thread), Thread_add_timer F_smtp_connect_thread 1])"
  by (simp add: smtp_final_def)

lemma after_Inr:
  "after acts out = Inr (c, a) \<longleftrightarrow> (\<exists>a'. out = Inr (c, a') \<and> a = acts @ a')"
  by (auto simp: after_def split: sum.splits)

lemma after_Inr_simp [simp]: "after acts (Inr (c, a)) = Inr (c, acts @ a)"
  by (simp add: after_def)

lemma after_Inl_simp [simp]: "after acts (Inl f) = Inl f"
  by (simp add: after_def)

lemma smtp_final_retry_eq:
  "retry_it checker + 1 < retry checker \<Longrightarrow>
   smtp_final e thread True format checker =
     (checker\<lparr>retry_it := retry_it checker + 1\<rparr>,
      [Close (fd thread)] @
      (if is_up checker then [Log_message (case format of Some f \<Rightarrow> ''SMTP_CHECK '' @ take 500 f | None \<Rightarrow> ''SMTP_CHECK Unknown error'')] else []) @
      [Thread_add_timer F_smtp_connect_thread (delay_before_retry checker)])"
  by (simp add: smtp_final_def)

lemma smtp_final_exhausted_eq:
  "\<not> retry_it checker + 1 < retry checker \<Longrightarrow>
   smtp_final e thread True format checker =
     ((if is_up checker \<or> \<not> has_run checker then update_svr_checker_state e DOWN checker else checker)
        \<lparr>retry_it := 0, data := (data checker)\<lparr>host_ctr := 0\<rparr>\<rparr>,
      [Close (fd thread)] @
      (if is_up checker then [Log_message (case format of Some f \<Rightarrow> ''SMTP_CHECK '' @ take 500 f | None \<Rightarrow> ''SMTP_CHECK Unknown error'')] else []) @
      (if is_up checker \<or> \<not> has_run checker then [Update_svr_checker_state DOWN] else []) @
      (if smtp_alert_flag (rs checker) \<and> is_up checker \<and>
          (alive (rs checker) \<noteq> rs_alive_ret e \<or> \<not> no_checker_emails e)
       then [Smtp_alert (case format of
                           Some f \<Rightarrow> take 541 (take 511 (''=> CHECK failed on service : '' @ f @ '' <=''))
                         | None \<Rightarrow> ''=> CHECK failed on service <='')] else []) @
      [Thread_add_timer F_smtp_connect_thread (delay_loop checker)])"
  by (cases "is_up checker"; cases "has_run checker"; cases "smtp_alert_flag (rs checker)";
      cases "no_checker_emails e"; cases "alive (rs checker) = rs_alive_ret e")
     (simp_all add: smtp_final_def update_svr_checker_state_def Let_def)


lemma smtp_final_frame:
  "retry (fst (smtp_final e thread error format checker)) = retry checker"
  "enabled (fst (smtp_final e thread error format checker)) = enabled checker"
  "delay_loop (fst (smtp_final e thread error format checker)) = delay_loop checker"
  "delay_before_retry (fst (smtp_final e thread error format checker)) = delay_before_retry checker"
  "smtp_alert_flag (rs (fst (smtp_final e thread error format checker))) = smtp_alert_flag (rs checker)"
  by (cases error; cases "retry_it checker + 1 < retry checker";
      simp add: smtp_final_success_eq smtp_final_retry_eq smtp_final_exhausted_eq
                update_svr_checker_state_def)+

lemma smtp_final_data:
  "data (fst (smtp_final e thread error format checker)) =
     (data checker)\<lparr>host_ctr := host_ctr (data (fst (smtp_final e thread error format checker)))\<rparr>"
  by (cases error; cases "retry_it checker + 1 < retry checker";
      simp add: smtp_final_success_eq smtp_final_retry_eq smtp_final_exhausted_eq
                update_svr_checker_state_def)

lemma smtp_final_retry_inv:
  "retry_it (fst (smtp_final e thread error format checker)) = 0 \<or>
   retry_it (fst (smtp_final e thread error format checker)) < retry checker"
  by (cases error; cases "retry_it checker + 1 < retry checker";
      simp add: smtp_final_success_eq smtp_final_retry_eq smtp_final_exhausted_eq
                update_svr_checker_state_def)

subsection \<open>The buffer stays within its bounds\<close>

lemma strlen_le: "strlen s \<le> length s"
  by (simp add: strlen_def c_str_def length_takeWhile_le)

lemma length_snprintf: "length b = n \<Longrightarrow> length (snprintf b n line) = n"
  by (cases b) (auto simp: snprintf_def Let_def min_def)

lemma buff_ok_smtp_final [simp]:
  "buff_ok bmax (fst (smtp_final e thread error format checker)) = buff_ok bmax checker"
proof -
  have "data (fst (smtp_final e thread error format checker)) =
     (data checker)\<lparr>host_ctr := host_ctr (data (fst (smtp_final e thread error format checker)))\<rparr>"
    by (rule smtp_final_data)
  then have "buff (data (fst (smtp_final e thread error format checker))) = buff (data checker)"
    and "buff_ctr (data (fst (smtp_final e thread error format checker))) = buff_ctr (data checker)"
    by (metis smtp_checker.select_convs smtp_checker.simps smtp_checker.surjective smtp_checker.update_convs)+
  then show ?thesis by (simp add: buff_ok_def)
qed

lemma smtp_get_line_buff_ok:
  "smtp_get_line bmax thread cb checker = Inr (checker', acts) \<Longrightarrow> buff_ok bmax checker'"
  by (auto simp: smtp_get_line_def smtp_clear_buff_def buff_ok_def Let_def split: option.splits)

lemma smtp_put_line_buff_ok:
  "smtp_put_line bmax thread cb checker = Inr (checker', acts) \<Longrightarrow>
   length (buff (data checker)) = bmax \<Longrightarrow> buff_ok bmax checker'"
  using strlen_le [of "(buff (data checker))[bmax - 1 := NUL]"]
  by (auto simp: smtp_put_line_def buff_ok_def Let_def split: option.splits)

lemma smtp_final_buff_okD:
  "smtp_final e thread error format checker = (checker', acts) \<Longrightarrow>
   buff_ok bmax checker \<Longrightarrow> buff_ok bmax checker'"
  using buff_ok_smtp_final [of bmax e thread error format checker] by simp

lemma smtp_engine_thread_buff_ok:
  assumes "smtp_engine_thread bmax e thread checker = Inr (checker', acts)"
    and "buff_ok bmax checker"
  shows "buff_ok bmax checker'"
proof -
  have len: "length (buff (data checker)) = bmax"
    using assms(2) by (simp add: buff_ok_def)
  show ?thesis
  proof (cases "state (data checker)")
    case SMTP_HAVE_BANNER
    then show ?thesis
      using assms len
      by (auto simp: smtp_engine_thread_def Let_def length_snprintf
               split: if_splits dest: smtp_final_buff_okD dest!: smtp_put_line_buff_ok)
  next
    case SMTP_RECV_HELO
    then show ?thesis
      using assms len
      by (auto simp: smtp_engine_thread_def Let_def length_snprintf
               split: if_splits dest: smtp_final_buff_okD dest!: smtp_put_line_buff_ok)
  qed (use assms in \<open>auto simp: smtp_engine_thread_def
         dest: smtp_get_line_buff_ok smtp_final_buff_okD\<close>)
qed

lemma call_buff_cb_buff_ok:
  "call_buff_cb bmax e thread checker = Inr (checker', acts) \<Longrightarrow>
   buff_ok bmax checker \<Longrightarrow> buff_ok bmax checker'"
  by (auto simp: call_buff_cb_def split: option.splits callback.splits
           dest: smtp_engine_thread_buff_ok)

lemma smtp_get_line_cb_scan_buff_ok:
  "smtp_get_line_cb_scan bmax e thread r0 checker = Inr (checker', acts) \<Longrightarrow>
   buff_ok bmax checker \<Longrightarrow> buff_ok bmax checker'"
proof -
  assume r: "smtp_get_line_cb_scan bmax e thread r0 checker = Inr (checker', acts)"
    and ok: "buff_ok bmax checker"
  have ok': "buff_ok bmax (checker\<lparr>data := (data checker)\<lparr>buff := (buff (data checker))[bmax - 1 := NUL]\<rparr>\<rparr>)"
    using ok by (simp add: buff_ok_def)
  show ?thesis
    using r ok ok'
    by (auto simp: smtp_get_line_cb_scan_def split: if_splits option.splits
             dest: smtp_final_buff_okD call_buff_cb_buff_ok)
qed

lemma smtp_get_line_cb_buff_ok:
  assumes "smtp_get_line_cb bmax e thread checker = Inr (checker', acts)"
    and "buff_ok bmax checker"
  shows "buff_ok bmax checker'"
proof (cases "thread_type thread = THREAD_READ_TIMEOUT")
  case True
  then show ?thesis
    using assms by (auto simp: smtp_get_line_cb_def dest: smtp_final_buff_okD)
next
  case False
  have guard: "\<not> bmax < buff_ctr (data checker)"
    using assms(2) by (simp add: buff_ok_def)
  show ?thesis
  proof (cases "read_ret e")
    case (Inl again)
    then show ?thesis
      using assms False guard
      by (auto simp: smtp_get_line_cb_def Let_def after_Inr split: if_splits option.splits
               dest: smtp_get_line_cb_scan_buff_ok)
  next
    case (Inr bytes)
    let ?ctr = "buff_ctr (data checker)"
    let ?b = "buff (data checker)"
    let ?got = "take (bmax - ?ctr) bytes"
    let ?c1 = "checker\<lparr>data := (data checker)
                 \<lparr>buff := take ?ctr ?b @ ?got @ drop (?ctr + length ?got) ?b,
                  buff_ctr := ?ctr + length ?got\<rparr>\<rparr>"
    have ok1: "buff_ok bmax ?c1"
      using assms(2) by (auto simp: buff_ok_def min_def)
    have "\<exists>a r0. smtp_get_line_cb_scan bmax e thread r0 ?c1 = Inr (checker', a)"
      using assms(1) False guard Inr
      by (auto simp: smtp_get_line_cb_def Let_def after_Inr)
    with ok1 show ?thesis
      by (auto dest: smtp_get_line_cb_scan_buff_ok)
  qed
qed

lemma smtp_put_line_cb_buff_ok:
  "smtp_put_line_cb bmax e thread checker = Inr (checker', acts) \<Longrightarrow>
   buff_ok bmax checker \<Longrightarrow> buff_ok bmax checker'"
  by (auto simp: smtp_put_line_cb_def Let_def after_Inr
           split: if_splits sum.splits option.splits
           dest: smtp_final_buff_okD call_buff_cb_buff_ok)

lemma smtp_check_thread_buff_ok:
  assumes "smtp_check_thread bmax e thread checker = Inr (checker', acts)"
    and "buff_ok bmax checker"
  shows "buff_ok bmax checker'"
proof -
  have ok': "buff_ok bmax (checker\<lparr>data := (data checker)\<lparr>state := SMTP_START\<rparr>\<rparr>)"
    using assms(2) by (simp add: buff_ok_def)
  show ?thesis
    using assms ok'
    by (auto simp: smtp_check_thread_def after_Inr split: connect_result.splits
             dest: smtp_final_buff_okD smtp_engine_thread_buff_ok)
qed

lemma smtp_connect_thread_buff:
  "buff (data (fst (smtp_connect_thread e thread checker))) = buff (data checker) \<and>
   buff_ctr (data (fst (smtp_connect_thread e thread checker))) = buff_ctr (data checker)"
  by (simp add: smtp_connect_thread_def Let_def update_svr_checker_state_def split_beta
           split: option.splits)

lemma smtp_connect_thread_buff_ok:
  "smtp_connect_thread e thread checker = (checker', acts) \<Longrightarrow>
   buff_ok bmax checker \<Longrightarrow> buff_ok bmax checker'"
  using smtp_connect_thread_buff [of e thread checker] by (simp add: buff_ok_def)

lemma dispatch_buff_ok:
  "dispatch bmax cl checker = Inr (checker', acts) \<Longrightarrow>
   buff_ok bmax checker \<Longrightarrow> buff_ok bmax checker'"
  by (auto simp: dispatch_def split: call.splits func.splits
           dest: smtp_connect_thread_buff_ok smtp_check_thread_buff_ok
                 smtp_get_line_cb_buff_ok smtp_put_line_cb_buff_ok)

lemma run_buff_ok:
  "run bmax calls checker = Inr (checker', acts) \<Longrightarrow>
   buff_ok bmax checker \<Longrightarrow> buff_ok bmax checker'"
proof (induction calls arbitrary: checker acts)
  case Nil
  then show ?case by simp
next
  case (Cons cl calls)
  from Cons.prems(1) obtain c1 a1 a2 where
    d: "dispatch bmax cl checker = Inr (c1, a1)" and r: "run bmax calls c1 = Inr (checker', a2)"
    by (auto simp: after_Inr split: sum.splits)
  from d Cons.prems(2) have "buff_ok bmax c1"
    by (rule dispatch_buff_ok)
  with r show ?case
    by (rule Cons.IH)
qed

subsection \<open>Every callback is quiet or finalizes\<close>

lemma smtp_final_policy:
  "policy c0 = policy checker \<Longrightarrow>
   policy (fst (smtp_final e thread error format c0)) =
     policy (fst (smtp_final e thread error format checker)) \<and>
   filter is_transition (snd (smtp_final e thread error format c0)) =
     filter is_transition (snd (smtp_final e thread error format checker)) \<and>
   filter is_alert (snd (smtp_final e thread error format c0)) =
     filter is_alert (snd (smtp_final e thread error format checker))"
  by (cases error; cases "retry_it checker + 1 < retry checker")
     (simp_all add: policy_def smtp_final_success_eq smtp_final_retry_eq smtp_final_exhausted_eq
        update_svr_checker_state_def)

lemma finalizes_final:
  "policy c0 = policy checker \<Longrightarrow> smtp_final e thread error format c0 = (checker', acts) \<Longrightarrow>
   finalizes e thread error format checker checker' acts"
  using smtp_final_policy [of c0 checker e thread error format]
  by (simp add: finalizes_def)

lemma finalizes_prepend:
  "finalizes e thread error format checker checker' acts \<Longrightarrow>
   filter is_transition pre = [] \<Longrightarrow> filter is_alert pre = [] \<Longrightarrow>
   finalizes e thread error format checker checker' (pre @ acts)"
  by (simp add: finalizes_def)

lemma smtp_get_line_quiet:
  "smtp_get_line bmax thread cb checker = Inr (checker', acts) \<Longrightarrow> quiet checker checker' acts"
  by (auto simp: smtp_get_line_def smtp_clear_buff_def quiet_def policy_def Let_def
           split: option.splits)

lemma smtp_put_line_quiet:
  "smtp_put_line bmax thread cb checker = Inr (checker', acts) \<Longrightarrow> quiet checker checker' acts"
  by (auto simp: smtp_put_line_def quiet_def policy_def Let_def split: option.splits)

lemma quiet_policy:
  "quiet c0 checker' acts \<Longrightarrow> policy c0 = policy checker \<Longrightarrow> quiet checker checker' acts"
  by (simp add: quiet_def)

lemma funnel_policy:
  "funnel e thread c0 checker' acts \<Longrightarrow> policy c0 = policy checker \<Longrightarrow>
   funnel e thread checker checker' acts"
  using smtp_final_policy [of c0 checker e thread]
  by (auto simp: funnel_def quiet_def finalizes_def)

lemma funnel_prepend:
  "funnel e thread checker checker' acts \<Longrightarrow>
   filter is_transition pre = [] \<Longrightarrow> filter is_alert pre = [] \<Longrightarrow>
   funnel e thread checker checker' (pre @ acts)"
  by (auto simp: funnel_def quiet_def finalizes_def)

lemma funnel_final:
  "smtp_final e thread error format checker = (checker', acts) \<Longrightarrow>
   funnel e thread checker checker' acts"
  unfolding funnel_def finalizes_def by (metis fst_conv snd_conv)

lemma smtp_engine_thread_funnel:
  assumes "smtp_engine_thread bmax e thread checker = Inr (checker', acts)"
  shows "funnel e thread checker checker' acts"
proof -
  have q: "\<And>c0. quiet c0 checker' acts \<Longrightarrow> policy c0 = policy checker \<Longrightarrow> ?thesis"
    by (simp add: funnel_def quiet_def)
  show ?thesis
    using assms
    by (cases "state (data checker)")
       (auto simp: smtp_engine_thread_def Let_def policy_def split: if_splits
             intro: funnel_final
             elim!: q [OF smtp_get_line_quiet] q [OF smtp_put_line_quiet])
qed

lemma call_buff_cb_funnel:
  "call_buff_cb bmax e thread checker = Inr (checker', acts) \<Longrightarrow>
   funnel e thread checker checker' acts"
  by (auto simp: call_buff_cb_def split: option.splits callback.splits
           dest: smtp_engine_thread_funnel)

lemma smtp_get_line_cb_scan_funnel:
  assumes "smtp_get_line_cb_scan bmax e thread r0 checker = Inr (checker', acts)"
  shows "funnel e thread checker checker' acts"
proof -
  let ?c1 = "checker\<lparr>data := (data checker)\<lparr>buff := (buff (data checker))[bmax - 1 := NUL]\<rparr>\<rparr>"
  have p: "policy ?c1 = policy checker"
    by (simp add: policy_def)
  show ?thesis
    using assms
    by (auto simp: smtp_get_line_cb_scan_def split: if_splits option.splits
             intro: funnel_final funnel_policy [OF call_buff_cb_funnel p])
       (simp add: funnel_def quiet_def)
qed

lemma funnel_quiet: "quiet checker checker' acts \<Longrightarrow> funnel e thread checker checker' acts"
  by (simp add: funnel_def)

lemma funnel_Cons:
  "funnel e thread checker checker' acts \<Longrightarrow> \<not> is_transition x \<Longrightarrow> \<not> is_alert x \<Longrightarrow>
   funnel e thread checker checker' (x # acts)"
  using funnel_prepend [of e thread checker checker' acts "[x]"] by simp

lemma smtp_get_line_cb_funnel:
  assumes "smtp_get_line_cb bmax e thread checker = Inr (checker', acts)"
  shows "funnel e thread checker checker' acts"
proof (cases "thread_type thread = THREAD_READ_TIMEOUT")
  case True
  then show ?thesis
    using assms by (auto simp: smtp_get_line_cb_def intro: funnel_final)
next
  case False
  obtain c1 pre where
    g: "(if buff_ctr (data checker) > bmax
         then (smtp_clear_buff bmax checker,
               [Log_message (''SMTP_CHECK Buffer overflow reading from server %s. '' @
                             ''Increase SMTP_BUFF_MAX in smtp_check.h'')])
         else (checker, [])) = (c1, pre)"
    by fastforce
  then have p1: "policy c1 = policy checker" and pre: "filter is_transition pre = []"
    "filter is_alert pre = []"
    by (auto simp: smtp_clear_buff_def policy_def split: if_splits)
  show ?thesis
  proof (cases "read_ret e")
    case (Inl again)
    show ?thesis
    proof (cases again)
      case True
      with assms False g Inl p1 pre show ?thesis
        by (auto simp: smtp_get_line_cb_def Let_def split: option.splits
                 intro!: funnel_quiet simp: quiet_def)
    next
      case nagain: False
      with assms False g Inl obtain a where
        s: "smtp_get_line_cb_scan bmax e thread True c1 = Inr (checker', a)"
        and a: "acts = (pre @ [Read (fd thread) (bmax - buff_ctr (data c1))]) @ a"
        by (auto simp: smtp_get_line_cb_def Let_def after_Inr)
      from funnel_policy [OF smtp_get_line_cb_scan_funnel [OF s] p1] pre show ?thesis
        unfolding a by (intro funnel_prepend) simp_all
    qed
  next
    case (Inr bytes)
    let ?count = "bmax - buff_ctr (data c1)"
    let ?got = "take ?count bytes"
    let ?c2 = "c1\<lparr>data := (data c1)
                 \<lparr>buff := take (buff_ctr (data c1)) (buff (data c1)) @ ?got @
                          drop (buff_ctr (data c1) + length ?got) (buff (data c1)),
                  buff_ctr := buff_ctr (data c1) + length ?got\<rparr>\<rparr>"
    have p2: "policy ?c2 = policy checker"
      using p1 by (simp add: policy_def)
    from assms False g Inr obtain a r0 where
      s: "smtp_get_line_cb_scan bmax e thread r0 ?c2 = Inr (checker', a)"
      and a: "acts = (pre @ [Read (fd thread) ?count]) @ a"
      by (auto simp: smtp_get_line_cb_def Let_def after_Inr)
    from funnel_policy [OF smtp_get_line_cb_scan_funnel [OF s] p2] pre show ?thesis
      unfolding a by (intro funnel_prepend) simp_all
  qed
qed

lemma smtp_put_line_cb_funnel:
  assumes "smtp_put_line_cb bmax e thread checker = Inr (checker', acts)"
  shows "funnel e thread checker checker' acts"
proof (cases "thread_type thread = THREAD_WRITE_TIMEOUT")
  case True
  then show ?thesis
    using assms by (auto simp: smtp_put_line_cb_def intro: funnel_final)
next
  case False
  let ?pre = "[Write (fd thread) (take (buff_ctr (data checker)) (buff (data checker)))]"
  have "(\<exists>a. acts = ?pre @ a \<and> funnel e thread checker checker' a) \<or> quiet checker checker' acts"
    using assms False
    by (auto simp: smtp_put_line_cb_def Let_def after_Inr quiet_def
             split: if_splits sum.splits option.splits
             intro: funnel_final call_buff_cb_funnel)
  then show ?thesis
    by (auto intro: funnel_quiet funnel_Cons)
qed

lemma smtp_check_thread_funnel:
  assumes "smtp_check_thread bmax e thread checker = Inr (checker', acts)"
  shows "funnel e thread checker checker' acts"
proof -
  let ?c1 = "checker\<lparr>data := (data checker)\<lparr>state := SMTP_START\<rparr>\<rparr>"
  have p: "policy ?c1 = policy checker"
    by (simp add: policy_def)
  have "\<exists>a. acts = [Tcp_socket_state F_smtp_check_thread] @ a \<and> funnel e thread checker checker' a"
    using assms
    by (auto simp: smtp_check_thread_def after_Inr split: connect_result.splits
             intro: funnel_final funnel_policy [OF smtp_engine_thread_funnel p])
  then show ?thesis
    by (auto intro: funnel_Cons)
qed

lemma smtp_connect_thread_disabled_eq:
  "\<not> enabled checker \<Longrightarrow>
   smtp_connect_thread e thread checker =
     (checker, [Thread_add_timer F_smtp_connect_thread (delay_loop checker)])"
  by (simp add: smtp_connect_thread_def)

lemma smtp_connect_thread_end_eq:
  "enabled checker \<Longrightarrow> length (host (data checker)) \<le> host_ctr (data checker) \<Longrightarrow>
   smtp_connect_thread e thread checker =
     ((if \<not> is_up checker \<or> \<not> has_run checker then update_svr_checker_state e UP checker else checker)
        \<lparr>retry_it := 0, data := (data checker)\<lparr>host_ctr := 0, host_ptr := list_element (host (data checker)) 0\<rparr>\<rparr>,
      (if \<not> is_up checker \<or> \<not> has_run checker
       then [Log_message ''Remote SMTP server %s succeed on service.'', Update_svr_checker_state UP] else []) @
      (if smtp_alert_flag (rs checker) \<and> \<not> is_up checker \<and>
          (alive (rs checker) \<noteq> rs_alive_ret e \<or> \<not> no_checker_emails e)
       then [Smtp_alert ''=> CHECK succeed on service <=''] else []) @
      [Thread_add_timer F_smtp_connect_thread (delay_loop checker)])"
  by (simp add: smtp_connect_thread_def update_svr_checker_state_def list_element_def Let_def)

lemma smtp_connect_thread_socket_fail_eq:
  "enabled checker \<Longrightarrow> host_ctr (data checker) < length (host (data checker)) \<Longrightarrow>
   socket_ret e = - 1 \<Longrightarrow>
   smtp_connect_thread e thread checker =
     (checker\<lparr>data := (data checker)\<lparr>host_ptr := Some (host (data checker) ! host_ctr (data checker))\<rparr>\<rparr>,
      [Socket (dst_ss_family (host (data checker) ! host_ctr (data checker))),
       Log_message ''SMTP_CHECK connection failed to create socket. Rescheduling.'',
       Thread_add_timer F_smtp_connect_thread (delay_loop checker)])"
  by (simp add: smtp_connect_thread_def list_element_def Let_def)

lemma smtp_connect_thread_bind_fail_eq:
  "enabled checker \<Longrightarrow> host_ctr (data checker) < length (host (data checker)) \<Longrightarrow>
   socket_ret e \<noteq> - 1 \<Longrightarrow> tcp_connection_state_ret e \<Longrightarrow>
   smtp_connect_thread e thread checker =
     (checker\<lparr>data := (data checker)\<lparr>host_ptr := Some (host (data checker) ! host_ctr (data checker))\<rparr>\<rparr>,
      [Socket (dst_ss_family (host (data checker) ! host_ctr (data checker))),
       Tcp_bind_connect (socket_ret e),
       Tcp_connection_state (socket_ret e) (tcp_bind_connect_ret e) F_smtp_check_thread
         (connection_to (host (data checker) ! host_ctr (data checker))),
       Close (socket_ret e),
       Log_message ''SMTP_CHECK socket bind failed. Rescheduling.'',
       Thread_add_timer F_smtp_connect_thread (delay_loop checker)])"
  by (simp add: smtp_connect_thread_def list_element_def Let_def)

lemma smtp_connect_thread_connect_eq:
  "enabled checker \<Longrightarrow> host_ctr (data checker) < length (host (data checker)) \<Longrightarrow>
   socket_ret e \<noteq> - 1 \<Longrightarrow> \<not> tcp_connection_state_ret e \<Longrightarrow>
   smtp_connect_thread e thread checker =
     (checker\<lparr>data := (data checker)\<lparr>host_ptr := Some (host (data checker) ! host_ctr (data checker))\<rparr>\<rparr>,
      [Socket (dst_ss_family (host (data checker) ! host_ctr (data checker))),
       Tcp_bind_connect (socket_ret e),
       Tcp_connection_state (socket_ret e) (tcp_bind_connect_ret e) F_smtp_check_thread
         (connection_to (host (data checker) ! host_ctr (data checker)))])"
  by (simp add: smtp_connect_thread_def list_element_def Let_def)

lemma smtp_connect_thread_quiet:
  assumes r: "smtp_connect_thread e thread checker = (checker', acts)"
    and c: "\<not> enabled checker \<or> host_ctr (data checker) < length (host (data checker))"
  shows "quiet checker checker' acts"
proof (cases "enabled checker")
  case False
  with r show ?thesis
    by (auto simp: smtp_connect_thread_disabled_eq quiet_def)
next
  case True
  with c have lt: "host_ctr (data checker) < length (host (data checker))"
    by simp
  show ?thesis
  proof (cases "socket_ret e = - 1")
    case s: True
    from r show ?thesis
      unfolding smtp_connect_thread_socket_fail_eq [OF True lt s]
      by (auto simp: quiet_def policy_def)
  next
    case s: False
    show ?thesis
    proof (cases "tcp_connection_state_ret e")
      case t: True
      from r show ?thesis
        unfolding smtp_connect_thread_bind_fail_eq [OF True lt s t]
        by (auto simp: quiet_def policy_def)
    next
      case t: False
      from r show ?thesis
        unfolding smtp_connect_thread_connect_eq [OF True lt s t]
        by (auto simp: quiet_def policy_def)
    qed
  qed
qed


lemma smtp_final_retry_ok:
  "retry_ok (fst (smtp_final e thread error format checker))"
  using smtp_final_retry_inv [of e thread error format checker]
  by (simp add: retry_ok_def smtp_final_frame)

lemma retry_ok_policy: "policy c0 = policy checker \<Longrightarrow> retry_ok c0 = retry_ok checker"
  by (simp add: retry_ok_def policy_def)

lemma funnel_retry_ok:
  assumes "funnel e thread checker checker' acts" and "retry_ok checker"
  shows "retry_ok checker'"
proof -
  from assms(1) consider "policy checker' = policy checker"
    | error format where "policy checker' = policy (fst (smtp_final e thread error format checker))"
    by (auto simp: funnel_def quiet_def finalizes_def)
  then show ?thesis
  proof cases
    case 1
    with assms(2) show ?thesis using retry_ok_policy [of checker' checker] by simp
  next
    case 2
    then show ?thesis
      using smtp_final_retry_ok [of e thread error format checker]
        retry_ok_policy [of checker' "fst (smtp_final e thread error format checker)"]
      by simp
  qed
qed

lemma smtp_connect_thread_retry_ok:
  assumes "smtp_connect_thread e thread checker = (checker', acts)" and "retry_ok checker"
  shows "retry_ok checker'"
proof (cases "\<not> enabled checker \<or> host_ctr (data checker) < length (host (data checker))")
  case True
  from smtp_connect_thread_quiet [OF assms(1) True] assms(2) show ?thesis
    using retry_ok_policy [of checker' checker] by (simp add: quiet_def)
next
  case False
  then have en: "enabled checker" and ge: "length (host (data checker)) \<le> host_ctr (data checker)"
    by simp_all
  from assms(1) have "retry_it checker' = 0"
    unfolding smtp_connect_thread_end_eq [OF en ge] by auto
  then show ?thesis by (simp add: retry_ok_def)
qed

lemma dispatch_retry_ok:
  assumes "dispatch bmax cl checker = Inr (checker', acts)" and "retry_ok checker"
  shows "retry_ok checker'"
proof -
  obtain f thread e where cl: "cl = Call f thread e"
    by (cases cl)
  show ?thesis
  proof (cases f)
    case F_smtp_connect_thread
    with assms cl show ?thesis
      by (auto simp: dispatch_def dest: smtp_connect_thread_retry_ok)
  next
    case F_smtp_check_thread
    with assms cl show ?thesis
      by (auto simp: dispatch_def dest: funnel_retry_ok [OF smtp_check_thread_funnel])
  next
    case F_smtp_get_line_cb
    with assms cl show ?thesis
      by (auto simp: dispatch_def dest: funnel_retry_ok [OF smtp_get_line_cb_funnel])
  next
    case F_smtp_put_line_cb
    with assms cl show ?thesis
      by (auto simp: dispatch_def dest: funnel_retry_ok [OF smtp_put_line_cb_funnel])
  qed
qed

lemma run_retry_ok:
  "run bmax calls checker = Inr (checker', acts) \<Longrightarrow> retry_ok checker \<Longrightarrow> retry_ok checker'"
proof (induction calls arbitrary: checker acts)
  case Nil
  then show ?case by simp
next
  case (Cons cl calls)
  from Cons.prems(1) obtain c1 a1 a2 where
    d: "dispatch bmax cl checker = Inr (c1, a1)" and r: "run bmax calls c1 = Inr (checker', a2)"
    by (auto simp: after_Inr split: sum.splits)
  from d Cons.prems(2) have "retry_ok c1"
    by (rule dispatch_retry_ok)
  with r show ?case
    by (rule Cons.IH)
qed

lemma funnel_retry:
  assumes "funnel e thread checker checker' acts"
  shows "retry checker' = retry checker"
proof -
  from assms consider "policy checker' = policy checker"
    | error format where "policy checker' = policy (fst (smtp_final e thread error format checker))"
    by (auto simp: funnel_def quiet_def finalizes_def)
  then show ?thesis
  proof cases
    case 1
    then show ?thesis by (simp add: policy_def)
  next
    case 2
    then have "retry checker' = retry (fst (smtp_final e thread error format checker))"
      by (simp add: policy_def)
    then show ?thesis by (simp add: smtp_final_frame)
  qed
qed

lemma smtp_connect_thread_retry:
  assumes "smtp_connect_thread e thread checker = (checker', acts)"
  shows "retry checker' = retry checker"
proof (cases "\<not> enabled checker \<or> host_ctr (data checker) < length (host (data checker))")
  case True
  from smtp_connect_thread_quiet [OF assms True] show ?thesis
    by (simp add: quiet_def policy_def)
next
  case False
  then have en: "enabled checker" and ge: "length (host (data checker)) \<le> host_ctr (data checker)"
    by simp_all
  from assms show ?thesis
    unfolding smtp_connect_thread_end_eq [OF en ge]
    by (auto simp: update_svr_checker_state_def)
qed

lemma dispatch_retry:
  assumes "dispatch bmax cl checker = Inr (checker', acts)"
  shows "retry checker' = retry checker"
proof -
  obtain f thread e where cl: "cl = Call f thread e"
    by (cases cl)
  show ?thesis
  proof (cases f)
    case F_smtp_connect_thread
    with assms cl show ?thesis
      by (auto simp: dispatch_def dest: smtp_connect_thread_retry)
  next
    case F_smtp_check_thread
    with assms cl show ?thesis
      by (auto simp: dispatch_def dest: funnel_retry [OF smtp_check_thread_funnel])
  next
    case F_smtp_get_line_cb
    with assms cl show ?thesis
      by (auto simp: dispatch_def dest: funnel_retry [OF smtp_get_line_cb_funnel])
  next
    case F_smtp_put_line_cb
    with assms cl show ?thesis
      by (auto simp: dispatch_def dest: funnel_retry [OF smtp_put_line_cb_funnel])
  qed
qed

lemma run_retry:
  "run bmax calls checker = Inr (checker', acts) \<Longrightarrow> retry checker' = retry checker"
proof (induction calls arbitrary: checker acts)
  case Nil
  then show ?case by simp
next
  case (Cons cl calls)
  from Cons.prems(1) obtain c1 a1 a2 where
    d: "dispatch bmax cl checker = Inr (c1, a1)" and r: "run bmax calls c1 = Inr (checker', a2)"
    by (auto simp: after_Inr split: sum.splits)
  from Cons.IH [OF r] dispatch_retry [OF d] show ?case
    by simp
qed

lemma strlen_terminated: "strlen (b[length b - 1 := NUL]) \<le> length b - 1"
proof (cases b rule: rev_cases)
  case Nil
  then show ?thesis by (simp add: strlen_def c_str_def)
next
  case (snoc xs x)
  then have "b[length b - 1 := NUL] = xs @ [NUL]"
    by simp
  then have "strlen (b[length b - 1 := NUL]) = length (takeWhile (\<lambda>c. c \<noteq> NUL) (xs @ [NUL]))"
    by (simp add: strlen_def c_str_def)
  also have "\<dots> \<le> length xs"
    by (cases "\<forall>c \<in> set xs. c \<noteq> NUL") (auto simp: takeWhile_append length_takeWhile_le)
  finally show ?thesis using snoc by simp
qed

lemma get_line_cb_partial:
  "smtp_get_line_cb 32 env_partial thread_io checker_connected =
     Inr (checker_connected\<lparr>data := (data checker_connected)
            \<lparr>buff := ''220 mail'' @ replicate 24 NUL, buff_ctr := 8\<rparr>\<rparr>,
          [Read 7 32, Thread_add_read F_smtp_get_line_cb 7 5000000])"
  by (simp add: smtp_get_line_cb_def smtp_get_line_cb_scan_def env_partial_def env_ok_def
        thread_io_def checker_connected_def checker_new_def host_a_def Let_def LF_def NUL_def)

subsection \<open>A session callback that closes the connection has finalized\<close>

lemma smtp_final_closes:
  "list_ex is_close (snd (smtp_final e thread error format checker))"
  by (cases error; cases "retry_it checker + 1 < retry checker")
     (simp_all add: smtp_final_success_eq smtp_final_retry_eq smtp_final_exhausted_eq)

lemma session_final:
  "smtp_final e thread error format checker = (checker', acts) \<Longrightarrow>
   session e thread checker checker' acts"
  using smtp_final_closes [of e thread error format checker]
    finalizes_final [of checker checker e thread error format checker' acts]
  by (auto simp: session_def)

lemma session_quiet:
  "quiet checker checker' acts \<Longrightarrow> \<not> list_ex is_close acts \<Longrightarrow>
   session e thread checker checker' acts"
  by (simp add: session_def)

lemma session_policy:
  "session e thread c0 checker' acts \<Longrightarrow> policy c0 = policy checker \<Longrightarrow>
   session e thread checker checker' acts"
  using smtp_final_policy [of c0 checker e thread]
  by (auto simp: session_def quiet_def finalizes_def split: if_splits)

lemma session_prepend:
  "session e thread checker checker' acts \<Longrightarrow>
   filter is_transition pre = [] \<Longrightarrow> filter is_alert pre = [] \<Longrightarrow> \<not> list_ex is_close pre \<Longrightarrow>
   session e thread checker checker' (pre @ acts)"
  by (auto simp: session_def quiet_def finalizes_def split: if_splits)

lemma session_Cons:
  "session e thread checker checker' acts \<Longrightarrow> \<not> is_transition x \<Longrightarrow> \<not> is_alert x \<Longrightarrow>
   \<not> is_close x \<Longrightarrow> session e thread checker checker' (x # acts)"
  using session_prepend [of e thread checker checker' acts "[x]"] by simp

lemma smtp_get_line_session:
  "smtp_get_line bmax thread cb checker = Inr (checker', acts) \<Longrightarrow>
   quiet checker checker' acts \<and> \<not> list_ex is_close acts"
  by (auto simp: smtp_get_line_def smtp_clear_buff_def quiet_def policy_def Let_def
           split: option.splits)

lemma smtp_put_line_session:
  "smtp_put_line bmax thread cb checker = Inr (checker', acts) \<Longrightarrow>
   quiet checker checker' acts \<and> \<not> list_ex is_close acts"
  by (auto simp: smtp_put_line_def quiet_def policy_def Let_def split: option.splits)

lemma smtp_engine_thread_session:
  assumes "smtp_engine_thread bmax e thread checker = Inr (checker', acts)"
  shows "session e thread checker checker' acts"
proof -
  have q: "\<And>c0. quiet c0 checker' acts \<and> \<not> list_ex is_close acts \<Longrightarrow>
             policy c0 = policy checker \<Longrightarrow> ?thesis"
    by (simp add: session_def quiet_def)
  show ?thesis
    using assms
    by (cases "state (data checker)")
       (auto simp: smtp_engine_thread_def Let_def policy_def split: if_splits
             intro: session_final
             elim!: q [OF smtp_get_line_session] q [OF smtp_put_line_session])
qed

lemma call_buff_cb_session:
  "call_buff_cb bmax e thread checker = Inr (checker', acts) \<Longrightarrow>
   session e thread checker checker' acts"
  by (auto simp: call_buff_cb_def split: option.splits callback.splits
           dest: smtp_engine_thread_session)

lemma smtp_get_line_cb_scan_session:
  assumes "smtp_get_line_cb_scan bmax e thread r0 checker = Inr (checker', acts)"
  shows "session e thread checker checker' acts"
proof -
  let ?c1 = "checker\<lparr>data := (data checker)\<lparr>buff := (buff (data checker))[bmax - 1 := NUL]\<rparr>\<rparr>"
  have p: "policy ?c1 = policy checker"
    by (simp add: policy_def)
  show ?thesis
    using assms
    by (auto simp: smtp_get_line_cb_scan_def split: if_splits option.splits
             intro: session_final session_policy [OF call_buff_cb_session p])
       (simp add: session_def quiet_def)
qed

lemma smtp_get_line_cb_session:
  assumes "smtp_get_line_cb bmax e thread checker = Inr (checker', acts)"
  shows "session e thread checker checker' acts"
proof (cases "thread_type thread = THREAD_READ_TIMEOUT")
  case True
  then show ?thesis
    using assms by (auto simp: smtp_get_line_cb_def intro: session_final)
next
  case False
  obtain c1 pre where
    g: "(if buff_ctr (data checker) > bmax
         then (smtp_clear_buff bmax checker,
               [Log_message (''SMTP_CHECK Buffer overflow reading from server %s. '' @
                             ''Increase SMTP_BUFF_MAX in smtp_check.h'')])
         else (checker, [])) = (c1, pre)"
    by fastforce
  then have p1: "policy c1 = policy checker" and pre: "filter is_transition pre = []"
    "filter is_alert pre = []" "\<not> list_ex is_close pre"
    by (auto simp: smtp_clear_buff_def policy_def split: if_splits)
  show ?thesis
  proof (cases "read_ret e")
    case (Inl again)
    show ?thesis
    proof (cases again)
      case True
      with assms False g Inl p1 pre show ?thesis
        by (auto simp: smtp_get_line_cb_def Let_def split: option.splits
                 intro!: session_quiet simp: quiet_def)
    next
      case nagain: False
      with assms False g Inl obtain a where
        s: "smtp_get_line_cb_scan bmax e thread True c1 = Inr (checker', a)"
        and a: "acts = (pre @ [Read (fd thread) (bmax - buff_ctr (data c1))]) @ a"
        by (auto simp: smtp_get_line_cb_def Let_def after_Inr)
      from session_policy [OF smtp_get_line_cb_scan_session [OF s] p1] pre show ?thesis
        unfolding a by (intro session_prepend) simp_all
    qed
  next
    case (Inr bytes)
    let ?count = "bmax - buff_ctr (data c1)"
    let ?got = "take ?count bytes"
    let ?c2 = "c1\<lparr>data := (data c1)
                 \<lparr>buff := take (buff_ctr (data c1)) (buff (data c1)) @ ?got @
                          drop (buff_ctr (data c1) + length ?got) (buff (data c1)),
                  buff_ctr := buff_ctr (data c1) + length ?got\<rparr>\<rparr>"
    have p2: "policy ?c2 = policy checker"
      using p1 by (simp add: policy_def)
    from assms False g Inr obtain a r0 where
      s: "smtp_get_line_cb_scan bmax e thread r0 ?c2 = Inr (checker', a)"
      and a: "acts = (pre @ [Read (fd thread) ?count]) @ a"
      by (auto simp: smtp_get_line_cb_def Let_def after_Inr)
    from session_policy [OF smtp_get_line_cb_scan_session [OF s] p2] pre show ?thesis
      unfolding a by (intro session_prepend) simp_all
  qed
qed

lemma smtp_put_line_cb_session:
  assumes "smtp_put_line_cb bmax e thread checker = Inr (checker', acts)"
  shows "session e thread checker checker' acts"
proof (cases "thread_type thread = THREAD_WRITE_TIMEOUT")
  case True
  then show ?thesis
    using assms by (auto simp: smtp_put_line_cb_def intro: session_final)
next
  case False
  let ?pre = "[Write (fd thread) (take (buff_ctr (data checker)) (buff (data checker)))]"
  have "(\<exists>a. acts = ?pre @ a \<and> session e thread checker checker' a) \<or>
        (quiet checker checker' acts \<and> \<not> list_ex is_close acts)"
    using assms False
    by (auto simp: smtp_put_line_cb_def Let_def after_Inr quiet_def
             split: if_splits sum.splits option.splits
             intro: session_final call_buff_cb_session)
  then show ?thesis
    by (auto intro: session_quiet session_Cons)
qed

lemma smtp_check_thread_session:
  assumes "smtp_check_thread bmax e thread checker = Inr (checker', acts)"
  shows "session e thread checker checker' acts"
proof -
  let ?c1 = "checker\<lparr>data := (data checker)\<lparr>state := SMTP_START\<rparr>\<rparr>"
  have p: "policy ?c1 = policy checker"
    by (simp add: policy_def)
  have "\<exists>a. acts = [Tcp_socket_state F_smtp_check_thread] @ a \<and> session e thread checker checker' a"
    using assms
    by (auto simp: smtp_check_thread_def after_Inr split: connect_result.splits
             intro: session_final session_policy [OF smtp_engine_thread_session p])
  then show ?thesis
    by (auto intro: session_Cons)
qed

lemma dispatch_session:
  assumes "dispatch bmax (Call f thread e) checker = Inr (checker', acts)"
    and "f \<noteq> F_smtp_connect_thread"
  shows "session e thread checker checker' acts"
  using assms
  by (cases f)
     (auto simp: dispatch_def
           intro: smtp_check_thread_session smtp_get_line_cb_session smtp_put_line_cb_session)

subsection \<open>Runs of failing attempts and runs of a cycle that succeeds\<close>

lemma after_after: "after a (after b out) = after (a @ b) out"
  by (simp add: after_def split: sum.splits)

lemma after_Nil: "after [] out = out"
  by (simp add: after_def split: sum.splits)

lemma run_append:
  "run bmax (xs @ ys) checker =
     (case run bmax xs checker of
        Inl f \<Rightarrow> Inl f
      | Inr (checker', acts) \<Rightarrow> after acts (run bmax ys checker'))"
proof (induction xs arbitrary: checker)
  case Nil
  then show ?case by (simp add: after_Nil)
next
  case (Cons x xs)
  show ?case
  proof (cases "dispatch bmax x checker")
    case (Inl f)
    then show ?thesis by simp
  next
    case (Inr p)
    obtain c' a where p: "p = (c', a)"
      by (cases p)
    show ?thesis
      using Inr p Cons.IH [of c']
      by (cases "run bmax xs c'") (auto simp: after_after)
  qed
qed

lemma run_Cons_Inr:
  assumes "run bmax (cl # cls) checker = Inr (c1, acts)"
  obtains c' a1 a2 where "dispatch bmax cl checker = Inr (c', a1)"
    and "run bmax cls c' = Inr (c1, a2)" and "acts = a1 @ a2"
    and "steps bmax (cl # cls) checker = (cl, checker, c', a1) # steps bmax cls c'"
  using assms by (auto simp: after_Inr split: sum.splits)

lemma finalizes_success:
  assumes "finalizes e thread False format c c' acts"
  shows "host_ctr (data c') = host_ctr (data c) + 1" "retry_it c' = 0"
    "is_up c' = is_up c" "has_run c' = has_run c" "rs c' = rs c" "enabled c' = enabled c"
    "retry c' = retry c" "host (data c') = host (data c)"
    "filter is_transition acts = []" "filter is_alert acts = []"
  using assms by (simp_all add: finalizes_def policy_def smtp_final_success_eq)

lemma finalizes_retry:
  assumes "finalizes e thread True format c c' acts" and "retry_it c + 1 < retry c"
  shows "host_ctr (data c') = host_ctr (data c)" "retry_it c' = retry_it c + 1"
    "is_up c' = is_up c" "has_run c' = has_run c" "rs c' = rs c" "enabled c' = enabled c"
    "retry c' = retry c" "host (data c') = host (data c)"
    "filter is_transition acts = []" "filter is_alert acts = []"
  using assms by (simp_all add: finalizes_def policy_def smtp_final_retry_eq)

lemma finalizes_exhausted:
  assumes "finalizes e thread True format c c' acts" and "\<not> retry_it c + 1 < retry c"
  shows "host_ctr (data c') = 0" "retry_it c' = 0" "\<not> is_up c'" "has_run c'"
    "enabled c' = enabled c" "retry c' = retry c" "host (data c') = host (data c)"
    "filter is_transition acts =
       (if is_up c \<or> \<not> has_run c then [Update_svr_checker_state DOWN] else [])"
    "\<not> is_up c \<Longrightarrow> filter is_alert acts = []"
  using assms
  by (simp_all add: finalizes_def policy_def smtp_final_exhausted_eq update_svr_checker_state_def
        DOWN_def)

lemma failing_step:
  assumes d: "dispatch bmax (Call f thread e) c = Inr (c', acts)"
    and ns: "\<not> succeeds (Call f thread e, c, c', acts)"
    and h: "host_ctr (data c) < length (host (data c))"
  shows "if ends_attempt (Call f thread e, c, c', acts)
         then (\<exists>format. finalizes e thread True format c c' acts)
         else quiet c c' acts"
proof (cases "f = F_smtp_connect_thread")
  case True
  with d have "smtp_connect_thread e thread c = (c', acts)"
    by (simp add: dispatch_def)
  from smtp_connect_thread_quiet [OF this] h True show ?thesis
    by simp
next
  case False
  note s = dispatch_session [OF d False]
  show ?thesis
  proof (cases "list_ex is_close acts")
    case True
    with s obtain error format where fin: "finalizes e thread error format c c' acts"
      by (auto simp: session_def)
    have "error"
    proof (rule ccontr)
      assume "\<not> error"
      with fin have "finalizes e thread False format c c' acts"
        by simp
      from finalizes_success(1) [OF this] ns False True show False
        by simp
    qed
    with fin True False show ?thesis
      by auto
  next
    case nc: False
    with s False show ?thesis
      by (simp add: session_def)
  qed
qed

lemma quiet_fields:
  assumes "quiet c c' acts"
  shows "host_ctr (data c') = host_ctr (data c)" "retry_it c' = retry_it c"
    "is_up c' = is_up c" "has_run c' = has_run c" "rs c' = rs c" "enabled c' = enabled c"
    "retry c' = retry c" "host (data c') = host (data c)"
    "filter is_transition acts = []" "filter is_alert acts = []"
  using assms by (simp_all add: quiet_def policy_def)

text \<open>A run without the end of an attempt, from a state with a target at the index.\<close>

lemma quiet_run:
  assumes "run bmax calls c = Inr (c1, acts)"
    and "list_all (\<lambda>s. \<not> ends_attempt s) (steps bmax calls c)"
    and "host_ctr (data c) < length (host (data c))"
  shows "policy c1 = policy c \<and> filter is_transition acts = [] \<and> filter is_alert acts = []"
  using assms
proof (induction calls arbitrary: c acts)
  case Nil
  then show ?case by simp
next
  case (Cons cl cls)
  obtain f thread e where cl: "cl = Call f thread e"
    by (cases cl)
  from Cons.prems(1) obtain c' a1 a2 where d: "dispatch bmax cl c = Inr (c', a1)"
    and r: "run bmax cls c' = Inr (c1, a2)" and a: "acts = a1 @ a2"
    and st: "steps bmax (cl # cls) c = (cl, c, c', a1) # steps bmax cls c'"
    by (rule run_Cons_Inr)
  from Cons.prems(2) st have ne: "\<not> ends_attempt (Call f thread e, c, c', a1)"
    and rest: "list_all (\<lambda>s. \<not> ends_attempt s) (steps bmax cls c')"
    by (simp_all add: cl)
  from ne have ns: "\<not> succeeds (Call f thread e, c, c', a1)"
    by (simp del: ends_attempt.simps)
  from failing_step [OF d [unfolded cl] ns Cons.prems(3)] ne have q: "quiet c c' a1"
    by (simp del: ends_attempt.simps)
  with Cons.prems(3) have h': "host_ctr (data c') < length (host (data c'))"
    by (simp add: quiet_def policy_def)
  from Cons.IH [OF r rest h'] q show ?case
    by (simp add: a quiet_def)
qed

text \<open>Failing attempts of a checker that is down and has run.\<close>

lemma down_run:
  assumes "run bmax calls c = Inr (c1, acts)"
    and "list_all (\<lambda>s. \<not> succeeds s) (steps bmax calls c)"
    and "host_ctr (data c) < length (host (data c))"
    and "\<not> is_up c" and "has_run c"
  shows "filter is_transition acts = [] \<and> filter is_alert acts = [] \<and> \<not> is_up c1 \<and> has_run c1 \<and>
         (host_ctr (data c1) = host_ctr (data c) \<or> host_ctr (data c1) = 0)"
  using assms
proof (induction calls arbitrary: c acts)
  case Nil
  then show ?case by simp
next
  case (Cons cl cls)
  obtain f thread e where cl: "cl = Call f thread e"
    by (cases cl)
  from Cons.prems(1) obtain c' a1 a2 where d: "dispatch bmax cl c = Inr (c', a1)"
    and r: "run bmax cls c' = Inr (c1, a2)" and a: "acts = a1 @ a2"
    and st: "steps bmax (cl # cls) c = (cl, c, c', a1) # steps bmax cls c'"
    by (rule run_Cons_Inr)
  from Cons.prems(2) st have ns: "\<not> succeeds (Call f thread e, c, c', a1)"
    and rest: "list_all (\<lambda>s. \<not> succeeds s) (steps bmax cls c')"
    by (simp_all add: cl)
  note fs = failing_step [OF d [unfolded cl] ns Cons.prems(3)]
  have one: "filter is_transition a1 = [] \<and> filter is_alert a1 = [] \<and> \<not> is_up c' \<and> has_run c' \<and>
    host (data c') = host (data c) \<and>
    (host_ctr (data c') = host_ctr (data c) \<or> host_ctr (data c') = 0)"
  proof (cases "ends_attempt (Call f thread e, c, c', a1)")
    case True
    with fs obtain format where fin: "finalizes e thread True format c c' a1"
      by auto
    show ?thesis
    proof (cases "retry_it c + 1 < retry c")
      case lt: True
      from finalizes_retry [OF fin lt] Cons.prems(4,5) show ?thesis
        by simp
    next
      case ge: False
      from finalizes_exhausted [OF fin ge] Cons.prems(4,5) show ?thesis
        by simp
    qed
  next
    case False
    with fs have "quiet c c' a1"
      by simp
    from quiet_fields [OF this] Cons.prems(4,5) show ?thesis
      by simp
  qed
  with Cons.prems(3) have h': "host_ctr (data c') < length (host (data c'))"
    by auto
  from one have "\<not> is_up c'" "has_run c'"
    by simp_all
  from Cons.IH [OF r rest h' this] one show ?case
    by (auto simp: a)
qed

text \<open>Failing attempts, as many as exhaust the retries, of a checker that is up or has not run.\<close>

lemma exhausting_run:
  assumes "run bmax calls c = Inr (c1, acts)"
    and "list_all (\<lambda>s. \<not> succeeds s) (steps bmax calls c)"
    and "host_ctr (data c) < length (host (data c))"
    and "is_up c \<or> \<not> has_run c"
    and "retry_ok c"
    and "retry_it c + length (filter ends_attempt (steps bmax calls c)) = max 1 (retry c)"
  shows "filter is_transition acts = [Update_svr_checker_state DOWN] \<and>
         \<not> is_up c1 \<and> has_run c1 \<and> retry_it c1 = 0 \<and> host_ctr (data c1) = 0 \<and>
         host (data c1) = host (data c) \<and> retry c1 = retry c"
  using assms
proof (induction calls arbitrary: c acts)
  case Nil
  then show ?case by (auto simp: retry_ok_def)
next
  case (Cons cl cls)
  obtain f thread e where cl: "cl = Call f thread e"
    by (cases cl)
  from Cons.prems(1) obtain c' a1 a2 where d: "dispatch bmax cl c = Inr (c', a1)"
    and r: "run bmax cls c' = Inr (c1, a2)" and a: "acts = a1 @ a2"
    and st: "steps bmax (cl # cls) c = (cl, c, c', a1) # steps bmax cls c'"
    by (rule run_Cons_Inr)
  from Cons.prems(2) st have ns: "\<not> succeeds (Call f thread e, c, c', a1)"
    and rest: "list_all (\<lambda>s. \<not> succeeds s) (steps bmax cls c')"
    by (simp_all add: cl)
  note fs = failing_step [OF d [unfolded cl] ns Cons.prems(3)]
  show ?case
  proof (cases "ends_attempt (Call f thread e, c, c', a1)")
    case True
    with fs obtain format where fin: "finalizes e thread True format c c' a1"
      by auto
    from True Cons.prems(6) [unfolded st] have
      n: "retry_it c + 1 + length (filter ends_attempt (steps bmax cls c')) = max 1 (retry c)"
      by (simp add: cl del: ends_attempt.simps)
    show ?thesis
    proof (cases "retry_it c + 1 < retry c")
      case lt: True
      note f = finalizes_retry [OF fin lt]
      from f Cons.prems(3) have h': "host_ctr (data c') < length (host (data c'))"
        by simp
      from f Cons.prems(4) have up': "is_up c' \<or> \<not> has_run c'"
        by simp
      from f lt have ok': "retry_ok c'"
        by (simp add: retry_ok_def)
      from f n have n': "retry_it c' + length (filter ends_attempt (steps bmax cls c')) = max 1 (retry c')"
        by simp
      from Cons.IH [OF r rest h' up' ok' n'] f show ?thesis
        by (simp add: a)
    next
      case ge: False
      note f = finalizes_exhausted [OF fin ge]
      from ge Cons.prems(5) have "retry_it c + 1 = max 1 (retry c)"
        by (auto simp: retry_ok_def)
      with n have "length (filter ends_attempt (steps bmax cls c')) = 0"
        by arith
      then have none: "list_all (\<lambda>s. \<not> ends_attempt s) (steps bmax cls c')"
        by (simp add: list_all_iff filter_empty_conv)
      from f Cons.prems(3) have h': "host_ctr (data c') < length (host (data c'))"
        by (cases "host (data c)") simp_all
      from quiet_run [OF r none h'] f Cons.prems(4) show ?thesis
        by (simp add: a policy_def)
    qed
  next
    case False
    with fs have q: "quiet c c' a1"
      by simp
    note f = quiet_fields [OF q]
    from f Cons.prems(3) have h': "host_ctr (data c') < length (host (data c'))"
      by simp
    from f Cons.prems(4) have up': "is_up c' \<or> \<not> has_run c'"
      by simp
    from f Cons.prems(5) have ok': "retry_ok c'"
      by (simp add: retry_ok_def)
    from False Cons.prems(6) [unfolded st] f
    have n': "retry_it c' + length (filter ends_attempt (steps bmax cls c')) = max 1 (retry c')"
      by (simp add: cl del: ends_attempt.simps)
    from Cons.IH [OF r rest h' up' ok' n'] f show ?thesis
      by (simp add: a)
  qed
qed

text \<open>A run in which the orchestrator never finds the index past the end and no attempt exhausts
  the retries.\<close>

lemma retried_run:
  assumes "run bmax calls c = Inr (c1, acts)"
    and "list_all (\<lambda>s. \<not> past_the_end s \<and> \<not> exhausts s) (steps bmax calls c)"
  shows "filter is_transition acts = [] \<and> filter is_alert acts = [] \<and>
         is_up c1 = is_up c \<and> has_run c1 = has_run c \<and> rs c1 = rs c \<and> enabled c1 = enabled c \<and>
         host (data c1) = host (data c) \<and>
         host_ctr (data c1) = host_ctr (data c) + length (filter succeeds (steps bmax calls c))"
  using assms
proof (induction calls arbitrary: c acts)
  case Nil
  then show ?case by simp
next
  case (Cons cl cls)
  obtain f thread e where cl: "cl = Call f thread e"
    by (cases cl)
  from Cons.prems(1) obtain c' a1 a2 where d: "dispatch bmax cl c = Inr (c', a1)"
    and r: "run bmax cls c' = Inr (c1, a2)" and a: "acts = a1 @ a2"
    and st: "steps bmax (cl # cls) c = (cl, c, c', a1) # steps bmax cls c'"
    by (rule run_Cons_Inr)
  from Cons.prems(2) st have np: "\<not> past_the_end (Call f thread e, c, c', a1)"
    and nx: "\<not> exhausts (Call f thread e, c, c', a1)"
    and rest: "list_all (\<lambda>s. \<not> past_the_end s \<and> \<not> exhausts s) (steps bmax cls c')"
    by (simp_all add: cl)
  have one: "filter is_transition a1 = [] \<and> filter is_alert a1 = [] \<and>
    is_up c' = is_up c \<and> has_run c' = has_run c \<and> rs c' = rs c \<and> enabled c' = enabled c \<and>
    host (data c') = host (data c) \<and>
    host_ctr (data c') = host_ctr (data c) + (if succeeds (Call f thread e, c, c', a1) then 1 else 0)"
  proof (cases "f = F_smtp_connect_thread")
    case True
    with d have s: "smtp_connect_thread e thread c = (c', a1)"
      by (simp add: dispatch_def cl)
    from np True have "\<not> enabled c \<or> host_ctr (data c) < length (host (data c))"
      by (auto simp: list_element_def split: if_splits)
    from quiet_fields [OF smtp_connect_thread_quiet [OF s this]] True show ?thesis
      by simp
  next
    case False
    note s = dispatch_session [OF d [unfolded cl] False]
    show ?thesis
    proof (cases "list_ex is_close a1")
      case True
      with s obtain error format where fin: "finalizes e thread error format c c' a1"
        by (auto simp: session_def)
      show ?thesis
      proof (cases error)
        case ok: False
        with fin have "finalizes e thread False format c c' a1"
          by simp
        from finalizes_success [OF this] True False show ?thesis
          by simp
      next
        case err: True
        with fin have fin': "finalizes e thread True format c c' a1"
          by simp
        show ?thesis
        proof (cases "retry_it c + 1 < retry c")
          case lt: True
          from finalizes_retry [OF fin' lt] show ?thesis
            by simp
        next
          case ge: False
          from finalizes_exhausted(1) [OF fin' ge] nx True False ge show ?thesis
            by simp
        qed
      qed
    next
      case nc: False
      with s have "quiet c c' a1"
        by (simp add: session_def)
      from quiet_fields [OF this] nc show ?thesis
        by simp
    qed
  qed
  from Cons.IH [OF r rest] one show ?case
    unfolding st by (simp add: a cl del: succeeds.simps)
qed

subsection \<open>The I/O waits and the steps of the engine\<close>

lemma io_wait_timeouts_append:
  "io_wait_timeouts (xs @ ys) = io_wait_timeouts xs @ io_wait_timeouts ys"
  by (induction xs rule: io_wait_timeouts.induct) simp_all

lemma smtp_final_no_io_wait:
  "io_wait_timeouts (snd (smtp_final e thread error format checker)) = []"
  by (cases error; cases "retry_it checker + 1 < retry checker")
     (simp_all add: smtp_final_success_eq smtp_final_retry_eq smtp_final_exhausted_eq
        io_wait_timeouts_append)

lemma smtp_final_no_io_waitD:
  "smtp_final e thread error format checker = (checker', acts) \<Longrightarrow> io_wait_timeouts acts = []"
  using smtp_final_no_io_wait [of e thread error format checker] by simp

lemma smtp_get_line_eq:
  "host_ptr (data checker) = Some smtp_host \<Longrightarrow>
   smtp_get_line bmax thread cb checker =
     Inr (checker\<lparr>data := (data checker)\<lparr>buff := replicate bmax NUL, buff_ctr := 0, buff_cb := Some cb\<rparr>\<rparr>,
          [Thread_add_read F_smtp_get_line_cb (fd thread) (connection_to smtp_host), Thread_del_write])"
  by (simp add: smtp_get_line_def smtp_clear_buff_def)

lemma smtp_put_line_eq:
  "host_ptr (data checker) = Some smtp_host \<Longrightarrow>
   smtp_put_line bmax thread cb checker =
     Inr (checker\<lparr>data := (data checker)
            \<lparr>buff := (buff (data checker))[bmax - 1 := NUL],
             buff_ctr := strlen ((buff (data checker))[bmax - 1 := NUL]), buff_cb := Some cb\<rparr>\<rparr>,
          [Thread_add_write F_smtp_put_line_cb (fd thread) (connection_to smtp_host), Thread_del_read])"
  by (simp add: smtp_put_line_def Let_def)

lemma smtp_engine_thread_io_waits:
  assumes "smtp_engine_thread bmax e thread checker = Inr (checker', acts)"
    and "host_ptr (data checker) = Some smtp_host"
  shows "set (io_wait_timeouts acts) \<subseteq> {connection_to smtp_host}"
  using assms
  by (cases "state (data checker)")
     (auto simp: smtp_engine_thread_def smtp_get_line_eq smtp_put_line_eq Let_def
           split: if_splits dest: smtp_final_no_io_waitD)

lemma call_buff_cb_io_waits:
  "call_buff_cb bmax e thread checker = Inr (checker', acts) \<Longrightarrow>
   host_ptr (data checker) = Some smtp_host \<Longrightarrow>
   set (io_wait_timeouts acts) \<subseteq> {connection_to smtp_host}"
  by (auto simp: call_buff_cb_def split: option.splits callback.splits
           dest: smtp_engine_thread_io_waits)

lemma smtp_get_line_cb_scan_io_waits:
  assumes "smtp_get_line_cb_scan bmax e thread r0 checker = Inr (checker', acts)"
    and "host_ptr (data checker) = Some smtp_host"
  shows "set (io_wait_timeouts acts) \<subseteq> {connection_to smtp_host}"
proof -
  let ?c1 = "checker\<lparr>data := (data checker)\<lparr>buff := (buff (data checker))[bmax - 1 := NUL]\<rparr>\<rparr>"
  have h: "host_ptr (data ?c1) = Some smtp_host"
    using assms(2) by simp
  show ?thesis
    using assms call_buff_cb_io_waits [OF _ h]
    by (auto simp: smtp_get_line_cb_scan_def split: if_splits dest: smtp_final_no_io_waitD)
qed

lemma smtp_get_line_cb_io_waits:
  assumes "smtp_get_line_cb bmax e thread checker = Inr (checker', acts)"
    and "host_ptr (data checker) = Some smtp_host"
  shows "set (io_wait_timeouts acts) \<subseteq> {connection_to smtp_host}"
proof (cases "thread_type thread = THREAD_READ_TIMEOUT")
  case True
  then show ?thesis
    using assms by (auto simp: smtp_get_line_cb_def dest: smtp_final_no_io_waitD)
next
  case False
  obtain c1 pre where
    g: "(if buff_ctr (data checker) > bmax
         then (smtp_clear_buff bmax checker,
               [Log_message (''SMTP_CHECK Buffer overflow reading from server %s. '' @
                             ''Increase SMTP_BUFF_MAX in smtp_check.h'')])
         else (checker, [])) = (c1, pre)"
    by fastforce
  then have h1: "host_ptr (data c1) = Some smtp_host" and pre: "io_wait_timeouts pre = []"
    using assms(2) by (auto simp: smtp_clear_buff_def split: if_splits)
  show ?thesis
  proof (cases "read_ret e")
    case (Inl again)
    show ?thesis
    proof (cases again)
      case True
      with assms False g Inl h1 pre show ?thesis
        by (auto simp: smtp_get_line_cb_def Let_def io_wait_timeouts_append)
    next
      case nagain: False
      with assms False g Inl obtain a where
        s: "smtp_get_line_cb_scan bmax e thread True c1 = Inr (checker', a)"
        and a: "acts = (pre @ [Read (fd thread) (bmax - buff_ctr (data c1))]) @ a"
        by (auto simp: smtp_get_line_cb_def Let_def after_Inr)
      from smtp_get_line_cb_scan_io_waits [OF s h1] pre show ?thesis
        unfolding a by (simp add: io_wait_timeouts_append)
    qed
  next
    case (Inr bytes)
    let ?count = "bmax - buff_ctr (data c1)"
    let ?got = "take ?count bytes"
    let ?c2 = "c1\<lparr>data := (data c1)
                 \<lparr>buff := take (buff_ctr (data c1)) (buff (data c1)) @ ?got @
                          drop (buff_ctr (data c1) + length ?got) (buff (data c1)),
                  buff_ctr := buff_ctr (data c1) + length ?got\<rparr>\<rparr>"
    have h2: "host_ptr (data ?c2) = Some smtp_host"
      using h1 by simp
    from assms False g Inr obtain a r0 where
      s: "smtp_get_line_cb_scan bmax e thread r0 ?c2 = Inr (checker', a)"
      and a: "acts = (pre @ [Read (fd thread) ?count]) @ a"
      by (auto simp: smtp_get_line_cb_def Let_def after_Inr)
    from smtp_get_line_cb_scan_io_waits [OF s h2] pre show ?thesis
      unfolding a by (simp add: io_wait_timeouts_append)
  qed
qed

lemma smtp_put_line_cb_io_waits:
  assumes "smtp_put_line_cb bmax e thread checker = Inr (checker', acts)"
    and "host_ptr (data checker) = Some smtp_host"
  shows "set (io_wait_timeouts acts) \<subseteq> {connection_to smtp_host}"
  using assms
  by (auto simp: smtp_put_line_cb_def Let_def after_Inr
           split: if_splits sum.splits
           dest: smtp_final_no_io_waitD dest!: call_buff_cb_io_waits [OF _ assms(2)])


lemma smtp_get_line_cb_read_eq:
  "thread_type thread \<noteq> THREAD_READ_TIMEOUT \<Longrightarrow> buff_ctr (data checker) \<le> bmax \<Longrightarrow>
   read_ret e = Inr bytes \<Longrightarrow>
   smtp_get_line_cb bmax e thread checker =
     after [Read (fd thread) (bmax - buff_ctr (data checker))]
       (smtp_get_line_cb_scan bmax e thread (take (bmax - buff_ctr (data checker)) bytes = [])
          (checker\<lparr>data := (data checker)
             \<lparr>buff := take (buff_ctr (data checker)) (buff (data checker)) @
                      take (bmax - buff_ctr (data checker)) bytes @
                      drop (buff_ctr (data checker) +
                            length (take (bmax - buff_ctr (data checker)) bytes))
                        (buff (data checker)),
              buff_ctr := buff_ctr (data checker) +
                          length (take (bmax - buff_ctr (data checker)) bytes)\<rparr>\<rparr>))"
  by (simp add: smtp_get_line_cb_def Let_def)

lemma smtp_get_line_cb_scan_again:
  "LF \<notin> set (take bmax (buff (data checker))) \<Longrightarrow> host_ptr (data checker) = Some smtp_host \<Longrightarrow>
   smtp_get_line_cb_scan bmax e thread False checker =
     Inr (checker, [Thread_add_read F_smtp_get_line_cb (fd thread) (connection_to smtp_host)])"
  by (simp add: smtp_get_line_cb_scan_def)

lemma smtp_get_line_cb_partial_eq:
  assumes t: "thread_type thread \<noteq> THREAD_READ_TIMEOUT"
    and le: "buff_ctr (data checker) \<le> bmax"
    and r: "read_ret e = Inr bytes"
    and got: "take (bmax - buff_ctr (data checker)) bytes \<noteq> []"
    and nb: "LF \<notin> set (buff (data checker))"
    and ny: "LF \<notin> set bytes"
    and h: "host_ptr (data checker) = Some smtp_host"
  shows "smtp_get_line_cb bmax e thread checker =
     Inr (checker\<lparr>data := (data checker)
            \<lparr>buff := take (buff_ctr (data checker)) (buff (data checker)) @
                     take (bmax - buff_ctr (data checker)) bytes @
                     drop (buff_ctr (data checker) +
                           length (take (bmax - buff_ctr (data checker)) bytes))
                       (buff (data checker)),
             buff_ctr := buff_ctr (data checker) +
                         length (take (bmax - buff_ctr (data checker)) bytes)\<rparr>\<rparr>,
          [Read (fd thread) (bmax - buff_ctr (data checker)),
           Thread_add_read F_smtp_get_line_cb (fd thread) (connection_to smtp_host)])"
proof -
  let ?ctr = "buff_ctr (data checker)"
  let ?got = "take (bmax - ?ctr) bytes"
  let ?b = "take ?ctr (buff (data checker)) @ ?got @ drop (?ctr + length ?got) (buff (data checker))"
  let ?c = "checker\<lparr>data := (data checker)\<lparr>buff := ?b, buff_ctr := ?ctr + length ?got\<rparr>\<rparr>"
  have "set ?b \<subseteq> set (buff (data checker)) \<union> set bytes"
    by (auto dest: in_set_takeD in_set_dropD)
  with nb ny have "LF \<notin> set ?b"
    by blast
  moreover have "set (take bmax ?b) \<subseteq> set ?b"
    by (rule set_take_subset)
  ultimately have nolf0: "LF \<notin> set (take bmax ?b)"
    by blast
  have eq: "buff (data ?c) = ?b"
    by simp
  have nolf: "LF \<notin> set (take bmax (buff (data ?c)))"
    unfolding eq by (rule nolf0)
  have h': "host_ptr (data ?c) = Some smtp_host"
    using h by simp
  have flag: "(?got = []) = False"
    using got by simp
  show ?thesis
    unfolding smtp_get_line_cb_read_eq [OF t le r] flag
      smtp_get_line_cb_scan_again [OF nolf h']
    by simp
qed

lemma c_str_no_NUL: "NUL \<notin> set (c_str s)"
  by (auto simp: c_str_def dest: set_takeWhileD)

lemma c_str_terminated: "NUL \<notin> set s \<Longrightarrow> c_str (s @ NUL # r) = s"
  by (induction s) (auto simp: c_str_def)

lemma terminated_update:
  "length s \<le> k \<Longrightarrow> \<exists>r'. (s @ NUL # r)[k := NUL] = s @ NUL # r'"
  by (cases "k - length s") (simp_all add: list_update_append)

lemma sent_text:
  assumes "NUL \<notin> set line" and "0 < n"
  shows "take (strlen ((snprintf b n line)[n - 1 := NUL])) ((snprintf b n line)[n - 1 := NUL]) =
         take (n - 1) line"
proof -
  let ?s = "take (n - 1) line"
  have s: "NUL \<notin> set ?s"
    using assms(1) by (auto dest: in_set_takeD)
  have "snprintf b n line = ?s @ NUL # drop (Suc (length ?s)) b"
    using assms(2) by (simp add: snprintf_def Let_def)
  moreover have "length ?s \<le> n - 1"
    by simp
  ultimately obtain r' where b2: "(snprintf b n line)[n - 1 := NUL] = ?s @ NUL # r'"
    using terminated_update [of ?s "n - 1" "drop (Suc (length ?s)) b"] by auto
  have "strlen (?s @ NUL # r') = length ?s"
    using c_str_terminated [OF s] by (simp add: strlen_def)
  then show ?thesis
    unfolding b2 by (simp add: min_def)
qed

lemma helo_line_no_NUL: "NUL \<notin> set (''HELO '' @ c_str name @ CRLF)"
  using c_str_no_NUL [of name] by (simp add: CRLF_def NUL_def)

lemma quit_line_no_NUL: "NUL \<notin> set (''QUIT'' @ CRLF)"
  by (simp add: CRLF_def NUL_def)

lemma smtp_engine_thread_start_eq:
  "state (data checker) = SMTP_START \<Longrightarrow> host_ptr (data checker) = Some smtp_host \<Longrightarrow>
   smtp_engine_thread bmax e thread checker =
     Inr (checker\<lparr>data := (data checker)
            \<lparr>state := SMTP_HAVE_BANNER, buff := replicate bmax NUL, buff_ctr := 0,
             buff_cb := Some CB_smtp_engine_thread\<rparr>\<rparr>,
          [Thread_add_read F_smtp_get_line_cb (fd thread) (connection_to smtp_host), Thread_del_write])"
  by (simp add: smtp_engine_thread_def smtp_get_line_eq)

lemma smtp_engine_thread_sent_helo_eq:
  "state (data checker) = SMTP_SENT_HELO \<Longrightarrow> host_ptr (data checker) = Some smtp_host \<Longrightarrow>
   smtp_engine_thread bmax e thread checker =
     Inr (checker\<lparr>data := (data checker)
            \<lparr>state := SMTP_RECV_HELO, buff := replicate bmax NUL, buff_ctr := 0,
             buff_cb := Some CB_smtp_engine_thread\<rparr>\<rparr>,
          [Thread_add_read F_smtp_get_line_cb (fd thread) (connection_to smtp_host), Thread_del_write])"
  by (simp add: smtp_engine_thread_def smtp_get_line_eq)

lemma smtp_engine_thread_sent_quit_eq:
  "state (data checker) = SMTP_SENT_QUIT \<Longrightarrow> host_ptr (data checker) = Some smtp_host \<Longrightarrow>
   smtp_engine_thread bmax e thread checker =
     Inr (checker\<lparr>data := (data checker)
            \<lparr>state := SMTP_RECV_QUIT, buff := replicate bmax NUL, buff_ctr := 0,
             buff_cb := Some CB_smtp_engine_thread\<rparr>\<rparr>,
          [Thread_add_read F_smtp_get_line_cb (fd thread) (connection_to smtp_host), Thread_del_write])"
  by (simp add: smtp_engine_thread_def smtp_get_line_eq)

text \<open>The buffer and the cursor once a line has been formatted and handed to smtp_put_line.\<close>

lemma smtp_engine_thread_banner_ok_eq:
  "state (data checker) = SMTP_HAVE_BANNER \<Longrightarrow> smtp_get_status (buff (data checker)) = 220 \<Longrightarrow>
   host_ptr (data checker) = Some smtp_host \<Longrightarrow>
   smtp_engine_thread bmax e thread checker =
     Inr (checker\<lparr>data := (data checker)
            \<lparr>state := SMTP_SENT_HELO,
             buff := (snprintf (buff (data checker)) bmax
                        (''HELO '' @ c_str (helo_name (data checker)) @ CRLF))[bmax - 1 := NUL],
             buff_ctr := strlen ((snprintf (buff (data checker)) bmax
                        (''HELO '' @ c_str (helo_name (data checker)) @ CRLF))[bmax - 1 := NUL]),
             buff_cb := Some CB_smtp_engine_thread\<rparr>\<rparr>,
          [Thread_add_write F_smtp_put_line_cb (fd thread) (connection_to smtp_host), Thread_del_read])"
  by (simp add: smtp_engine_thread_def smtp_put_line_eq Let_def)

lemma smtp_engine_thread_helo_ok_eq:
  "state (data checker) = SMTP_RECV_HELO \<Longrightarrow> smtp_get_status (buff (data checker)) = 250 \<Longrightarrow>
   host_ptr (data checker) = Some smtp_host \<Longrightarrow>
   smtp_engine_thread bmax e thread checker =
     Inr (checker\<lparr>data := (data checker)
            \<lparr>state := SMTP_SENT_QUIT,
             buff := (snprintf (buff (data checker)) bmax (''QUIT'' @ CRLF))[bmax - 1 := NUL],
             buff_ctr := strlen ((snprintf (buff (data checker)) bmax (''QUIT'' @ CRLF))[bmax - 1 := NUL]),
             buff_cb := Some CB_smtp_engine_thread\<rparr>\<rparr>,
          [Thread_add_write F_smtp_put_line_cb (fd thread) (connection_to smtp_host), Thread_del_read])"
  by (simp add: smtp_engine_thread_def smtp_put_line_eq Let_def)

lemma smtp_put_line_cb_sent_eq:
  "thread_type thread \<noteq> THREAD_WRITE_TIMEOUT \<Longrightarrow> write_ret e = Inr n \<Longrightarrow>
   0 < n \<Longrightarrow> 0 < buff_ctr (data checker) \<Longrightarrow>
   buff_cb (data checker) = Some CB_smtp_engine_thread \<Longrightarrow>
   smtp_put_line_cb bmax e thread checker =
     after [Write (fd thread) (take (buff_ctr (data checker)) (buff (data checker)))]
       (smtp_engine_thread bmax e thread checker)"
  by (simp add: smtp_put_line_cb_def call_buff_cb_def Let_def min_def)

lemma smtp_get_line_cb_scan_line:
  "LF \<in> set (take bmax (buff (data checker))) \<Longrightarrow>
   buff_cb (data checker) = Some CB_smtp_engine_thread \<Longrightarrow>
   smtp_get_line_cb_scan bmax e thread r0 checker =
     smtp_engine_thread bmax e thread
       (checker\<lparr>data := (data checker)\<lparr>buff := (buff (data checker))[bmax - 1 := NUL]\<rparr>\<rparr>)"
  by (simp add: smtp_get_line_cb_scan_def call_buff_cb_def)

lemma smtp_get_line_cb_line_eq:
  "thread_type thread \<noteq> THREAD_READ_TIMEOUT \<Longrightarrow> buff_ctr (data checker) \<le> bmax \<Longrightarrow>
   read_ret e = Inr bytes \<Longrightarrow>
   LF \<in> set (take bmax (take (buff_ctr (data checker)) (buff (data checker)) @
                         take (bmax - buff_ctr (data checker)) bytes @
                         drop (buff_ctr (data checker) +
                               length (take (bmax - buff_ctr (data checker)) bytes))
                           (buff (data checker)))) \<Longrightarrow>
   buff_cb (data checker) = Some CB_smtp_engine_thread \<Longrightarrow>
   smtp_get_line_cb bmax e thread checker =
     after [Read (fd thread) (bmax - buff_ctr (data checker))]
       (smtp_engine_thread bmax e thread
          (checker\<lparr>data := (data checker)
             \<lparr>buff := (take (buff_ctr (data checker)) (buff (data checker)) @
                       take (bmax - buff_ctr (data checker)) bytes @
                       drop (buff_ctr (data checker) +
                             length (take (bmax - buff_ctr (data checker)) bytes))
                         (buff (data checker)))[bmax - 1 := NUL],
              buff_ctr := buff_ctr (data checker) +
                          length (take (bmax - buff_ctr (data checker)) bytes)\<rparr>\<rparr>))"
proof -
  assume t: "thread_type thread \<noteq> THREAD_READ_TIMEOUT" and le: "buff_ctr (data checker) \<le> bmax"
    and r: "read_ret e = Inr bytes"
    and lf: "LF \<in> set (take bmax (take (buff_ctr (data checker)) (buff (data checker)) @
                         take (bmax - buff_ctr (data checker)) bytes @
                         drop (buff_ctr (data checker) +
                               length (take (bmax - buff_ctr (data checker)) bytes))
                           (buff (data checker))))"
    and cb: "buff_cb (data checker) = Some CB_smtp_engine_thread"
  let ?ctr = "buff_ctr (data checker)"
  let ?got = "take (bmax - ?ctr) bytes"
  let ?b = "take ?ctr (buff (data checker)) @ ?got @ drop (?ctr + length ?got) (buff (data checker))"
  let ?c = "checker\<lparr>data := (data checker)\<lparr>buff := ?b, buff_ctr := ?ctr + length ?got\<rparr>\<rparr>"
  have eq: "buff (data ?c) = ?b" and cb': "buff_cb (data ?c) = Some CB_smtp_engine_thread"
    using cb by simp_all
  have lf': "LF \<in> set (take bmax (buff (data ?c)))"
    unfolding eq by (rule lf)
  have scan: "smtp_get_line_cb_scan bmax e thread (?got = []) ?c =
        smtp_engine_thread bmax e thread
          (?c\<lparr>data := (data ?c)\<lparr>buff := (buff (data ?c))[bmax - 1 := NUL]\<rparr>\<rparr>)"
    by (rule smtp_get_line_cb_scan_line [OF lf' cb'])
  have st: "?c\<lparr>data := (data ?c)\<lparr>buff := (buff (data ?c))[bmax - 1 := NUL]\<rparr>\<rparr> =
        checker\<lparr>data := (data checker)\<lparr>buff := ?b[bmax - 1 := NUL], buff_ctr := ?ctr + length ?got\<rparr>\<rparr>"
    by simp
  show ?thesis
    unfolding smtp_get_line_cb_read_eq [OF t le r] scan st by (rule refl)
qed

subsection \<open>Evaluating concrete runs\<close>

lemmas concrete_defs =
  checker_new_def env_ok_def env_greeting_def env_helo_reply_def env_quit_reply_def
  thread_io_def thread_write_def thread_timer_def host_a_def host_b_def dialogue_def

lemmas callback_defs =
  dispatch_def smtp_connect_thread_def smtp_check_thread_def smtp_engine_thread_def
  smtp_get_line_cb_def smtp_get_line_cb_scan_def smtp_put_line_cb_def call_buff_cb_def
  smtp_get_line_def smtp_put_line_def smtp_clear_buff_def smtp_final_def list_element_def
  snprintf_def strlen_def c_str_def smtp_get_status_def strtoul_def isspace_def isdigit_def
  decimal_def digit_val_def byte_at_def NUL_def LF_def SP_def CRLF_def Let_def

lemma dialogue_trace:
  "map_sum id snd (run 32 dialogue checker_new) =
     Inr [Socket 2, Tcp_bind_connect 7,
          Tcp_connection_state 7 connect_in_progress F_smtp_check_thread 5000000,
          Tcp_socket_state F_smtp_check_thread,
          Thread_add_read F_smtp_get_line_cb 7 5000000, Thread_del_write,
          Read 7 32,
          Thread_add_write F_smtp_put_line_cb 7 5000000, Thread_del_read,
          Write 7 (''HELO probe'' @ CRLF),
          Thread_add_read F_smtp_get_line_cb 7 5000000, Thread_del_write,
          Read 7 32,
          Thread_add_write F_smtp_put_line_cb 7 5000000, Thread_del_read,
          Write 7 (''QUIT'' @ CRLF),
          Thread_add_read F_smtp_get_line_cb 7 5000000, Thread_del_write,
          Read 7 32,
          Close 7, Thread_add_timer F_smtp_connect_thread 1]"
  by (simp add: concrete_defs callback_defs)

lemma c_str_id: "NUL \<notin> set s \<Longrightarrow> c_str s = s"
  by (induction s) (auto simp: c_str_def)

lemma long_helo_status: "smtp_get_status (buff (data checker_long_helo)) = 220"
  by (simp add: checker_long_helo_def checker_new_def smtp_get_status_def strtoul_def isspace_def
        isdigit_def decimal_def digit_val_def byte_at_def NUL_def SP_def CRLF_def)

lemma long_helo_line:
  "take 511 (''HELO '' @ c_str (helo_name (data checker_long_helo)) @ CRLF) =
     ''HELO '' @ replicate 506 (CHR ''a'')"
proof -
  have "c_str (replicate 506 (CHR ''a'')) = replicate 506 (CHR ''a'')"
    by (rule c_str_id) (simp add: NUL_def)
  then show ?thesis
    by (simp add: checker_long_helo_def checker_new_def)
qed

lemma long_helo_buff:
  "(snprintf (buff (data checker_long_helo)) 512
      (''HELO '' @ c_str (helo_name (data checker_long_helo)) @ CRLF))[511 := NUL] =
   ''HELO '' @ replicate 506 (CHR ''a'') @ [NUL]"
proof -
  have "length (buff (data checker_long_helo)) = 512"
    by (simp add: checker_long_helo_def checker_new_def CRLF_def)
  then have "snprintf (buff (data checker_long_helo)) 512
      (''HELO '' @ c_str (helo_name (data checker_long_helo)) @ CRLF) =
      (''HELO '' @ replicate 506 (CHR ''a'')) @ [NUL]"
    unfolding snprintf_def Let_def using long_helo_line by simp
  then show ?thesis
    by (simp add: list_update_append)
qed

lemma long_helo_strlen: "strlen (''HELO '' @ replicate 506 (CHR ''a'') @ [NUL]) = 511"
proof -
  have "NUL \<notin> set (''HELO '' @ replicate 506 (CHR ''a''))"
    by (simp add: NUL_def)
  from c_str_terminated [OF this, of "[]"] show ?thesis
    by (simp add: strlen_def)
qed

lemma greeted_status: "smtp_get_status (buff (data checker_greeted)) = 220"
  by (simp add: checker_greeted_def checker_connected_def checker_new_def smtp_get_status_def
        strtoul_def isspace_def isdigit_def decimal_def digit_val_def byte_at_def NUL_def SP_def
        CRLF_def)

subsection \<open>The status parser on input without leading space or sign\<close>

lemma digit_val_range: "isdigit c \<Longrightarrow> 0 \<le> digit_val c \<and> digit_val c \<le> 9"
proof -
  assume "isdigit c"
  then have "48 \<le> (of_char c :: nat)" "(of_char c :: nat) \<le> 57"
    by (simp_all add: isdigit_def)
  moreover have "(of_char c :: int) = int (of_char c :: nat)"
    by (simp add: of_nat_of_char)
  ultimately show ?thesis
    unfolding digit_val_def by linarith
qed

lemma decimal_three:
  assumes "length ds = 3" and "\<forall>c \<in> set ds. isdigit c"
  shows "0 \<le> decimal ds \<and> decimal ds < 1000"
proof -
  from assms(1) obtain a b c where ds: "ds = [a, b, c]"
    by (auto simp: length_Suc_conv numeral_3_eq_3)
  with assms(2) digit_val_range [of a] digit_val_range [of b] digit_val_range [of c]
  show ?thesis
    by (simp add: decimal_def)
qed

lemma int_of_status: "0 \<le> n \<Longrightarrow> n < 1000 \<Longrightarrow> sint (ucast (word_of_int n :: 64 word) :: 32 word) = n"
proof -
  assume n: "0 \<le> n" "n < 1000"
  have "uint (word_of_int n :: 64 word) = n"
    using n by (simp add: uint_word_of_int take_bit_int_eq_self)
  then have "(ucast (word_of_int n :: 64 word) :: 32 word) = word_of_int n"
    by (simp add: ucast_eq)
  moreover have "signed_take_bit 31 n = n"
    using n by (intro signed_take_bit_int_eq_self) simp_all
  then have "sint (word_of_int n :: 32 word) = n"
    by (simp add: signed_of_int)
  ultimately show ?thesis by simp
qed

lemma smtp_get_status_agrees:
  assumes "b = [] \<or> (\<not> isspace (hd b) \<and> hd b \<noteq> CHR ''+'' \<and> hd b \<noteq> CHR ''-'')"
  shows "smtp_get_status b = status_spec b"
proof -
  let ?ds = "takeWhile isdigit b"
  have ws: "takeWhile isspace b = []" "dropWhile isspace b = b"
    using assms by (cases b; simp)+
  have sg: "(b \<noteq> [] \<and> (hd b = CHR ''+'' \<or> hd b = CHR ''-'')) = False"
    and ng: "(b \<noteq> [] \<and> hd b = CHR ''-'') = False"
    using assms by auto
  have st: "strtoul b = (if ?ds = [] then (0, 0)
      else ((if 2 ^ 64 \<le> decimal ?ds then - 1 else word_of_int (decimal ?ds)), length ?ds))"
    unfolding strtoul_def Let_def ws sg ng by simp
  show ?thesis
  proof (cases "length ?ds = 3")
    case False
    then show ?thesis
      by (auto simp: smtp_get_status_def status_spec_def st Let_def)
  next
    case True
    then have ne: "?ds \<noteq> []"
      by auto
    have "\<forall>c \<in> set ?ds. isdigit c"
      by (auto dest: set_takeWhileD)
    from decimal_three [OF True this] have d: "0 \<le> decimal ?ds" "decimal ?ds < 1000"
      by simp_all
    then have "\<not> 2 ^ 64 \<le> decimal ?ds"
      by simp
    with True ne show ?thesis
      by (simp add: smtp_get_status_def status_spec_def st Let_def int_of_status [OF d])
  qed
qed

subsection \<open>The read callback on a full buffer\<close>

lemma smtp_get_line_cb_full_buffer_eq:
  assumes t: "thread_type thread \<noteq> THREAD_READ_TIMEOUT"
    and full: "buff_ctr (data checker) = bmax"
    and len: "length (buff (data checker)) = bmax"
    and r: "read_ret e = Inr bytes"
    and nolf: "LF \<notin> set (buff (data checker))"
  shows "smtp_get_line_cb bmax e thread checker =
     after [Read (fd thread) 0]
       (Inr (smtp_final e thread True (Some ''Read failure from server %s'') checker))"
proof -
  have le: "buff_ctr (data checker) \<le> bmax"
    using full by simp
  have c: "checker\<lparr>data := (data checker)
             \<lparr>buff := take (buff_ctr (data checker)) (buff (data checker)) @
                      take (bmax - buff_ctr (data checker)) bytes @
                      drop (buff_ctr (data checker) +
                            length (take (bmax - buff_ctr (data checker)) bytes))
                        (buff (data checker)),
              buff_ctr := buff_ctr (data checker) +
                          length (take (bmax - buff_ctr (data checker)) bytes)\<rparr>\<rparr> = checker"
    using full len by simp
  have nolf': "LF \<notin> set (take bmax (buff (data checker)))"
    using nolf by (auto dest: in_set_takeD)
  show ?thesis
    unfolding smtp_get_line_cb_read_eq [OF t le r] c
    using nolf' full by (simp add: smtp_get_line_cb_scan_def)
qed

subsection \<open>Claims\<close>

text \<open>
  C6. On success \<^verbatim>\<open>smtp_final\<close> resets the retry counter to 0, advances the target index by
  one and reschedules \<^verbatim>\<open>smtp_connect_thread\<close> with the delay 1, whatever the full-cycle delay
  is. Nothing else of the checker changes, and the only actions are closing the socket and the
  timer: no health transition, no alert.
\<close>

theorem smtp_final_success:
  "smtp_final e thread False format checker =
     (checker\<lparr>retry_it := 0, data := (data checker)\<lparr>host_ctr := host_ctr (data checker) + 1\<rparr>\<rparr>,
      [Close (fd thread), Thread_add_timer F_smtp_connect_thread 1]) \<and>
   filter is_transition (snd (smtp_final e thread False format checker)) = [] \<and>
   filter is_alert (snd (smtp_final e thread False format checker)) = []"
  by (simp add: smtp_final_success_eq)

theorem smtp_final_success_witness:
  "retry_it (fst (smtp_final env_ok thread_io False None (checker_new\<lparr>retry_it := 2\<rparr>))) = 0 \<and>
   host_ctr (data (fst (smtp_final env_ok thread_io False None (checker_new\<lparr>retry_it := 2\<rparr>)))) = 1 \<and>
   snd (smtp_final env_ok thread_io False None (checker_new\<lparr>retry_it := 2\<rparr>)) =
     [Close 7, Thread_add_timer F_smtp_connect_thread 1]"
  using smtp_final_success [of env_ok thread_io None "checker_new\<lparr>retry_it := 2\<rparr>"]
  by (simp add: checker_new_def thread_io_def)

text \<open>
  C4. On error, when the retry counter after its increment is still below the retry limit,
  \<^verbatim>\<open>smtp_final\<close> closes the socket, logs the error when the checker is up, and reschedules
  \<^verbatim>\<open>smtp_connect_thread\<close> after \<open>delay_before_retry\<close>. The checker is the old one with the retry
  counter incremented: the target index stays, there is no health transition and no alert.
  Consequently, whatever callbacks the scheduler runs from a state whose retry counter is 0 or
  below the limit, the retry limit is never changed and the retry counter never exceeds it.
\<close>

theorem smtp_final_retries_remain:
  "(retry_it checker + 1 < retry checker \<longrightarrow>
      smtp_final e thread True format checker =
        (checker\<lparr>retry_it := retry_it checker + 1\<rparr>,
         [Close (fd thread)] @
         (if is_up checker
          then [Log_message (case format of Some f \<Rightarrow> ''SMTP_CHECK '' @ take 500 f
                                           | None \<Rightarrow> ''SMTP_CHECK Unknown error'')]
          else []) @
         [Thread_add_timer F_smtp_connect_thread (delay_before_retry checker)]) \<and>
      filter is_transition (snd (smtp_final e thread True format checker)) = [] \<and>
      filter is_alert (snd (smtp_final e thread True format checker)) = [] \<and>
      host_ctr (data (fst (smtp_final e thread True format checker))) = host_ctr (data checker)) \<and>
   (retry_ok checker \<and> run bmax calls checker = Inr (checker', acts) \<longrightarrow>
      retry checker' = retry checker \<and> retry_it checker' \<le> retry checker)"
proof (intro conjI impI)
  assume lt: "retry_it checker + 1 < retry checker"
  show "smtp_final e thread True format checker =
        (checker\<lparr>retry_it := retry_it checker + 1\<rparr>,
         [Close (fd thread)] @
         (if is_up checker
          then [Log_message (case format of Some f \<Rightarrow> ''SMTP_CHECK '' @ take 500 f
                                           | None \<Rightarrow> ''SMTP_CHECK Unknown error'')]
          else []) @
         [Thread_add_timer F_smtp_connect_thread (delay_before_retry checker)])"
    by (rule smtp_final_retry_eq [OF lt])
  show "filter is_transition (snd (smtp_final e thread True format checker)) = []"
    by (simp add: smtp_final_retry_eq [OF lt])
  show "filter is_alert (snd (smtp_final e thread True format checker)) = []"
    by (simp add: smtp_final_retry_eq [OF lt])
  show "host_ctr (data (fst (smtp_final e thread True format checker))) = host_ctr (data checker)"
    by (simp add: smtp_final_retry_eq [OF lt])
next
  assume a: "retry_ok checker \<and> run bmax calls checker = Inr (checker', acts)"
  then show "retry checker' = retry checker"
    by (auto dest: run_retry)
  from a have "retry_ok checker'"
    by (auto dest: run_retry_ok)
  with a show "retry_it checker' \<le> retry checker"
    by (auto simp: retry_ok_def dest: run_retry)
qed

theorem smtp_final_retries_remain_witness:
  "retry_it checker_new + 1 < retry checker_new \<and>
   smtp_final env_refused thread_io True None checker_new =
     (checker_new\<lparr>retry_it := 1\<rparr>,
      [Close 7, Log_message ''SMTP_CHECK Unknown error'',
       Thread_add_timer F_smtp_connect_thread 2000000]) \<and>
   retry_ok checker_new \<and>
   (\<exists>c a. run 32 [Call F_smtp_check_thread thread_io env_refused] checker_new = Inr (c, a) \<and>
          retry c = 3 \<and> retry_it c \<le> 3)"
proof -
  have h1: "retry_it checker_new + 1 < retry checker_new"
    by (simp add: checker_new_def)
  have h2: "retry_ok checker_new"
    by (simp add: retry_ok_def checker_new_def)
  obtain c a where r: "run 32 [Call F_smtp_check_thread thread_io env_refused] checker_new = Inr (c, a)"
    by (cases "smtp_final env_refused thread_io True (Some ''Error connecting to server %s'') checker_new")
       (simp add: dispatch_def smtp_check_thread_def env_refused_def env_ok_def)
  note t = smtp_final_retries_remain
    [of checker_new env_refused thread_io None 32 "[Call F_smtp_check_thread thread_io env_refused]" c a]
  from t h1 have "smtp_final env_refused thread_io True None checker_new =
     (checker_new\<lparr>retry_it := 1\<rparr>,
      [Close 7, Log_message ''SMTP_CHECK Unknown error'',
       Thread_add_timer F_smtp_connect_thread 2000000])"
    by (simp add: checker_new_def thread_io_def)
  moreover from t h2 r have "retry c = 3 \<and> retry_it c \<le> 3"
    by (simp add: checker_new_def)
  ultimately show ?thesis
    using h1 h2 r by blast
qed

text \<open>
  C3. On error with the retries exhausted, \<^verbatim>\<open>smtp_final\<close> calls
  \<^verbatim>\<open>update_svr_checker_state(DOWN)\<close> if the checker was up or has never completed a run; it
  sends the failure alert exactly when the alert flag of the real server is set, the checker was
  up before, and the alive flag flipped or \<open>no_checker_emails\<close> is off; it resets the retry counter
  and the target index to 0 and reschedules \<^verbatim>\<open>smtp_connect_thread\<close> after \<open>delay_loop\<close>.
  Hence a full failing cycle: take any run of the scheduler, from a checker with retry counter 0
  and a target at its index, in which no attempt succeeds and as many attempts end as the retry
  limit allows (one when the limit is 0). If the checker was up or had never run, the actions of
  the whole run hold exactly one transition, to DOWN, and the run leaves the checker down with
  retry counter and target index 0. Any run that follows in which no attempt succeeds makes no
  transition and no alert and leaves the index at 0; and no run of failing attempts of a checker
  that is down and has run makes a transition or an alert.
\<close>

theorem smtp_final_retries_exhausted:
  "(\<not> retry_it checker + 1 < retry checker \<longrightarrow>
      smtp_final e thread True format checker =
        ((if is_up checker \<or> \<not> has_run checker then update_svr_checker_state e DOWN checker else checker)
           \<lparr>retry_it := 0, data := (data checker)\<lparr>host_ctr := 0\<rparr>\<rparr>,
         [Close (fd thread)] @
         (if is_up checker
          then [Log_message (case format of Some f \<Rightarrow> ''SMTP_CHECK '' @ take 500 f
                                           | None \<Rightarrow> ''SMTP_CHECK Unknown error'')]
          else []) @
         (if is_up checker \<or> \<not> has_run checker then [Update_svr_checker_state DOWN] else []) @
         (if smtp_alert_flag (rs checker) \<and> is_up checker \<and>
             (alive (rs checker) \<noteq> rs_alive_ret e \<or> \<not> no_checker_emails e)
          then [Smtp_alert (case format of
                              Some f \<Rightarrow> take 541 (take 511 (''=> CHECK failed on service : '' @ f @ '' <=''))
                            | None \<Rightarrow> ''=> CHECK failed on service <='')]
          else []) @
         [Thread_add_timer F_smtp_connect_thread (delay_loop checker)])) \<and>
   (retry_it checker = 0 \<and> host_ctr (data checker) < length (host (data checker)) \<and>
    (is_up checker \<or> \<not> has_run checker) \<and>
    run bmax calls checker = Inr (checker', acts') \<and>
    list_all (\<lambda>s. \<not> succeeds s) (steps bmax calls checker) \<and>
    length (filter ends_attempt (steps bmax calls checker)) = max 1 (retry checker) \<longrightarrow>
      filter is_transition acts' = [Update_svr_checker_state DOWN] \<and>
      \<not> is_up checker' \<and> has_run checker' \<and>
      host_ctr (data checker') = 0 \<and> retry_it checker' = 0 \<and>
      (run bmax calls' checker' = Inr (checker'', acts'') \<and>
       list_all (\<lambda>s. \<not> succeeds s) (steps bmax calls' checker') \<longrightarrow>
         filter is_transition acts'' = [] \<and> filter is_alert acts'' = [] \<and>
         host_ctr (data checker'') = 0)) \<and>
   (\<not> is_up checker \<and> has_run checker \<and> host_ctr (data checker) < length (host (data checker)) \<and>
    run bmax calls checker = Inr (checker', acts') \<and>
    list_all (\<lambda>s. \<not> succeeds s) (steps bmax calls checker) \<longrightarrow>
      filter is_transition acts' = [] \<and> filter is_alert acts' = [])"
proof (intro conjI impI)
  assume "\<not> retry_it checker + 1 < retry checker"
  then show "smtp_final e thread True format checker =
        ((if is_up checker \<or> \<not> has_run checker then update_svr_checker_state e DOWN checker else checker)
           \<lparr>retry_it := 0, data := (data checker)\<lparr>host_ctr := 0\<rparr>\<rparr>,
         [Close (fd thread)] @
         (if is_up checker
          then [Log_message (case format of Some f \<Rightarrow> ''SMTP_CHECK '' @ take 500 f
                                           | None \<Rightarrow> ''SMTP_CHECK Unknown error'')]
          else []) @
         (if is_up checker \<or> \<not> has_run checker then [Update_svr_checker_state DOWN] else []) @
         (if smtp_alert_flag (rs checker) \<and> is_up checker \<and>
             (alive (rs checker) \<noteq> rs_alive_ret e \<or> \<not> no_checker_emails e)
          then [Smtp_alert (case format of
                              Some f \<Rightarrow> take 541 (take 511 (''=> CHECK failed on service : '' @ f @ '' <=''))
                            | None \<Rightarrow> ''=> CHECK failed on service <='')]
          else []) @
         [Thread_add_timer F_smtp_connect_thread (delay_loop checker)])"
    by (rule smtp_final_exhausted_eq)
next
  assume a: "\<not> is_up checker \<and> has_run checker \<and> host_ctr (data checker) < length (host (data checker)) \<and>
    run bmax calls checker = Inr (checker', acts') \<and>
    list_all (\<lambda>s. \<not> succeeds s) (steps bmax calls checker)"
  then have "run bmax calls checker = Inr (checker', acts')"
    "list_all (\<lambda>s. \<not> succeeds s) (steps bmax calls checker)"
    "host_ctr (data checker) < length (host (data checker))" "\<not> is_up checker" "has_run checker"
    by simp_all
  from down_run [OF this] show "filter is_transition acts' = []" and "filter is_alert acts' = []"
    by simp_all
next
  assume a: "retry_it checker = 0 \<and> host_ctr (data checker) < length (host (data checker)) \<and>
    (is_up checker \<or> \<not> has_run checker) \<and>
    run bmax calls checker = Inr (checker', acts') \<and>
    list_all (\<lambda>s. \<not> succeeds s) (steps bmax calls checker) \<and>
    length (filter ends_attempt (steps bmax calls checker)) = max 1 (retry checker)"
  then have "run bmax calls checker = Inr (checker', acts')"
    "list_all (\<lambda>s. \<not> succeeds s) (steps bmax calls checker)"
    "host_ctr (data checker) < length (host (data checker))" "is_up checker \<or> \<not> has_run checker"
    "retry_ok checker"
    "retry_it checker + length (filter ends_attempt (steps bmax calls checker)) = max 1 (retry checker)"
    by (simp_all add: retry_ok_def)
  note first = exhausting_run [OF this]
  from first show "filter is_transition acts' = [Update_svr_checker_state DOWN]"
    and down: "\<not> is_up checker'" and run: "has_run checker'"
    and h0: "host_ctr (data checker') = 0" and "retry_it checker' = 0"
    by simp_all
  from first a have h1: "host_ctr (data checker') < length (host (data checker'))"
    by (cases "host (data checker)") simp_all
  {
    assume "run bmax calls' checker' = Inr (checker'', acts'') \<and>
       list_all (\<lambda>s. \<not> succeeds s) (steps bmax calls' checker')"
    then have "run bmax calls' checker' = Inr (checker'', acts'')"
      "list_all (\<lambda>s. \<not> succeeds s) (steps bmax calls' checker')"
      by simp_all
    from down_run [OF this h1 down run] h0
    show "filter is_transition acts'' = []" and "filter is_alert acts'' = []"
      and "host_ctr (data checker'') = 0"
      by simp_all
  }
qed

theorem smtp_final_retries_exhausted_witness:
  "\<not> retry_it (checker_new\<lparr>retry_it := 2\<rparr>) + 1 < retry (checker_new\<lparr>retry_it := 2\<rparr>) \<and>
   snd (smtp_final env_ok thread_io True None (checker_new\<lparr>retry_it := 2\<rparr>)) =
     [Close 7, Log_message ''SMTP_CHECK Unknown error'', Update_svr_checker_state DOWN,
      Smtp_alert ''=> CHECK failed on service <='',
      Thread_add_timer F_smtp_connect_thread 10000000] \<and>
   retry_it checker_new = 0 \<and> host_ctr (data checker_new) < length (host (data checker_new)) \<and>
   is_up checker_new \<and>
   list_all (\<lambda>s. \<not> succeeds s)
     (steps 32 (refused_calls @ refused_calls @ refused_calls) checker_new) \<and>
   length (filter ends_attempt (steps 32 (refused_calls @ refused_calls @ refused_calls) checker_new)) =
     max 1 (retry checker_new) \<and>
   map_sum id fst (run 32 (refused_calls @ refused_calls @ refused_calls) checker_new) =
     Inr checker_down \<and>
   map_sum id (filter is_transition \<circ> snd)
     (run 32 (refused_calls @ refused_calls @ refused_calls) checker_new) =
     Inr [Update_svr_checker_state DOWN] \<and>
   \<not> is_up checker_down \<and> has_run checker_down \<and> host_ctr (data checker_down) = 0 \<and>
   list_all (\<lambda>s. \<not> succeeds s)
     (steps 32 (refused_calls @ refused_calls @ refused_calls) checker_down) \<and>
   map_sum id (filter is_transition \<circ> snd)
     (run 32 (refused_calls @ refused_calls @ refused_calls) checker_down) = Inr [] \<and>
   map_sum id (filter is_alert \<circ> snd)
     (run 32 (refused_calls @ refused_calls @ refused_calls) checker_down) = Inr []"
proof -
  let ?calls = "refused_calls @ refused_calls @ refused_calls"
  let ?c = "checker_new\<lparr>retry_it := 2\<rparr>"
  have h0: "\<not> retry_it ?c + 1 < retry ?c"
    by (simp add: checker_new_def)
  have h1: "retry_it checker_new = 0 \<and> host_ctr (data checker_new) < length (host (data checker_new)) \<and>
    is_up checker_new \<and> max 1 (retry checker_new) = 3"
    by (simp add: checker_new_def)
  have dn: "\<not> is_up checker_down \<and> has_run checker_down \<and>
    host_ctr (data checker_down) < length (host (data checker_down))"
    by (simp add: checker_down_def checker_new_def)
  have dn0: "host_ctr (data checker_down) = 0"
    by (simp add: checker_down_def checker_new_def)
  have "run 32 ?calls checker_new =
     Inr (checker_down,
          [Socket 2, Tcp_bind_connect 7,
           Tcp_connection_state 7 connect_in_progress F_smtp_check_thread 5000000,
           Tcp_socket_state F_smtp_check_thread, Close 7,
           Log_message ''SMTP_CHECK Error connecting to server %s'',
           Thread_add_timer F_smtp_connect_thread 2000000,
           Socket 2, Tcp_bind_connect 7,
           Tcp_connection_state 7 connect_in_progress F_smtp_check_thread 5000000,
           Tcp_socket_state F_smtp_check_thread, Close 7,
           Log_message ''SMTP_CHECK Error connecting to server %s'',
           Thread_add_timer F_smtp_connect_thread 2000000,
           Socket 2, Tcp_bind_connect 7,
           Tcp_connection_state 7 connect_in_progress F_smtp_check_thread 5000000,
           Tcp_socket_state F_smtp_check_thread, Close 7,
           Log_message ''SMTP_CHECK Error connecting to server %s'',
           Update_svr_checker_state DOWN,
           Smtp_alert ''=> CHECK failed on service : Error connecting to server %s <='',
           Thread_add_timer F_smtp_connect_thread 10000000])"
    by (simp add: refused_calls_def env_refused_def checker_down_def concrete_defs callback_defs
          update_svr_checker_state_def DOWN_def)
  then obtain a1 where r1: "run 32 ?calls checker_new = Inr (checker_down, a1)"
    by simp
  have s1: "list_all (\<lambda>s. \<not> succeeds s) (steps 32 ?calls checker_new) \<and>
    length (filter ends_attempt (steps 32 ?calls checker_new)) = 3"
    by (simp add: refused_calls_def env_refused_def concrete_defs callback_defs
          update_svr_checker_state_def DOWN_def)
  have "run 32 ?calls checker_down =
     Inr (checker_down,
          [Socket 2, Tcp_bind_connect 7,
           Tcp_connection_state 7 connect_in_progress F_smtp_check_thread 5000000,
           Tcp_socket_state F_smtp_check_thread, Close 7,
           Thread_add_timer F_smtp_connect_thread 2000000,
           Socket 2, Tcp_bind_connect 7,
           Tcp_connection_state 7 connect_in_progress F_smtp_check_thread 5000000,
           Tcp_socket_state F_smtp_check_thread, Close 7,
           Thread_add_timer F_smtp_connect_thread 2000000,
           Socket 2, Tcp_bind_connect 7,
           Tcp_connection_state 7 connect_in_progress F_smtp_check_thread 5000000,
           Tcp_socket_state F_smtp_check_thread, Close 7,
           Thread_add_timer F_smtp_connect_thread 10000000])"
    by (simp add: refused_calls_def env_refused_def checker_down_def concrete_defs callback_defs
          update_svr_checker_state_def DOWN_def)
  then obtain a2 where r2: "run 32 ?calls checker_down = Inr (checker_down, a2)"
    by simp
  have s2: "list_all (\<lambda>s. \<not> succeeds s) (steps 32 ?calls checker_down)"
    by (simp add: refused_calls_def env_refused_def checker_down_def concrete_defs callback_defs
          update_svr_checker_state_def DOWN_def)
  from smtp_final_retries_exhausted
    [where checker = ?c and e = env_ok and thread = thread_io and format = None] h0
  have w0: "snd (smtp_final env_ok thread_io True None ?c) =
     [Close 7, Log_message ''SMTP_CHECK Unknown error'', Update_svr_checker_state DOWN,
      Smtp_alert ''=> CHECK failed on service <='',
      Thread_add_timer F_smtp_connect_thread 10000000]"
    by (simp add: checker_new_def thread_io_def env_ok_def)
  from smtp_final_retries_exhausted
    [where checker = checker_new and bmax = 32 and calls = ?calls and checker' = checker_down
       and acts' = a1 and calls' = ?calls and checker'' = checker_down and acts'' = a2]
    h1 r1 r2 s1 s2
  have w1: "filter is_transition a1 = [Update_svr_checker_state DOWN] \<and>
    filter is_transition a2 = [] \<and> filter is_alert a2 = []"
    by simp
  from smtp_final_retries_exhausted
    [where checker = checker_down and bmax = 32 and calls = ?calls and checker' = checker_down
       and acts' = a2]
    dn r2 s2
  have w2: "filter is_transition a2 = [] \<and> filter is_alert a2 = []"
    by blast
  show ?thesis
    using h0 h1 dn dn0 w0 w1 w2 r1 r2 s1 s2 by simp
qed

text \<open>
  C5, as the claim states it, fails for a checker that is up and has completed a check, the
  state every successful cycle leaves behind. In the cycle below the first target refuses the
  connection, is retried and answers the whole dialogue, then the second target answers it; the
  orchestrator then finds the index past the end and only reschedules itself. The actions of the
  whole cycle hold no transition at all, where the claim says exactly one, to UP.
\<close>

theorem up_checker_cycle_without_transition:
  "enabled checker_up \<and> is_up checker_up \<and> has_run checker_up \<and> host_ctr (data checker_up) = 0 \<and>
   length (host (data checker_up)) = 2 \<and>
   map ends_attempt (steps 32 cycle_calls checker_up) =
     [False, True,
      False, False, False, False, False, False, True,
      False, False, False, False, False, False, True] \<and>
   map succeeds (steps 32 cycle_calls checker_up) =
     [False, False,
      False, False, False, False, False, False, True,
      False, False, False, False, False, False, True] \<and>
   map_sum id snd (run 32 (cycle_calls @ [Call F_smtp_connect_thread thread_timer env_ok]) checker_up) =
     Inr [Socket 2, Tcp_bind_connect 7,
          Tcp_connection_state 7 connect_in_progress F_smtp_check_thread 5000000,
          Tcp_socket_state F_smtp_check_thread, Close 7,
          Log_message ''SMTP_CHECK Error connecting to server %s'',
          Thread_add_timer F_smtp_connect_thread 2000000,
          Socket 2, Tcp_bind_connect 7,
          Tcp_connection_state 7 connect_in_progress F_smtp_check_thread 5000000,
          Tcp_socket_state F_smtp_check_thread,
          Thread_add_read F_smtp_get_line_cb 7 5000000, Thread_del_write,
          Read 7 32,
          Thread_add_write F_smtp_put_line_cb 7 5000000, Thread_del_read,
          Write 7 (''HELO probe'' @ CRLF),
          Thread_add_read F_smtp_get_line_cb 7 5000000, Thread_del_write,
          Read 7 32,
          Thread_add_write F_smtp_put_line_cb 7 5000000, Thread_del_read,
          Write 7 (''QUIT'' @ CRLF),
          Thread_add_read F_smtp_get_line_cb 7 5000000, Thread_del_write,
          Read 7 32,
          Close 7, Thread_add_timer F_smtp_connect_thread 1,
          Socket 10, Tcp_bind_connect 7,
          Tcp_connection_state 7 connect_in_progress F_smtp_check_thread 3000000,
          Tcp_socket_state F_smtp_check_thread,
          Thread_add_read F_smtp_get_line_cb 7 3000000, Thread_del_write,
          Read 7 32,
          Thread_add_write F_smtp_put_line_cb 7 3000000, Thread_del_read,
          Write 7 (''HELO probe'' @ CRLF),
          Thread_add_read F_smtp_get_line_cb 7 3000000, Thread_del_write,
          Read 7 32,
          Thread_add_write F_smtp_put_line_cb 7 3000000, Thread_del_read,
          Write 7 (''QUIT'' @ CRLF),
          Thread_add_read F_smtp_get_line_cb 7 3000000, Thread_del_write,
          Read 7 32,
          Close 7, Thread_add_timer F_smtp_connect_thread 1,
          Thread_add_timer F_smtp_connect_thread 10000000]"
  by (simp add: cycle_calls_def refused_calls_def env_refused_def checker_up_def concrete_defs
        callback_defs update_svr_checker_state_def UP_def)

text \<open>
  C5, amended. With the target index past the end of the host list, \<^verbatim>\<open>smtp_connect_thread\<close>
  calls \<^verbatim>\<open>update_svr_checker_state(UP)\<close> if the checker was down or has never completed a run;
  it sends the recovery alert exactly when the alert flag is set, the checker was not up, and the
  alive flag changed or \<open>no_checker_emails\<close> is off; it resets the target index and the retry
  counter to 0 and reschedules itself after \<open>delay_loop\<close>. Hence a cycle: take any run of the
  scheduler, from an enabled checker, in which the orchestrator never finds the index past the
  end, no failed attempt exhausts the retries (every failing target is retried) and as many
  attempts succeed as there are targets from the index on; then let the orchestrator run. The
  calls before that last one make no transition and no alert. The whole cycle makes exactly one
  transition, to UP, if the checker was down or had never run when the cycle began, and no
  transition if it was up and had run. It leaves the checker up, with target index and retry
  counter 0.
\<close>

theorem smtp_connect_thread_past_the_end:
  "(enabled checker \<and> length (host (data checker)) \<le> host_ctr (data checker) \<longrightarrow>
      smtp_connect_thread e thread checker =
        ((if \<not> is_up checker \<or> \<not> has_run checker then update_svr_checker_state e UP checker else checker)
           \<lparr>retry_it := 0,
            data := (data checker)\<lparr>host_ctr := 0, host_ptr := list_element (host (data checker)) 0\<rparr>\<rparr>,
         (if \<not> is_up checker \<or> \<not> has_run checker
          then [Log_message ''Remote SMTP server %s succeed on service.'', Update_svr_checker_state UP]
          else []) @
         (if smtp_alert_flag (rs checker) \<and> \<not> is_up checker \<and>
             (alive (rs checker) \<noteq> rs_alive_ret e \<or> \<not> no_checker_emails e)
          then [Smtp_alert ''=> CHECK succeed on service <='']
          else []) @
         [Thread_add_timer F_smtp_connect_thread (delay_loop checker)])) \<and>
   (enabled checker \<and>
    list_all (\<lambda>s. \<not> past_the_end s \<and> \<not> exhausts s) (steps bmax calls checker) \<and>
    host_ctr (data checker) + length (filter succeeds (steps bmax calls checker)) =
      length (host (data checker)) \<and>
    run bmax (calls @ [Call F_smtp_connect_thread thread e]) checker = Inr (checker'', acts'') \<longrightarrow>
      (\<exists>checker' acts'.
         run bmax calls checker = Inr (checker', acts') \<and>
         filter is_transition acts' = [] \<and> filter is_alert acts' = [] \<and>
         acts'' = acts' @ snd (smtp_connect_thread e thread checker')) \<and>
      filter is_transition acts'' =
        (if \<not> is_up checker \<or> \<not> has_run checker then [Update_svr_checker_state UP] else []) \<and>
      is_up checker'' \<and> has_run checker'' \<and>
      host_ctr (data checker'') = 0 \<and> retry_it checker'' = 0)"
proof (intro conjI impI)
  assume "enabled checker \<and> length (host (data checker)) \<le> host_ctr (data checker)"
  then show "smtp_connect_thread e thread checker =
        ((if \<not> is_up checker \<or> \<not> has_run checker then update_svr_checker_state e UP checker else checker)
           \<lparr>retry_it := 0,
            data := (data checker)\<lparr>host_ctr := 0, host_ptr := list_element (host (data checker)) 0\<rparr>\<rparr>,
         (if \<not> is_up checker \<or> \<not> has_run checker
          then [Log_message ''Remote SMTP server %s succeed on service.'', Update_svr_checker_state UP]
          else []) @
         (if smtp_alert_flag (rs checker) \<and> \<not> is_up checker \<and>
             (alive (rs checker) \<noteq> rs_alive_ret e \<or> \<not> no_checker_emails e)
          then [Smtp_alert ''=> CHECK succeed on service <='']
          else []) @
         [Thread_add_timer F_smtp_connect_thread (delay_loop checker)])"
    by (simp add: smtp_connect_thread_end_eq)
next
  assume a: "enabled checker \<and>
    list_all (\<lambda>s. \<not> past_the_end s \<and> \<not> exhausts s) (steps bmax calls checker) \<and>
    host_ctr (data checker) + length (filter succeeds (steps bmax calls checker)) =
      length (host (data checker)) \<and>
    run bmax (calls @ [Call F_smtp_connect_thread thread e]) checker = Inr (checker'', acts'')"
  then obtain c1 a1 where r: "run bmax calls checker = Inr (c1, a1)"
    and fin: "after a1 (run bmax [Call F_smtp_connect_thread thread e] c1) = Inr (checker'', acts'')"
    by (auto simp: run_append split: sum.splits)
  from a have "list_all (\<lambda>s. \<not> past_the_end s \<and> \<not> exhausts s) (steps bmax calls checker)"
    by simp
  note rr = retried_run [OF r this]
  from rr a have en: "enabled c1" and ge: "length (host (data c1)) \<le> host_ctr (data c1)"
    by simp_all
  from fin have c2: "checker'' = fst (smtp_connect_thread e thread c1)"
    and a2: "acts'' = a1 @ snd (smtp_connect_thread e thread c1)"
    by (auto simp: dispatch_def after_Inr split: prod.splits)
  from r rr a2 show "\<exists>checker' acts'.
         run bmax calls checker = Inr (checker', acts') \<and>
         filter is_transition acts' = [] \<and> filter is_alert acts' = [] \<and>
         acts'' = acts' @ snd (smtp_connect_thread e thread checker')"
    by blast
  from rr show "filter is_transition acts'' =
        (if \<not> is_up checker \<or> \<not> has_run checker then [Update_svr_checker_state UP] else [])"
    unfolding a2 by (simp add: smtp_connect_thread_end_eq [OF en ge])
  from rr show "is_up checker''" and "has_run checker''"
    unfolding c2
    by (auto simp: smtp_connect_thread_end_eq [OF en ge] update_svr_checker_state_def UP_def)
  show "host_ctr (data checker'') = 0" and "retry_it checker'' = 0"
    unfolding c2 by (simp_all add: smtp_connect_thread_end_eq [OF en ge])
qed

theorem smtp_connect_thread_past_the_end_witness:
  "enabled (checker_new\<lparr>data := (data checker_new)\<lparr>host_ctr := 2\<rparr>\<rparr>) \<and>
   length (host (data (checker_new\<lparr>data := (data checker_new)\<lparr>host_ctr := 2\<rparr>\<rparr>))) \<le>
     host_ctr (data (checker_new\<lparr>data := (data checker_new)\<lparr>host_ctr := 2\<rparr>\<rparr>)) \<and>
   snd (smtp_connect_thread env_ok thread_timer (checker_new\<lparr>data := (data checker_new)\<lparr>host_ctr := 2\<rparr>\<rparr>)) =
     [Log_message ''Remote SMTP server %s succeed on service.'', Update_svr_checker_state UP,
      Thread_add_timer F_smtp_connect_thread 10000000] \<and>
   enabled checker_new \<and> \<not> has_run checker_new \<and>
   list_all (\<lambda>s. \<not> past_the_end s \<and> \<not> exhausts s) (steps 32 cycle_calls checker_new) \<and>
   host_ctr (data checker_new) + length (filter succeeds (steps 32 cycle_calls checker_new)) =
     length (host (data checker_new)) \<and>
   map_sum id (filter is_transition \<circ> snd)
     (run 32 (cycle_calls @ [Call F_smtp_connect_thread thread_timer env_ok]) checker_new) =
     Inr [Update_svr_checker_state UP] \<and>
   map_sum id (filter is_transition \<circ> snd) (run 32 cycle_calls checker_new) = Inr [] \<and>
   enabled checker_up \<and> is_up checker_up \<and> has_run checker_up \<and>
   list_all (\<lambda>s. \<not> past_the_end s \<and> \<not> exhausts s) (steps 32 cycle_calls checker_up) \<and>
   host_ctr (data checker_up) + length (filter succeeds (steps 32 cycle_calls checker_up)) =
     length (host (data checker_up)) \<and>
   map_sum id (filter is_transition \<circ> snd)
     (run 32 (cycle_calls @ [Call F_smtp_connect_thread thread_timer env_ok]) checker_up) = Inr []"
proof -
  let ?c = "checker_new\<lparr>data := (data checker_new)\<lparr>host_ctr := 2\<rparr>\<rparr>"
  let ?calls = "cycle_calls @ [Call F_smtp_connect_thread thread_timer env_ok]"
  have h0: "enabled ?c \<and> length (host (data ?c)) \<le> host_ctr (data ?c)"
    by (simp add: checker_new_def)
  have h1: "enabled checker_new \<and> \<not> has_run checker_new \<and> host_ctr (data checker_new) = 0 \<and>
    length (host (data checker_new)) = 2"
    by (simp add: checker_new_def host_a_def host_b_def)
  have h2: "enabled checker_up \<and> is_up checker_up \<and> has_run checker_up \<and>
    host_ctr (data checker_up) = 0 \<and> length (host (data checker_up)) = 2"
    by (simp add: checker_up_def checker_new_def)
  have s1: "list_all (\<lambda>s. \<not> past_the_end s \<and> \<not> exhausts s) (steps 32 cycle_calls checker_new) \<and>
    length (filter succeeds (steps 32 cycle_calls checker_new)) = 2"
    by (simp add: cycle_calls_def refused_calls_def env_refused_def concrete_defs callback_defs)
  have s2: "list_all (\<lambda>s. \<not> past_the_end s \<and> \<not> exhausts s) (steps 32 cycle_calls checker_up) \<and>
    length (filter succeeds (steps 32 cycle_calls checker_up)) = 2"
    by (simp add: cycle_calls_def refused_calls_def env_refused_def checker_up_def concrete_defs
          callback_defs)
  have "map_sum id snd (run 32 ?calls checker_new) =
     Inr [Socket 2, Tcp_bind_connect 7,
          Tcp_connection_state 7 connect_in_progress F_smtp_check_thread 5000000,
          Tcp_socket_state F_smtp_check_thread, Close 7,
          Log_message ''SMTP_CHECK Error connecting to server %s'',
          Thread_add_timer F_smtp_connect_thread 2000000,
          Socket 2, Tcp_bind_connect 7,
          Tcp_connection_state 7 connect_in_progress F_smtp_check_thread 5000000,
          Tcp_socket_state F_smtp_check_thread,
          Thread_add_read F_smtp_get_line_cb 7 5000000, Thread_del_write,
          Read 7 32,
          Thread_add_write F_smtp_put_line_cb 7 5000000, Thread_del_read,
          Write 7 (''HELO probe'' @ CRLF),
          Thread_add_read F_smtp_get_line_cb 7 5000000, Thread_del_write,
          Read 7 32,
          Thread_add_write F_smtp_put_line_cb 7 5000000, Thread_del_read,
          Write 7 (''QUIT'' @ CRLF),
          Thread_add_read F_smtp_get_line_cb 7 5000000, Thread_del_write,
          Read 7 32,
          Close 7, Thread_add_timer F_smtp_connect_thread 1,
          Socket 10, Tcp_bind_connect 7,
          Tcp_connection_state 7 connect_in_progress F_smtp_check_thread 3000000,
          Tcp_socket_state F_smtp_check_thread,
          Thread_add_read F_smtp_get_line_cb 7 3000000, Thread_del_write,
          Read 7 32,
          Thread_add_write F_smtp_put_line_cb 7 3000000, Thread_del_read,
          Write 7 (''HELO probe'' @ CRLF),
          Thread_add_read F_smtp_get_line_cb 7 3000000, Thread_del_write,
          Read 7 32,
          Thread_add_write F_smtp_put_line_cb 7 3000000, Thread_del_read,
          Write 7 (''QUIT'' @ CRLF),
          Thread_add_read F_smtp_get_line_cb 7 3000000, Thread_del_write,
          Read 7 32,
          Close 7, Thread_add_timer F_smtp_connect_thread 1,
          Log_message ''Remote SMTP server %s succeed on service.'',
          Update_svr_checker_state UP,
          Thread_add_timer F_smtp_connect_thread 10000000]"
    by (simp add: cycle_calls_def refused_calls_def env_refused_def concrete_defs callback_defs
          update_svr_checker_state_def UP_def)
  then obtain c2 a2 where r1: "run 32 ?calls checker_new = Inr (c2, a2)"
    by (cases "run 32 ?calls checker_new") auto
  have "\<exists>c a. run 32 ?calls checker_up = Inr (c, a)"
    by (simp add: cycle_calls_def refused_calls_def env_refused_def checker_up_def concrete_defs
          callback_defs update_svr_checker_state_def UP_def)
  then obtain c3 a3 where r2: "run 32 ?calls checker_up = Inr (c3, a3)"
    by blast
  from smtp_connect_thread_past_the_end
    [where checker = ?c and e = env_ok and thread = thread_timer] h0
  have w0: "snd (smtp_connect_thread env_ok thread_timer ?c) =
     [Log_message ''Remote SMTP server %s succeed on service.'', Update_svr_checker_state UP,
      Thread_add_timer F_smtp_connect_thread 10000000]"
    by (simp add: checker_new_def env_ok_def update_svr_checker_state_def)
  from smtp_connect_thread_past_the_end
    [where checker = checker_new and e = env_ok and thread = thread_timer and bmax = 32
       and calls = cycle_calls and checker'' = c2 and acts'' = a2]
    h1 r1 s1
  have w1: "(\<exists>checker' acts'. run 32 cycle_calls checker_new = Inr (checker', acts') \<and>
       filter is_transition acts' = []) \<and>
    filter is_transition a2 = [Update_svr_checker_state UP]"
    by auto
  from smtp_connect_thread_past_the_end
    [where checker = checker_up and e = env_ok and thread = thread_timer and bmax = 32
       and calls = cycle_calls and checker'' = c3 and acts'' = a3]
    h2 r2 s2
  have w2: "filter is_transition a3 = []"
    by auto
  from w1 obtain c1 a1 where r0: "run 32 cycle_calls checker_new = Inr (c1, a1)"
    and t0: "filter is_transition a1 = []"
    by blast
  show ?thesis
    using h0 h1 h2 w0 w1 w2 r0 t0 r1 r2 s1 s2 by simp
qed

text \<open>
  C8. When \<^verbatim>\<open>socket\<close> fails, or when \<^verbatim>\<open>tcp_connection_state\<close> reports that the connection could
  not be registered, \<^verbatim>\<open>smtp_connect_thread\<close> logs and reschedules itself after \<open>delay_loop\<close>
  (closing the socket in the second case). Only \<open>host_ptr\<close> is set: the retry counter, the target
  index and the health state are those of before, and there is no transition and no alert.
\<close>

theorem smtp_connect_thread_local_failure:
  "(enabled checker \<and> host_ctr (data checker) < length (host (data checker)) \<and> socket_ret e = - 1 \<longrightarrow>
      smtp_connect_thread e thread checker =
        (checker\<lparr>data := (data checker)\<lparr>host_ptr := Some (host (data checker) ! host_ctr (data checker))\<rparr>\<rparr>,
         [Socket (dst_ss_family (host (data checker) ! host_ctr (data checker))),
          Log_message ''SMTP_CHECK connection failed to create socket. Rescheduling.'',
          Thread_add_timer F_smtp_connect_thread (delay_loop checker)])) \<and>
   (enabled checker \<and> host_ctr (data checker) < length (host (data checker)) \<and> socket_ret e \<noteq> - 1 \<and>
    tcp_connection_state_ret e \<longrightarrow>
      smtp_connect_thread e thread checker =
        (checker\<lparr>data := (data checker)\<lparr>host_ptr := Some (host (data checker) ! host_ctr (data checker))\<rparr>\<rparr>,
         [Socket (dst_ss_family (host (data checker) ! host_ctr (data checker))),
          Tcp_bind_connect (socket_ret e),
          Tcp_connection_state (socket_ret e) (tcp_bind_connect_ret e) F_smtp_check_thread
            (connection_to (host (data checker) ! host_ctr (data checker))),
          Close (socket_ret e),
          Log_message ''SMTP_CHECK socket bind failed. Rescheduling.'',
          Thread_add_timer F_smtp_connect_thread (delay_loop checker)])) \<and>
   (enabled checker \<and> host_ctr (data checker) < length (host (data checker)) \<and>
    (socket_ret e = - 1 \<or> tcp_connection_state_ret e) \<longrightarrow>
      retry_it (fst (smtp_connect_thread e thread checker)) = retry_it checker \<and>
      host_ctr (data (fst (smtp_connect_thread e thread checker))) = host_ctr (data checker) \<and>
      is_up (fst (smtp_connect_thread e thread checker)) = is_up checker \<and>
      has_run (fst (smtp_connect_thread e thread checker)) = has_run checker \<and>
      rs (fst (smtp_connect_thread e thread checker)) = rs checker \<and>
      filter is_transition (snd (smtp_connect_thread e thread checker)) = [] \<and>
      filter is_alert (snd (smtp_connect_thread e thread checker)) = [] \<and>
      last (snd (smtp_connect_thread e thread checker)) =
        Thread_add_timer F_smtp_connect_thread (delay_loop checker))"
proof (intro conjI impI)
  assume a: "enabled checker \<and> host_ctr (data checker) < length (host (data checker)) \<and>
    (socket_ret e = - 1 \<or> tcp_connection_state_ret e)"
  then consider "socket_ret e = - 1" | "socket_ret e \<noteq> - 1" "tcp_connection_state_ret e"
    by blast
  then have "retry_it (fst (smtp_connect_thread e thread checker)) = retry_it checker \<and>
      host_ctr (data (fst (smtp_connect_thread e thread checker))) = host_ctr (data checker) \<and>
      is_up (fst (smtp_connect_thread e thread checker)) = is_up checker \<and>
      has_run (fst (smtp_connect_thread e thread checker)) = has_run checker \<and>
      rs (fst (smtp_connect_thread e thread checker)) = rs checker \<and>
      filter is_transition (snd (smtp_connect_thread e thread checker)) = [] \<and>
      filter is_alert (snd (smtp_connect_thread e thread checker)) = [] \<and>
      last (snd (smtp_connect_thread e thread checker)) =
        Thread_add_timer F_smtp_connect_thread (delay_loop checker)"
  proof cases
    case 1
    with a show ?thesis by (simp add: smtp_connect_thread_socket_fail_eq)
  next
    case 2
    with a show ?thesis by (simp add: smtp_connect_thread_bind_fail_eq)
  qed
  then show "retry_it (fst (smtp_connect_thread e thread checker)) = retry_it checker"
    and "host_ctr (data (fst (smtp_connect_thread e thread checker))) = host_ctr (data checker)"
    and "is_up (fst (smtp_connect_thread e thread checker)) = is_up checker"
    and "has_run (fst (smtp_connect_thread e thread checker)) = has_run checker"
    and "rs (fst (smtp_connect_thread e thread checker)) = rs checker"
    and "filter is_transition (snd (smtp_connect_thread e thread checker)) = []"
    and "filter is_alert (snd (smtp_connect_thread e thread checker)) = []"
    and "last (snd (smtp_connect_thread e thread checker)) =
        Thread_add_timer F_smtp_connect_thread (delay_loop checker)"
    by simp_all
qed (simp_all add: smtp_connect_thread_socket_fail_eq smtp_connect_thread_bind_fail_eq)

theorem smtp_connect_thread_local_failure_witness:
  "enabled checker_new \<and> host_ctr (data checker_new) < length (host (data checker_new)) \<and>
   socket_ret env_no_socket = - 1 \<and>
   socket_ret env_bind_failed \<noteq> - 1 \<and> tcp_connection_state_ret env_bind_failed \<and>
   snd (smtp_connect_thread env_no_socket thread_timer checker_new) =
     [Socket 2, Log_message ''SMTP_CHECK connection failed to create socket. Rescheduling.'',
      Thread_add_timer F_smtp_connect_thread 10000000] \<and>
   snd (smtp_connect_thread env_bind_failed thread_timer checker_new) =
     [Socket 2, Tcp_bind_connect 7,
      Tcp_connection_state 7 connect_in_progress F_smtp_check_thread 5000000,
      Close 7, Log_message ''SMTP_CHECK socket bind failed. Rescheduling.'',
      Thread_add_timer F_smtp_connect_thread 10000000] \<and>
   retry_it (fst (smtp_connect_thread env_no_socket thread_timer checker_new)) = 0 \<and>
   retry_it (fst (smtp_connect_thread env_bind_failed thread_timer checker_new)) = 0 \<and>
   is_up (fst (smtp_connect_thread env_bind_failed thread_timer checker_new))"
proof -
  have h: "enabled checker_new \<and> host_ctr (data checker_new) < length (host (data checker_new))"
    by (simp add: checker_new_def)
  have s: "socket_ret env_no_socket = - 1"
    and b: "socket_ret env_bind_failed \<noteq> - 1 \<and> tcp_connection_state_ret env_bind_failed"
    by (simp_all add: env_no_socket_def env_bind_failed_def env_ok_def)
  from smtp_connect_thread_local_failure [of checker_new env_no_socket thread_timer] h s
  have "snd (smtp_connect_thread env_no_socket thread_timer checker_new) =
     [Socket 2, Log_message ''SMTP_CHECK connection failed to create socket. Rescheduling.'',
      Thread_add_timer F_smtp_connect_thread 10000000] \<and>
     retry_it (fst (smtp_connect_thread env_no_socket thread_timer checker_new)) = 0"
    by (simp add: checker_new_def host_a_def)
  moreover from smtp_connect_thread_local_failure [of checker_new env_bind_failed thread_timer] h b
  have "snd (smtp_connect_thread env_bind_failed thread_timer checker_new) =
     [Socket 2, Tcp_bind_connect 7,
      Tcp_connection_state 7 connect_in_progress F_smtp_check_thread 5000000,
      Close 7, Log_message ''SMTP_CHECK socket bind failed. Rescheduling.'',
      Thread_add_timer F_smtp_connect_thread 10000000] \<and>
     retry_it (fst (smtp_connect_thread env_bind_failed thread_timer checker_new)) = 0 \<and>
     is_up (fst (smtp_connect_thread env_bind_failed thread_timer checker_new))"
    by (simp add: checker_new_def host_a_def env_bind_failed_def env_ok_def)
  ultimately show ?thesis
    using h s b by simp
qed

text \<open>
  C10. Clearing the buffer sets the fill cursor to 0. The read callback asks \<^verbatim>\<open>read\<close> for at
  most \<open>bmax - buff_ctr\<close> bytes, so from a state within bounds it ends within bounds.
  \<^verbatim>\<open>smtp_put_line\<close> sets the cursor to the length of a string that is terminated at index
  \<open>bmax - 1\<close>, which is at most \<open>bmax - 1\<close>. Consequently, in every state the scheduler can
  reach from a state within bounds, the fill cursor is at most \<open>bmax\<close>: the guard
  \<^verbatim>\<open>buff_ctr > SMTP_BUFF_MAX\<close> of the read callback is false there.
\<close>

theorem buff_ctr_bounded:
  "buff_ctr (data (smtp_clear_buff bmax checker)) = 0 \<and>
   buff (data (smtp_clear_buff bmax checker)) = replicate bmax NUL \<and>
   (buff_ok bmax checker \<and> smtp_get_line_cb bmax e thread checker = Inr (checker1, acts1) \<longrightarrow>
      buff_ctr (data checker1) \<le> bmax) \<and>
   (length (buff (data checker)) = bmax \<and> smtp_put_line bmax thread cb checker = Inr (checker2, acts2) \<longrightarrow>
      buff_ctr (data checker2) = strlen ((buff (data checker))[bmax - 1 := NUL]) \<and>
      buff_ctr (data checker2) \<le> bmax - 1) \<and>
   (buff_ok bmax checker \<and> run bmax calls checker = Inr (checker3, acts3) \<longrightarrow>
      buff_ctr (data checker3) \<le> bmax \<and> \<not> buff_ctr (data checker3) > bmax)"
proof (intro conjI impI)
  show "buff_ctr (data (smtp_clear_buff bmax checker)) = 0"
    and "buff (data (smtp_clear_buff bmax checker)) = replicate bmax NUL"
    by (simp_all add: smtp_clear_buff_def)
next
  assume "buff_ok bmax checker \<and> smtp_get_line_cb bmax e thread checker = Inr (checker1, acts1)"
  then have "buff_ok bmax checker1"
    by (auto dest: smtp_get_line_cb_buff_ok)
  then show "buff_ctr (data checker1) \<le> bmax"
    by (simp add: buff_ok_def)
next
  assume a: "length (buff (data checker)) = bmax \<and> smtp_put_line bmax thread cb checker = Inr (checker2, acts2)"
  then show c: "buff_ctr (data checker2) = strlen ((buff (data checker))[bmax - 1 := NUL])"
    by (auto simp: smtp_put_line_def Let_def split: option.splits)
  from a strlen_terminated [of "buff (data checker)"] show "buff_ctr (data checker2) \<le> bmax - 1"
    unfolding c by auto
next
  assume "buff_ok bmax checker \<and> run bmax calls checker = Inr (checker3, acts3)"
  then have "buff_ok bmax checker3"
    by (auto dest: run_buff_ok)
  then show "buff_ctr (data checker3) \<le> bmax" and "\<not> buff_ctr (data checker3) > bmax"
    by (simp_all add: buff_ok_def)
qed

theorem buff_ctr_bounded_witness:
  "buff_ok 32 checker_connected \<and>
   (\<exists>c a. smtp_get_line_cb 32 env_partial thread_io checker_connected = Inr (c, a) \<and>
          buff_ctr (data c) = 8 \<and> buff_ctr (data c) \<le> 32) \<and>
   length (buff (data checker_connected)) = 32 \<and>
   (\<exists>c a. smtp_put_line 32 thread_io CB_smtp_engine_thread checker_connected = Inr (c, a) \<and>
          buff_ctr (data c) \<le> 31) \<and>
   (\<exists>c a. run 32 [Call F_smtp_get_line_cb thread_io env_partial,
                   Call F_smtp_get_line_cb thread_io env_partial] checker_connected = Inr (c, a) \<and>
          \<not> buff_ctr (data c) > 32)"
proof -
  have ok: "buff_ok 32 checker_connected" and len: "length (buff (data checker_connected)) = 32"
    by (simp_all add: buff_ok_def checker_connected_def checker_new_def)
  obtain c1 a1 where g: "smtp_get_line_cb 32 env_partial thread_io checker_connected = Inr (c1, a1)"
    and g8: "buff_ctr (data c1) = 8"
    by (simp add: get_line_cb_partial)
  obtain c2 a2 where p: "smtp_put_line 32 thread_io CB_smtp_engine_thread checker_connected = Inr (c2, a2)"
    by (simp add: smtp_put_line_def checker_connected_def checker_new_def Let_def)
  obtain c3 a3 where r: "run 32 [Call F_smtp_get_line_cb thread_io env_partial,
                   Call F_smtp_get_line_cb thread_io env_partial] checker_connected = Inr (c3, a3)"
    by (simp add: dispatch_def get_line_cb_partial smtp_get_line_cb_def smtp_get_line_cb_scan_def
          env_partial_def env_ok_def thread_io_def checker_connected_def checker_new_def host_a_def
          Let_def LF_def NUL_def)
  note t = buff_ctr_bounded [of 32 checker_connected env_partial thread_io c1 a1
      CB_smtp_engine_thread c2 a2
      "[Call F_smtp_get_line_cb thread_io env_partial, Call F_smtp_get_line_cb thread_io env_partial]"
      c3 a3]
  from t ok g have "buff_ctr (data c1) \<le> 32" by blast
  moreover from t len p have "buff_ctr (data c2) \<le> 31" by simp
  moreover from t ok r have "\<not> buff_ctr (data c3) > 32" by blast
  ultimately show ?thesis
    using ok len g g8 p r by blast
qed

text \<open>
  C9. With \<open>host_ptr\<close> at the current target, every I/O wait of the socket I/O driver has the
  target's \<open>connection_to\<close> as its timeout: the read wait of \<^verbatim>\<open>smtp_get_line\<close>, the write wait
  of \<^verbatim>\<open>smtp_put_line\<close>, every wait \<^verbatim>\<open>smtp_get_line_cb\<close> and \<^verbatim>\<open>smtp_put_line_cb\<close> register
  (also through the engine they call back), in particular the read wait registered again after
  a read that would block and after a read that brought no line end, and the write wait
  registered again after a write that would block. A target has this one timeout only.
\<close>

theorem io_waits_use_connection_to:
  "host_ptr (data checker) = Some smtp_host \<longrightarrow>
     smtp_get_line bmax thread cb checker =
       Inr (checker\<lparr>data := (data checker)\<lparr>buff := replicate bmax NUL, buff_ctr := 0, buff_cb := Some cb\<rparr>\<rparr>,
            [Thread_add_read F_smtp_get_line_cb (fd thread) (connection_to smtp_host), Thread_del_write]) \<and>
     smtp_put_line bmax thread cb checker =
       Inr (checker\<lparr>data := (data checker)
              \<lparr>buff := (buff (data checker))[bmax - 1 := NUL],
               buff_ctr := strlen ((buff (data checker))[bmax - 1 := NUL]), buff_cb := Some cb\<rparr>\<rparr>,
            [Thread_add_write F_smtp_put_line_cb (fd thread) (connection_to smtp_host), Thread_del_read]) \<and>
     (smtp_get_line_cb bmax e thread checker = Inr (checker1, acts1) \<longrightarrow>
        set (io_wait_timeouts acts1) \<subseteq> {connection_to smtp_host}) \<and>
     (smtp_put_line_cb bmax e thread checker = Inr (checker2, acts2) \<longrightarrow>
        set (io_wait_timeouts acts2) \<subseteq> {connection_to smtp_host}) \<and>
     (thread_type thread \<noteq> THREAD_READ_TIMEOUT \<and> buff_ctr (data checker) \<le> bmax \<and>
      read_ret e = Inl True \<longrightarrow>
        smtp_get_line_cb bmax e thread checker =
          Inr (checker, [Read (fd thread) (bmax - buff_ctr (data checker)),
                         Thread_add_read F_smtp_get_line_cb (fd thread) (connection_to smtp_host)])) \<and>
     (thread_type thread \<noteq> THREAD_READ_TIMEOUT \<and> buff_ctr (data checker) \<le> bmax \<and>
      read_ret e = Inr bytes \<and> take (bmax - buff_ctr (data checker)) bytes \<noteq> [] \<and>
      LF \<notin> set (buff (data checker)) \<and> LF \<notin> set bytes \<longrightarrow>
        smtp_get_line_cb bmax e thread checker =
          Inr (checker\<lparr>data := (data checker)
                 \<lparr>buff := take (buff_ctr (data checker)) (buff (data checker)) @
                          take (bmax - buff_ctr (data checker)) bytes @
                          drop (buff_ctr (data checker) +
                                length (take (bmax - buff_ctr (data checker)) bytes))
                            (buff (data checker)),
                  buff_ctr := buff_ctr (data checker) +
                              length (take (bmax - buff_ctr (data checker)) bytes)\<rparr>\<rparr>,
               [Read (fd thread) (bmax - buff_ctr (data checker)),
                Thread_add_read F_smtp_get_line_cb (fd thread) (connection_to smtp_host)])) \<and>
     (thread_type thread \<noteq> THREAD_WRITE_TIMEOUT \<and> write_ret e = Inl True \<longrightarrow>
        smtp_put_line_cb bmax e thread checker =
          Inr (checker, [Write (fd thread) (take (buff_ctr (data checker)) (buff (data checker))),
                         Thread_add_write F_smtp_put_line_cb (fd thread) (connection_to smtp_host)]))"
proof (intro impI conjI)
  assume h: "host_ptr (data checker) = Some smtp_host"
  show "smtp_get_line bmax thread cb checker =
       Inr (checker\<lparr>data := (data checker)\<lparr>buff := replicate bmax NUL, buff_ctr := 0, buff_cb := Some cb\<rparr>\<rparr>,
            [Thread_add_read F_smtp_get_line_cb (fd thread) (connection_to smtp_host), Thread_del_write])"
    by (rule smtp_get_line_eq [OF h])
  show "smtp_put_line bmax thread cb checker =
       Inr (checker\<lparr>data := (data checker)
              \<lparr>buff := (buff (data checker))[bmax - 1 := NUL],
               buff_ctr := strlen ((buff (data checker))[bmax - 1 := NUL]), buff_cb := Some cb\<rparr>\<rparr>,
            [Thread_add_write F_smtp_put_line_cb (fd thread) (connection_to smtp_host), Thread_del_read])"
    by (rule smtp_put_line_eq [OF h])
  {
    assume "smtp_get_line_cb bmax e thread checker = Inr (checker1, acts1)"
    then show "set (io_wait_timeouts acts1) \<subseteq> {connection_to smtp_host}"
      using h by (rule smtp_get_line_cb_io_waits)
  }
  {
    assume "smtp_put_line_cb bmax e thread checker = Inr (checker2, acts2)"
    then show "set (io_wait_timeouts acts2) \<subseteq> {connection_to smtp_host}"
      using h by (rule smtp_put_line_cb_io_waits)
  }
  {
    assume "thread_type thread \<noteq> THREAD_READ_TIMEOUT \<and> buff_ctr (data checker) \<le> bmax \<and>
      read_ret e = Inl True"
    then show "smtp_get_line_cb bmax e thread checker =
          Inr (checker, [Read (fd thread) (bmax - buff_ctr (data checker)),
                         Thread_add_read F_smtp_get_line_cb (fd thread) (connection_to smtp_host)])"
      using h by (simp add: smtp_get_line_cb_def)
  }
  {
    assume "thread_type thread \<noteq> THREAD_READ_TIMEOUT \<and> buff_ctr (data checker) \<le> bmax \<and>
      read_ret e = Inr bytes \<and> take (bmax - buff_ctr (data checker)) bytes \<noteq> [] \<and>
      LF \<notin> set (buff (data checker)) \<and> LF \<notin> set bytes"
    then show "smtp_get_line_cb bmax e thread checker =
          Inr (checker\<lparr>data := (data checker)
                 \<lparr>buff := take (buff_ctr (data checker)) (buff (data checker)) @
                          take (bmax - buff_ctr (data checker)) bytes @
                          drop (buff_ctr (data checker) +
                                length (take (bmax - buff_ctr (data checker)) bytes))
                            (buff (data checker)),
                  buff_ctr := buff_ctr (data checker) +
                              length (take (bmax - buff_ctr (data checker)) bytes)\<rparr>\<rparr>,
               [Read (fd thread) (bmax - buff_ctr (data checker)),
                Thread_add_read F_smtp_get_line_cb (fd thread) (connection_to smtp_host)])"
      using h by (intro smtp_get_line_cb_partial_eq) simp_all
  }
  {
    assume "thread_type thread \<noteq> THREAD_WRITE_TIMEOUT \<and> write_ret e = Inl True"
    then show "smtp_put_line_cb bmax e thread checker =
          Inr (checker, [Write (fd thread) (take (buff_ctr (data checker)) (buff (data checker))),
                         Thread_add_write F_smtp_put_line_cb (fd thread) (connection_to smtp_host)])"
      using h by (simp add: smtp_put_line_cb_def)
  }
qed

theorem io_waits_use_connection_to_witness:
  "host_ptr (data checker_connected) = Some host_a \<and> connection_to host_a = 5000000 \<and>
   map_sum id snd (smtp_get_line 32 thread_io CB_smtp_engine_thread checker_connected) =
     Inr [Thread_add_read F_smtp_get_line_cb 7 5000000, Thread_del_write] \<and>
   map_sum id snd (smtp_put_line 32 thread_io CB_smtp_engine_thread checker_connected) =
     Inr [Thread_add_write F_smtp_put_line_cb 7 5000000, Thread_del_read] \<and>
   map_sum id snd (smtp_get_line_cb 32 (env_ok\<lparr>read_ret := Inl True\<rparr>) thread_io checker_connected) =
     Inr [Read 7 32, Thread_add_read F_smtp_get_line_cb 7 5000000] \<and>
   map_sum id snd (smtp_get_line_cb 32 env_partial thread_io checker_connected) =
     Inr [Read 7 32, Thread_add_read F_smtp_get_line_cb 7 5000000] \<and>
   map_sum id snd (smtp_put_line_cb 32 (env_ok\<lparr>write_ret := Inl True\<rparr>) thread_write checker_greeted) =
     Inr [Write 7 (''220 mail.example.com'' @ CRLF),
          Thread_add_write F_smtp_put_line_cb 7 5000000]"
proof -
  have h: "host_ptr (data checker_connected) = Some host_a"
    and h': "host_ptr (data checker_greeted) = Some host_a"
    by (simp_all add: checker_connected_def checker_greeted_def)
  have r1: "thread_type thread_io \<noteq> THREAD_READ_TIMEOUT \<and> buff_ctr (data checker_connected) \<le> 32 \<and>
      read_ret (env_ok\<lparr>read_ret := Inl True\<rparr>) = Inl True"
    by (simp add: thread_io_def checker_connected_def checker_new_def)
  have r2: "thread_type thread_io \<noteq> THREAD_READ_TIMEOUT \<and> buff_ctr (data checker_connected) \<le> 32 \<and>
      read_ret env_partial = Inr ''220 mail'' \<and>
      take (32 - buff_ctr (data checker_connected)) ''220 mail'' \<noteq> [] \<and>
      LF \<notin> set (buff (data checker_connected)) \<and> LF \<notin> set ''220 mail''"
    by (simp add: thread_io_def checker_connected_def checker_new_def env_partial_def LF_def NUL_def)
  have r3: "thread_type thread_write \<noteq> THREAD_WRITE_TIMEOUT \<and>
      write_ret (env_ok\<lparr>write_ret := Inl True\<rparr>) = Inl True"
    by (simp add: thread_write_def)
  from io_waits_use_connection_to [of checker_connected host_a 32 thread_io CB_smtp_engine_thread
      "env_ok\<lparr>read_ret := Inl True\<rparr>"] h r1
  have w1: "map_sum id snd (smtp_get_line 32 thread_io CB_smtp_engine_thread checker_connected) =
     Inr [Thread_add_read F_smtp_get_line_cb 7 5000000, Thread_del_write] \<and>
     map_sum id snd (smtp_put_line 32 thread_io CB_smtp_engine_thread checker_connected) =
     Inr [Thread_add_write F_smtp_put_line_cb 7 5000000, Thread_del_read] \<and>
     map_sum id snd (smtp_get_line_cb 32 (env_ok\<lparr>read_ret := Inl True\<rparr>) thread_io checker_connected) =
     Inr [Read 7 32, Thread_add_read F_smtp_get_line_cb 7 5000000]"
    by (simp add: thread_io_def host_a_def checker_connected_def checker_new_def)
  from io_waits_use_connection_to [of checker_connected host_a 32 thread_io CB_smtp_engine_thread
      env_partial _ _ _ _ "''220 mail''"] h r2
  have w2: "map_sum id snd (smtp_get_line_cb 32 env_partial thread_io checker_connected) =
     Inr [Read 7 32, Thread_add_read F_smtp_get_line_cb 7 5000000]"
    by (simp add: thread_io_def host_a_def checker_connected_def checker_new_def)
  from io_waits_use_connection_to [of checker_greeted host_a 32 thread_write CB_smtp_engine_thread
      "env_ok\<lparr>write_ret := Inl True\<rparr>"] h' r3
  have w3: "map_sum id snd (smtp_put_line_cb 32 (env_ok\<lparr>write_ret := Inl True\<rparr>) thread_write checker_greeted) =
     Inr [Write 7 (''220 mail.example.com'' @ CRLF),
          Thread_add_write F_smtp_put_line_cb 7 5000000]"
    by (simp add: thread_write_def host_a_def checker_greeted_def checker_connected_def
          checker_new_def CRLF_def)
  show ?thesis
    using h w1 w2 w3 by (simp add: host_a_def)
qed

text \<open>
  C7, as the claim states it, fails where the HELO line does not fit into the buffer:
  \<^verbatim>\<open>snprintf\<close> stores at most \<open>SMTP_BUFF_MAX - 1\<close> bytes of it. With a buffer of 512 bytes
  and a HELO name of 506 bytes, a good greeting makes the engine send the 511 bytes
  \<open>HELO aaa...a\<close>, which is not the line \<open>HELO <helo_name>\r\n\<close>: the line end is cut off.
\<close>

theorem helo_line_truncated:
  "state (data checker_long_helo) = SMTP_HAVE_BANNER \<and>
   smtp_get_status (buff (data checker_long_helo)) = 220 \<and>
   smtp_engine_thread 512 env_ok thread_io checker_long_helo =
     Inr (checker_long_helo\<lparr>data := (data checker_long_helo)
            \<lparr>state := SMTP_SENT_HELO, buff := ''HELO '' @ replicate 506 (CHR ''a'') @ [NUL],
             buff_ctr := 511\<rparr>\<rparr>,
          [Thread_add_write F_smtp_put_line_cb 7 5000000, Thread_del_read]) \<and>
   smtp_put_line_cb 512 env_ok thread_write
       (checker_long_helo\<lparr>data := (data checker_long_helo)
          \<lparr>state := SMTP_SENT_HELO, buff := ''HELO '' @ replicate 506 (CHR ''a'') @ [NUL],
           buff_ctr := 511\<rparr>\<rparr>) =
     Inr (checker_long_helo\<lparr>data := (data checker_long_helo)
            \<lparr>state := SMTP_RECV_HELO, buff := replicate 512 NUL, buff_ctr := 0\<rparr>\<rparr>,
          [Write 7 (''HELO '' @ replicate 506 (CHR ''a'')),
           Thread_add_read F_smtp_get_line_cb 7 5000000, Thread_del_write]) \<and>
   ''HELO '' @ replicate 506 (CHR ''a'') \<noteq> ''HELO '' @ helo_name (data checker_long_helo) @ CRLF"
proof (intro conjI)
  show st: "state (data checker_long_helo) = SMTP_HAVE_BANNER"
    by (simp add: checker_long_helo_def)
  show "smtp_get_status (buff (data checker_long_helo)) = 220"
    by (rule long_helo_status)
  have h: "host_ptr (data checker_long_helo) = Some host_a"
    by (simp add: checker_long_helo_def)
  show "smtp_engine_thread 512 env_ok thread_io checker_long_helo =
     Inr (checker_long_helo\<lparr>data := (data checker_long_helo)
            \<lparr>state := SMTP_SENT_HELO, buff := ''HELO '' @ replicate 506 (CHR ''a'') @ [NUL],
             buff_ctr := 511\<rparr>\<rparr>,
          [Thread_add_write F_smtp_put_line_cb 7 5000000, Thread_del_read])"
    unfolding smtp_engine_thread_banner_ok_eq [OF st long_helo_status h]
    using long_helo_buff long_helo_strlen
    by (simp add: thread_io_def host_a_def checker_long_helo_def)
  let ?c = "checker_long_helo\<lparr>data := (data checker_long_helo)
          \<lparr>state := SMTP_SENT_HELO, buff := ''HELO '' @ replicate 506 (CHR ''a'') @ [NUL],
           buff_ctr := 511\<rparr>\<rparr>"
  have "smtp_put_line_cb 512 env_ok thread_write ?c =
     after [Write (fd thread_write) (take (buff_ctr (data ?c)) (buff (data ?c)))]
       (smtp_engine_thread 512 env_ok thread_write ?c)"
    by (rule smtp_put_line_cb_sent_eq [where n = 512])
       (simp_all add: thread_write_def env_ok_def checker_long_helo_def)
  also have "smtp_engine_thread 512 env_ok thread_write ?c =
     Inr (?c\<lparr>data := (data ?c)
            \<lparr>state := SMTP_RECV_HELO, buff := replicate 512 NUL, buff_ctr := 0,
             buff_cb := Some CB_smtp_engine_thread\<rparr>\<rparr>,
          [Thread_add_read F_smtp_get_line_cb (fd thread_write) (connection_to host_a), Thread_del_write])"
    by (rule smtp_engine_thread_sent_helo_eq) (simp_all add: checker_long_helo_def)
  finally show "smtp_put_line_cb 512 env_ok thread_write ?c =
     Inr (checker_long_helo\<lparr>data := (data checker_long_helo)
            \<lparr>state := SMTP_RECV_HELO, buff := replicate 512 NUL, buff_ctr := 0\<rparr>\<rparr>,
          [Write 7 (''HELO '' @ replicate 506 (CHR ''a'')),
           Thread_add_read F_smtp_get_line_cb 7 5000000, Thread_del_write])"
    by (simp add: thread_write_def host_a_def checker_long_helo_def)
  show "''HELO '' @ replicate 506 (CHR ''a'') \<noteq> ''HELO '' @ helo_name (data checker_long_helo) @ CRLF"
    by (simp add: checker_long_helo_def CRLF_def)
qed

text \<open>
  C7, amended. From \<open>SMTP_START\<close> the engine asks for a line and goes to \<open>SMTP_HAVE_BANNER\<close>.
  There a status other than 220 goes to \<^verbatim>\<open>smtp_final\<close> with the bad-greeting error; with 220
  the engine formats \<open>HELO <helo_name>\r\n\<close>, goes to \<open>SMTP_SENT_HELO\<close> and hands the first
  \<open>bmax - 1\<close> bytes of that line to the writer: the whole line when it is shorter than the
  buffer. In \<open>SMTP_SENT_HELO\<close> it asks for a line and goes to \<open>SMTP_RECV_HELO\<close>; there a
  status other than 250 goes to \<^verbatim>\<open>smtp_final\<close> with the bad-HELO error, and with 250 the engine
  sends \<open>QUIT\r\n\<close> (cut in the same way, whole when \<open>bmax\<close> is at least 7) and goes to
  \<open>SMTP_SENT_QUIT\<close>, where it asks for a line and goes to \<open>SMTP_RECV_QUIT\<close>. There it calls
  \<^verbatim>\<open>smtp_final\<close> with success, whatever the buffer holds. Any other state value calls
  \<^verbatim>\<open>smtp_final\<close> with the unknown-state error. The engine is entered again from
  \<^verbatim>\<open>smtp_put_line_cb\<close> once a write has taken at least one byte, and from
  \<^verbatim>\<open>smtp_get_line_cb\<close> once the buffer holds a line end.
\<close>

theorem smtp_engine_thread_steps:
  "(state (data checker) = SMTP_START \<and> host_ptr (data checker) = Some smtp_host \<longrightarrow>
      smtp_engine_thread bmax e thread checker =
        Inr (checker\<lparr>data := (data checker)
               \<lparr>state := SMTP_HAVE_BANNER, buff := replicate bmax NUL, buff_ctr := 0,
                buff_cb := Some CB_smtp_engine_thread\<rparr>\<rparr>,
             [Thread_add_read F_smtp_get_line_cb (fd thread) (connection_to smtp_host),
              Thread_del_write])) \<and>
   (state (data checker) = SMTP_HAVE_BANNER \<and> smtp_get_status (buff (data checker)) \<noteq> 220 \<longrightarrow>
      smtp_engine_thread bmax e thread checker =
        Inr (smtp_final e thread True (Some ''Bad greeting banner from server %s'') checker)) \<and>
   (state (data checker) = SMTP_HAVE_BANNER \<and> smtp_get_status (buff (data checker)) = 220 \<and>
    host_ptr (data checker) = Some smtp_host \<and> 0 < bmax \<longrightarrow>
      smtp_engine_thread bmax e thread checker =
        Inr (checker\<lparr>data := (data checker)
               \<lparr>state := SMTP_SENT_HELO,
                buff := (snprintf (buff (data checker)) bmax
                           (''HELO '' @ c_str (helo_name (data checker)) @ CRLF))[bmax - 1 := NUL],
                buff_ctr := strlen ((snprintf (buff (data checker)) bmax
                           (''HELO '' @ c_str (helo_name (data checker)) @ CRLF))[bmax - 1 := NUL]),
                buff_cb := Some CB_smtp_engine_thread\<rparr>\<rparr>,
             [Thread_add_write F_smtp_put_line_cb (fd thread) (connection_to smtp_host),
              Thread_del_read]) \<and>
      take (strlen ((snprintf (buff (data checker)) bmax
                       (''HELO '' @ c_str (helo_name (data checker)) @ CRLF))[bmax - 1 := NUL]))
           ((snprintf (buff (data checker)) bmax
                       (''HELO '' @ c_str (helo_name (data checker)) @ CRLF))[bmax - 1 := NUL]) =
        take (bmax - 1) (''HELO '' @ c_str (helo_name (data checker)) @ CRLF) \<and>
      (length (c_str (helo_name (data checker))) + 7 < bmax \<longrightarrow>
         take (bmax - 1) (''HELO '' @ c_str (helo_name (data checker)) @ CRLF) =
           ''HELO '' @ c_str (helo_name (data checker)) @ CRLF)) \<and>
   (state (data checker) = SMTP_SENT_HELO \<and> host_ptr (data checker) = Some smtp_host \<longrightarrow>
      smtp_engine_thread bmax e thread checker =
        Inr (checker\<lparr>data := (data checker)
               \<lparr>state := SMTP_RECV_HELO, buff := replicate bmax NUL, buff_ctr := 0,
                buff_cb := Some CB_smtp_engine_thread\<rparr>\<rparr>,
             [Thread_add_read F_smtp_get_line_cb (fd thread) (connection_to smtp_host),
              Thread_del_write])) \<and>
   (state (data checker) = SMTP_RECV_HELO \<and> smtp_get_status (buff (data checker)) \<noteq> 250 \<longrightarrow>
      smtp_engine_thread bmax e thread checker =
        Inr (smtp_final e thread True (Some ''Bad HELO response from server %s'') checker)) \<and>
   (state (data checker) = SMTP_RECV_HELO \<and> smtp_get_status (buff (data checker)) = 250 \<and>
    host_ptr (data checker) = Some smtp_host \<and> 0 < bmax \<longrightarrow>
      smtp_engine_thread bmax e thread checker =
        Inr (checker\<lparr>data := (data checker)
               \<lparr>state := SMTP_SENT_QUIT,
                buff := (snprintf (buff (data checker)) bmax (''QUIT'' @ CRLF))[bmax - 1 := NUL],
                buff_ctr := strlen ((snprintf (buff (data checker)) bmax (''QUIT'' @ CRLF))[bmax - 1 := NUL]),
                buff_cb := Some CB_smtp_engine_thread\<rparr>\<rparr>,
             [Thread_add_write F_smtp_put_line_cb (fd thread) (connection_to smtp_host),
              Thread_del_read]) \<and>
      take (strlen ((snprintf (buff (data checker)) bmax (''QUIT'' @ CRLF))[bmax - 1 := NUL]))
           ((snprintf (buff (data checker)) bmax (''QUIT'' @ CRLF))[bmax - 1 := NUL]) =
        take (bmax - 1) (''QUIT'' @ CRLF) \<and>
      (7 \<le> bmax \<longrightarrow> take (bmax - 1) (''QUIT'' @ CRLF) = ''QUIT'' @ CRLF)) \<and>
   (state (data checker) = SMTP_SENT_QUIT \<and> host_ptr (data checker) = Some smtp_host \<longrightarrow>
      smtp_engine_thread bmax e thread checker =
        Inr (checker\<lparr>data := (data checker)
               \<lparr>state := SMTP_RECV_QUIT, buff := replicate bmax NUL, buff_ctr := 0,
                buff_cb := Some CB_smtp_engine_thread\<rparr>\<rparr>,
             [Thread_add_read F_smtp_get_line_cb (fd thread) (connection_to smtp_host),
              Thread_del_write])) \<and>
   (state (data checker) = SMTP_RECV_QUIT \<longrightarrow>
      smtp_engine_thread bmax e thread checker = Inr (smtp_final e thread False None checker)) \<and>
   (state (data checker) = SMTP_UNKNOWN k \<longrightarrow>
      smtp_engine_thread bmax e thread checker =
        Inr (smtp_final e thread True (Some ''Unknown smtp engine state encountered'') checker)) \<and>
   (thread_type thread \<noteq> THREAD_WRITE_TIMEOUT \<and> write_ret e = Inr n \<and> 0 < n \<and>
    0 < buff_ctr (data checker) \<and> buff_cb (data checker) = Some CB_smtp_engine_thread \<longrightarrow>
      smtp_put_line_cb bmax e thread checker =
        after [Write (fd thread) (take (buff_ctr (data checker)) (buff (data checker)))]
          (smtp_engine_thread bmax e thread checker)) \<and>
   (thread_type thread \<noteq> THREAD_READ_TIMEOUT \<and> buff_ctr (data checker) \<le> bmax \<and>
    read_ret e = Inr bytes \<and>
    LF \<in> set (take bmax (take (buff_ctr (data checker)) (buff (data checker)) @
                          take (bmax - buff_ctr (data checker)) bytes @
                          drop (buff_ctr (data checker) +
                                length (take (bmax - buff_ctr (data checker)) bytes))
                            (buff (data checker)))) \<and>
    buff_cb (data checker) = Some CB_smtp_engine_thread \<longrightarrow>
      smtp_get_line_cb bmax e thread checker =
        after [Read (fd thread) (bmax - buff_ctr (data checker))]
          (smtp_engine_thread bmax e thread
             (checker\<lparr>data := (data checker)
                \<lparr>buff := (take (buff_ctr (data checker)) (buff (data checker)) @
                          take (bmax - buff_ctr (data checker)) bytes @
                          drop (buff_ctr (data checker) +
                                length (take (bmax - buff_ctr (data checker)) bytes))
                            (buff (data checker)))[bmax - 1 := NUL],
                 buff_ctr := buff_ctr (data checker) +
                             length (take (bmax - buff_ctr (data checker)) bytes)\<rparr>\<rparr>)))"
proof (intro conjI impI)
  assume "state (data checker) = SMTP_HAVE_BANNER \<and> smtp_get_status (buff (data checker)) = 220 \<and>
    host_ptr (data checker) = Some smtp_host \<and> 0 < bmax"
  then show "take (strlen ((snprintf (buff (data checker)) bmax
                       (''HELO '' @ c_str (helo_name (data checker)) @ CRLF))[bmax - 1 := NUL]))
           ((snprintf (buff (data checker)) bmax
                       (''HELO '' @ c_str (helo_name (data checker)) @ CRLF))[bmax - 1 := NUL]) =
        take (bmax - 1) (''HELO '' @ c_str (helo_name (data checker)) @ CRLF)"
    by (intro sent_text helo_line_no_NUL) simp
next
  assume "state (data checker) = SMTP_RECV_HELO \<and> smtp_get_status (buff (data checker)) = 250 \<and>
    host_ptr (data checker) = Some smtp_host \<and> 0 < bmax"
  then show "take (strlen ((snprintf (buff (data checker)) bmax (''QUIT'' @ CRLF))[bmax - 1 := NUL]))
           ((snprintf (buff (data checker)) bmax (''QUIT'' @ CRLF))[bmax - 1 := NUL]) =
        take (bmax - 1) (''QUIT'' @ CRLF)"
    by (intro sent_text quit_line_no_NUL) simp
next
  assume "length (c_str (helo_name (data checker))) + 7 < bmax"
  then show "take (bmax - 1) (''HELO '' @ c_str (helo_name (data checker)) @ CRLF) =
           ''HELO '' @ c_str (helo_name (data checker)) @ CRLF"
    by (simp add: CRLF_def)
next
  assume "7 \<le> bmax"
  then show "take (bmax - 1) (''QUIT'' @ CRLF) = ''QUIT'' @ CRLF"
    by (simp add: CRLF_def)
next
  assume "thread_type thread \<noteq> THREAD_WRITE_TIMEOUT \<and> write_ret e = Inr n \<and> 0 < n \<and>
    0 < buff_ctr (data checker) \<and> buff_cb (data checker) = Some CB_smtp_engine_thread"
  then show "smtp_put_line_cb bmax e thread checker =
        after [Write (fd thread) (take (buff_ctr (data checker)) (buff (data checker)))]
          (smtp_engine_thread bmax e thread checker)"
    by (intro smtp_put_line_cb_sent_eq [where n = n]) blast+
next
  assume "thread_type thread \<noteq> THREAD_READ_TIMEOUT \<and> buff_ctr (data checker) \<le> bmax \<and>
    read_ret e = Inr bytes \<and>
    LF \<in> set (take bmax (take (buff_ctr (data checker)) (buff (data checker)) @
                          take (bmax - buff_ctr (data checker)) bytes @
                          drop (buff_ctr (data checker) +
                                length (take (bmax - buff_ctr (data checker)) bytes))
                            (buff (data checker)))) \<and>
    buff_cb (data checker) = Some CB_smtp_engine_thread"
  then show "smtp_get_line_cb bmax e thread checker =
        after [Read (fd thread) (bmax - buff_ctr (data checker))]
          (smtp_engine_thread bmax e thread
             (checker\<lparr>data := (data checker)
                \<lparr>buff := (take (buff_ctr (data checker)) (buff (data checker)) @
                          take (bmax - buff_ctr (data checker)) bytes @
                          drop (buff_ctr (data checker) +
                                length (take (bmax - buff_ctr (data checker)) bytes))
                            (buff (data checker)))[bmax - 1 := NUL],
                 buff_ctr := buff_ctr (data checker) +
                             length (take (bmax - buff_ctr (data checker)) bytes)\<rparr>\<rparr>))"
    by (intro smtp_get_line_cb_line_eq) blast+
qed (simp_all add: smtp_engine_thread_start_eq smtp_engine_thread_sent_helo_eq
       smtp_engine_thread_sent_quit_eq smtp_engine_thread_banner_ok_eq
       smtp_engine_thread_helo_ok_eq, simp_all add: smtp_engine_thread_def)

theorem smtp_engine_thread_steps_witness:
  "state (data (checker_connected\<lparr>data := (data checker_connected)\<lparr>state := SMTP_START\<rparr>\<rparr>)) = SMTP_START \<and>
   map_sum id snd (smtp_engine_thread 32 env_ok thread_io
       (checker_connected\<lparr>data := (data checker_connected)\<lparr>state := SMTP_START\<rparr>\<rparr>)) =
     Inr [Thread_add_read F_smtp_get_line_cb 7 5000000, Thread_del_write] \<and>
   state (data checker_greeted) = SMTP_HAVE_BANNER \<and>
   smtp_get_status (buff (data checker_greeted)) = 220 \<and>
   map_sum id snd (smtp_engine_thread 32 env_ok thread_io checker_greeted) =
     Inr [Thread_add_write F_smtp_put_line_cb 7 5000000, Thread_del_read] \<and>
   take (32 - 1) (''HELO '' @ c_str (helo_name (data checker_greeted)) @ CRLF) = ''HELO probe'' @ CRLF \<and>
   smtp_get_status (buff (data checker_connected)) \<noteq> 220 \<and>
   smtp_engine_thread 32 env_ok thread_io checker_connected =
     Inr (smtp_final env_ok thread_io True (Some ''Bad greeting banner from server %s'') checker_connected) \<and>
   map_sum id snd (smtp_engine_thread 32 env_ok thread_io
       (checker_greeted\<lparr>data := (data checker_greeted)\<lparr>state := SMTP_RECV_QUIT\<rparr>\<rparr>)) =
     Inr [Close 7, Thread_add_timer F_smtp_connect_thread 1]"
proof -
  let ?start = "checker_connected\<lparr>data := (data checker_connected)\<lparr>state := SMTP_START\<rparr>\<rparr>"
  let ?quit = "checker_greeted\<lparr>data := (data checker_greeted)\<lparr>state := SMTP_RECV_QUIT\<rparr>\<rparr>"
  have s1: "state (data ?start) = SMTP_START \<and> host_ptr (data ?start) = Some host_a"
    by (simp add: checker_connected_def)
  have s2: "state (data checker_greeted) = SMTP_HAVE_BANNER \<and>
    smtp_get_status (buff (data checker_greeted)) = 220 \<and>
    host_ptr (data checker_greeted) = Some host_a \<and> (0::nat) < 32"
    using greeted_status by (simp add: checker_greeted_def checker_connected_def)
  have s2': "length (c_str (helo_name (data checker_greeted))) + 7 < 32"
    by (simp add: checker_greeted_def checker_connected_def checker_new_def c_str_def NUL_def)
  have s3: "state (data checker_connected) = SMTP_HAVE_BANNER \<and>
    smtp_get_status (buff (data checker_connected)) \<noteq> 220"
    by (simp add: checker_connected_def checker_new_def smtp_get_status_def strtoul_def
          isspace_def isdigit_def NUL_def)
  have s4: "state (data ?quit) = SMTP_RECV_QUIT"
    by simp
  from smtp_engine_thread_steps [of ?start host_a 32 env_ok thread_io] s1
  have w1: "map_sum id snd (smtp_engine_thread 32 env_ok thread_io ?start) =
     Inr [Thread_add_read F_smtp_get_line_cb 7 5000000, Thread_del_write]"
    by (simp add: thread_io_def host_a_def)
  from smtp_engine_thread_steps [of checker_greeted host_a 32 env_ok thread_io] s2 s2'
  have w2: "map_sum id snd (smtp_engine_thread 32 env_ok thread_io checker_greeted) =
     Inr [Thread_add_write F_smtp_put_line_cb 7 5000000, Thread_del_read] \<and>
     take (32 - 1) (''HELO '' @ c_str (helo_name (data checker_greeted)) @ CRLF) =
       ''HELO '' @ c_str (helo_name (data checker_greeted)) @ CRLF"
    by (simp add: thread_io_def host_a_def)
  have name: "c_str (helo_name (data checker_greeted)) = ''probe''"
    by (simp add: checker_greeted_def checker_connected_def checker_new_def c_str_def NUL_def)
  from smtp_engine_thread_steps [of checker_connected host_a 32 env_ok thread_io] s3
  have w3: "smtp_engine_thread 32 env_ok thread_io checker_connected =
     Inr (smtp_final env_ok thread_io True (Some ''Bad greeting banner from server %s'') checker_connected)"
    by blast
  from smtp_engine_thread_steps [of ?quit host_a 32 env_ok thread_io] s4
  have "smtp_engine_thread 32 env_ok thread_io ?quit = Inr (smtp_final env_ok thread_io False None ?quit)"
    by blast
  then have w4: "map_sum id snd (smtp_engine_thread 32 env_ok thread_io ?quit) =
     Inr [Close 7, Thread_add_timer F_smtp_connect_thread 1]"
    by (simp add: smtp_final_success_eq thread_io_def)
  show ?thesis
    using s1 s2 s3 w1 w2 w3 w4 name by simp
qed

text \<open>
  C1. What \<^verbatim>\<open>smtp_get_status\<close> answers on buffers that begin with white space or a sign:
  \<^verbatim>\<open>strtoul\<close> skips the white space and takes the sign, so two digits after one such byte
  make the three bytes the check counts, and the answer is the number, not \<open>-1\<close>; after a
  minus sign it is a negative number. On the four examples of the claim the answers are those
  the claim gives. (On every buffer that begins with neither white space nor a sign the
  function is the parser of the specification: lemma \<open>smtp_get_status_agrees\<close>.)
\<close>

theorem smtp_get_status_accepts_space_and_sign:
  "smtp_get_status ('' 25 OK'' @ CRLF) = 25 \<and>
   smtp_get_status (''+25 OK'' @ CRLF) = 25 \<and>
   smtp_get_status (''-25 OK'' @ CRLF) = - 25 \<and>
   smtp_get_status [CHR 0x09, CHR 0x0A, CHR ''7''] = 7 \<and>
   smtp_get_status (''250 OK'' @ CRLF) = 250 \<and>
   smtp_get_status (''25 OK'' @ CRLF) = - 1 \<and>
   smtp_get_status (''2500K'' @ CRLF) = - 1 \<and>
   smtp_get_status ''250'' = 250"
  by (simp add: smtp_get_status_def strtoul_def isspace_def isdigit_def decimal_def digit_val_def
        byte_at_def NUL_def SP_def CRLF_def)

theorem smtp_get_status_accepts_space_and_sign_witness:
  "smtp_get_status ('' 25 OK'' @ CRLF) \<noteq> - 1 \<and> smtp_get_status (''-25 OK'' @ CRLF) \<noteq> - 1"
  using smtp_get_status_accepts_space_and_sign by simp

text \<open>
  C2. What the read callback does once the buffer is full without a line end. The peer sends
  40 bytes with no line end to a checker with a buffer of 32 bytes. The first wake-up reads
  32 bytes and waits again. At the second the guard \<^verbatim>\<open>buff_ctr > SMTP_BUFF_MAX\<close> is false
  (the cursor equals the size), \<^verbatim>\<open>read\<close> is asked for 0 bytes and returns 0, and the callback
  calls \<^verbatim>\<open>smtp_final\<close> with the read-failure error: the buffer is not cleared, no overflow is
  logged, and the attempt counts as failed (the retry counter is 1).
\<close>

theorem full_buffer_is_a_read_failure:
  "map_sum id snd
     (run 32 [Call F_smtp_get_line_cb thread_io env_flood,
              Call F_smtp_get_line_cb thread_io env_flood] checker_connected) =
     Inr [Read 7 32, Thread_add_read F_smtp_get_line_cb 7 5000000,
          Read 7 0, Close 7, Log_message ''SMTP_CHECK Read failure from server %s'',
          Thread_add_timer F_smtp_connect_thread 2000000] \<and>
   map_sum id (data \<circ> fst)
     (run 32 [Call F_smtp_get_line_cb thread_io env_flood,
              Call F_smtp_get_line_cb thread_io env_flood] checker_connected) =
     Inr ((data checker_connected)\<lparr>buff := replicate 32 (CHR ''x''), buff_ctr := 32\<rparr>) \<and>
   map_sum id (retry_it \<circ> fst)
     (run 32 [Call F_smtp_get_line_cb thread_io env_flood,
              Call F_smtp_get_line_cb thread_io env_flood] checker_connected) = Inr 1"
  by (simp add: concrete_defs callback_defs env_flood_def checker_connected_def)

theorem full_buffer_is_a_read_failure_witness:
  "map_sum id snd
     (run 32 [Call F_smtp_get_line_cb thread_io env_flood,
              Call F_smtp_get_line_cb thread_io env_flood] checker_connected) \<noteq>
     Inr [Read 7 32, Thread_add_read F_smtp_get_line_cb 7 5000000,
          overflow_log, Read 7 32, Thread_add_read F_smtp_get_line_cb 7 5000000]"
  using full_buffer_is_a_read_failure by simp

end
